theory Spec2Isabelle
  imports Complex_Main
begin

section \<open>The virtual joystick of \<open>virtual_joyistick_asets.h\<close>\<close>

text \<open>
  A shallow embedding of the input-to-output state machine of the header-only SDL2
  virtual joystick: the vector helpers, the region tests, the update and reset
  routines, creation, the window-size setter and the event handler.

  The C code computes in \<open>float\<close>. The model computes in IEEE binary32 with round to
  nearest, ties to even, one rounding for each operation of the source (no fused
  multiply-add, no wider intermediate precision): a \<open>float\<close> is
  a finite number, an infinity or NaN, and every operation follows the IEEE rules for
  them, so a division by zero is an infinity or NaN and the computation goes on, as in
  C. The two zeros of binary32 are one zero here: the code cannot tell them apart (the
  only divisor that can be zero is a length, a square root, which is never the negative
  zero). C \<open>int\<close> values are \<open>int\<close>; the only arithmetic the code does on them is
  \<open>radius * radius\<close> and the rectangle test's \<open>x + w\<close>, taken without overflow. The one
  narrowing conversion of the code, from SDL's 64-bit finger identifier to the \<open>int\<close>
  field that stores it, is written out.
\<close>

subsection \<open>The type \<open>float\<close>\<close>

datatype float = Fin real | PInf | NInf | NaN

text \<open>
  Rounding to nearest, ties to even. \<open>binade t\<close> is the exponent of \<open>t\<close> (at least
  \<open>-126\<close>, where the subnormal numbers begin), \<open>ulp t\<close> the spacing of the binary32
  numbers there, with 24 bits of significand. A result of magnitude \<open>2 ^ 128\<close> or
  more is an infinity.
\<close>

definition round_even :: "real \<Rightarrow> int" where
  "round_even m =
     (let f = \<lfloor>m\<rfloor>; d = m - of_int f in
      if d < 1 / 2 then f else if 1 / 2 < d then f + 1 else if even f then f else f + 1)"

definition binade :: "real \<Rightarrow> int" where
  "binade t = max \<lfloor>log 2 \<bar>t\<bar>\<rfloor> (- 126)"

definition ulp :: "real \<Rightarrow> real" where
  "ulp t = 2 powi (binade t - 23)"

definition rnd_r :: "real \<Rightarrow> real" where
  "rnd_r t = (if t = 0 then 0 else of_int (round_even (t / ulp t)) * ulp t)"

definition rnd :: "real \<Rightarrow> float" where
  "rnd t = (let r = rnd_r t in
            if 2 ^ 128 \<le> r then PInf else if r \<le> - (2 ^ 128) then NInf else Fin r)"

fun fneg :: "float \<Rightarrow> float" where
  "fneg (Fin a) = Fin (- a)"
| "fneg PInf = NInf"
| "fneg NInf = PInf"
| "fneg NaN = NaN"

fun fadd :: "float \<Rightarrow> float \<Rightarrow> float" where
  "fadd (Fin a) (Fin b) = rnd (a + b)"
| "fadd NaN _ = NaN"
| "fadd _ NaN = NaN"
| "fadd PInf NInf = NaN"
| "fadd NInf PInf = NaN"
| "fadd PInf _ = PInf"
| "fadd _ PInf = PInf"
| "fadd NInf _ = NInf"
| "fadd _ NInf = NInf"

definition fsub :: "float \<Rightarrow> float \<Rightarrow> float" where
  "fsub a b = fadd a (fneg b)"

fun fmul :: "float \<Rightarrow> float \<Rightarrow> float" where
  "fmul (Fin a) (Fin b) = rnd (a * b)"
| "fmul NaN _ = NaN"
| "fmul _ NaN = NaN"
| "fmul PInf (Fin b) = (if b = 0 then NaN else if 0 < b then PInf else NInf)"
| "fmul NInf (Fin b) = (if b = 0 then NaN else if 0 < b then NInf else PInf)"
| "fmul (Fin a) PInf = (if a = 0 then NaN else if 0 < a then PInf else NInf)"
| "fmul (Fin a) NInf = (if a = 0 then NaN else if 0 < a then NInf else PInf)"
| "fmul PInf PInf = PInf"
| "fmul PInf NInf = NInf"
| "fmul NInf PInf = NInf"
| "fmul NInf NInf = PInf"

fun fdiv :: "float \<Rightarrow> float \<Rightarrow> float" where
  "fdiv (Fin a) (Fin b) =
     (if b = 0 then (if a = 0 then NaN else if 0 < a then PInf else NInf) else rnd (a / b))"
| "fdiv NaN _ = NaN"
| "fdiv _ NaN = NaN"
| "fdiv (Fin a) PInf = Fin 0"
| "fdiv (Fin a) NInf = Fin 0"
| "fdiv PInf (Fin b) = (if 0 \<le> b then PInf else NInf)"
| "fdiv NInf (Fin b) = (if 0 \<le> b then NInf else PInf)"
| "fdiv PInf PInf = NaN"
| "fdiv PInf NInf = NaN"
| "fdiv NInf PInf = NaN"
| "fdiv NInf NInf = NaN"

fun fsqrt :: "float \<Rightarrow> float" where
  "fsqrt (Fin a) = (if a < 0 then NaN else rnd (sqrt a))"
| "fsqrt PInf = PInf"
| "fsqrt NInf = NaN"
| "fsqrt NaN = NaN"

text \<open>The comparisons: each is false when an operand is NaN.\<close>

fun flt :: "float \<Rightarrow> float \<Rightarrow> bool" where
  "flt (Fin a) (Fin b) = (a < b)"
| "flt NaN _ = False"
| "flt _ NaN = False"
| "flt PInf _ = False"
| "flt _ NInf = False"
| "flt _ PInf = True"
| "flt NInf (Fin b) = True"

fun feq :: "float \<Rightarrow> float \<Rightarrow> bool" where
  "feq (Fin a) (Fin b) = (a = b)"
| "feq PInf PInf = True"
| "feq NInf NInf = True"
| "feq _ _ = False"

definition fgt :: "float \<Rightarrow> float \<Rightarrow> bool" where
  "fgt a b = flt b a"

definition fle :: "float \<Rightarrow> float \<Rightarrow> bool" where
  "fle a b \<longleftrightarrow> flt a b \<or> feq a b"

text \<open>
  The conversions. An \<open>int\<close> is rounded to the nearest \<open>float\<close>. The cast \<open>(int)\<close> of a
  \<open>float\<close> truncates towards zero; C leaves it undefined when the value does not fit
  an \<open>int\<close> (or is not a number), where the model returns the least \<open>int\<close>.
\<close>

definition float_of_int :: "int \<Rightarrow> float" where
  "float_of_int n = rnd (of_int n)"

fun int_of_float :: "float \<Rightarrow> int" where
  "int_of_float (Fin f) =
     (let k = (if 0 \<le> f then \<lfloor>f\<rfloor> else \<lceil>f\<rceil>) in
      if - 2147483648 \<le> k \<and> k \<le> 2147483647 then k else - 2147483648)"
| "int_of_float _ = - 2147483648"

subsection \<open>Vector2 and its operations\<close>

datatype Vector2 = Vector2 (vec_x: float) (vec_y: float)

definition Vector2_Length :: "Vector2 \<Rightarrow> float" where
  "Vector2_Length v = fsqrt (fadd (fmul (vec_x v) (vec_x v)) (fmul (vec_y v) (vec_y v)))"

definition Vector2_Normalize :: "Vector2 \<Rightarrow> Vector2" where
  "Vector2_Normalize v =
     (let len = Vector2_Length v in
      if feq len (Fin 0) then Vector2 (Fin 0) (Fin 0)
      else Vector2 (fdiv (vec_x v) len) (fdiv (vec_y v) len))"

definition Vector2_LimitLength :: "Vector2 \<Rightarrow> float \<Rightarrow> Vector2" where
  "Vector2_LimitLength v max_len =
     (let len = Vector2_Length v in
      if fgt len max_len then
        Vector2 (fmul (fdiv (vec_x v) len) max_len) (fmul (fdiv (vec_y v) len) max_len)
      else v)"

subsection \<open>SDL types the joystick uses\<close>

text \<open>
  The SDL2 declarations are not part of the repository; the types are modelled with the
  fields the code reads and writes. \<open>SDL_Rect\<close> is \<open>{int x, y, w, h}\<close>, \<open>SDL_Point\<close>
  is \<open>{int x, y}\<close>, \<open>SDL_FPoint\<close> is \<open>{float x, y}\<close>, \<open>SDL_Color\<close> is four bytes. A
  texture is an object owned through a pointer: it is modelled by what the code puts
  into it (the side of the square, the colour of the disc drawn by the pixel loop) and
  by its colour modulation; \<open>None\<close> is the null pointer.
\<close>

datatype SDL_Rect = SDL_Rect (rect_x: int) (rect_y: int) (rect_w: int) (rect_h: int)

datatype SDL_Point = SDL_Point (point_x: int) (point_y: int)

datatype SDL_FPoint = SDL_FPoint (fpoint_x: float) (fpoint_y: float)

datatype SDL_Color = SDL_Color (col_r: nat) (col_g: nat) (col_b: nat) (col_a: nat)

datatype SDL_Texture =
  SDL_Texture (tex_diameter: int) (tex_disc_color: SDL_Color) (tex_color_mod: "nat \<times> nat \<times> nat")

text \<open>
  Modelled from the spec: the event, which SDL2 declares. Section 6 has it as a tagged
  union of touch-down, touch-up and touch-move, each with a finger identifier and a
  position in normalised space. The code reads \<open>type\<close>, \<open>tfinger.fingerId\<close>,
  \<open>tfinger.x\<close> and \<open>tfinger.y\<close>. The three type codes are SDL2's (only their being
  distinct matters), and the identifier is SDL2's \<open>SDL_FingerID\<close>, a signed 64-bit
  integer.
\<close>

definition SDL_FINGERDOWN :: nat where "SDL_FINGERDOWN = 1792"
definition SDL_FINGERUP :: nat where "SDL_FINGERUP = 1793"
definition SDL_FINGERMOTION :: nat where "SDL_FINGERMOTION = 1794"

record SDL_TouchFingerEvent =
  fingerId :: int
  tfinger_x :: float
  tfinger_y :: float

record SDL_Event =
  event_type :: nat
  tfinger :: SDL_TouchFingerEvent

text \<open>
  Modelled from the spec: \<open>SDL_PointInRect\<close>, which the code calls and SDL2 defines.
  Section 4.2 has it as the half-open, standard rectangle containment.
\<close>

definition SDL_PointInRect :: "SDL_Point \<Rightarrow> SDL_Rect \<Rightarrow> bool" where
  "SDL_PointInRect p r \<longleftrightarrow>
     point_x p \<ge> rect_x r \<and> point_x p < rect_x r + rect_w r \<and>
     point_y p \<ge> rect_y r \<and> point_y p < rect_y r + rect_h r"

text \<open>
  Modelled from the spec: \<open>SDL_SetTextureColorMod\<close>, which the code calls and SDL2
  defines. Sections 4.3 and 4.5 have it as applying a colour to the tip's visual: it
  sets the colour modulation of the texture, and does nothing on a null texture.
\<close>

definition SDL_SetTextureColorMod :: "SDL_Texture option \<Rightarrow> nat \<Rightarrow> nat \<Rightarrow> nat \<Rightarrow> SDL_Texture option" where
  "SDL_SetTextureColorMod texture r g b =
     (case texture of None \<Rightarrow> None
      | Some t \<Rightarrow> Some (SDL_Texture (tex_diameter t) (tex_disc_color t) (r, g, b)))"

text \<open>
  The assignment of a 64-bit \<open>SDL_FingerID\<close> to an \<open>int\<close> keeps the low 32 bits, read
  as two's complement.
\<close>

definition int_of_FingerID :: "int \<Rightarrow> int" where
  "int_of_FingerID f = (f + 2147483648) mod 4294967296 - 2147483648"

subsection \<open>The joystick\<close>

datatype JoystickMode = JOYSTICK_MODE_FIXED | JOYSTICK_MODE_DYNAMIC | JOYSTICK_MODE_FOLLOWING

text \<open>
  The fields of the C struct, in its order. C names that begin with an underscore
  lose it (\<open>_touch_index\<close> is \<open>touch_index\<close>). \<open>renderer\<close> is an opaque handle.
\<close>

record VirtualJoystick =
  renderer :: nat
  joystick_area :: SDL_Rect
  pressed_color :: SDL_Color
  deadzone_size :: float
  clampzone_size :: float
  joystick_mode :: JoystickMode
  is_pressed :: bool
  "output" :: Vector2
  touch_index :: int
  base_texture :: "SDL_Texture option"
  tip_texture :: "SDL_Texture option"
  base_center :: SDL_FPoint
  tip_center :: SDL_FPoint
  base_default_center :: SDL_FPoint
  default_tip_color :: SDL_Color
  base_radius :: int
  tip_radius :: int
  hidden :: bool
  window_width :: int
  window_height :: int

text \<open>
  \<open>create_circle_texture\<close>: \<open>SDL_CreateTexture\<close> may fail; whether it does for a given
  side length is the first argument. A new texture has colour modulation
  \<open>(255, 255, 255)\<close>.
\<close>

definition create_circle_texture :: "(int \<Rightarrow> bool) \<Rightarrow> int \<Rightarrow> SDL_Color \<Rightarrow> SDL_Texture option" where
  "create_circle_texture SDL_CreateTexture_ok radius color =
     (let diameter = radius * 2 in
      if \<not> SDL_CreateTexture_ok diameter then None
      else Some (SDL_Texture diameter color (255, 255, 255)))"

definition is_point_inside_joystick_area :: "VirtualJoystick \<Rightarrow> SDL_FPoint \<Rightarrow> bool" where
  "is_point_inside_joystick_area joystick point =
     (let p = SDL_Point (int_of_float (fpoint_x point)) (int_of_float (fpoint_y point)) in
      SDL_PointInRect p (joystick_area joystick))"

definition is_point_inside_base :: "VirtualJoystick \<Rightarrow> SDL_FPoint \<Rightarrow> bool" where
  "is_point_inside_base joystick point =
     (let dx = fsub (fpoint_x point) (fpoint_x (base_center joystick));
          dy = fsub (fpoint_y point) (fpoint_y (base_center joystick)) in
      fle (fadd (fmul dx dx) (fmul dy dy))
          (float_of_int (base_radius joystick * base_radius joystick)))"

definition move_base :: "VirtualJoystick \<Rightarrow> SDL_FPoint \<Rightarrow> VirtualJoystick" where
  "move_base joystick new_center = joystick\<lparr>base_center := new_center\<rparr>"

definition move_tip :: "VirtualJoystick \<Rightarrow> SDL_FPoint \<Rightarrow> VirtualJoystick" where
  "move_tip joystick new_center = joystick\<lparr>tip_center := new_center\<rparr>"

text \<open>
  \<open>_update_joystick_logic\<close>: the raw vector, its clamping, the move of the base in
  Following mode, the tip, and the output.
\<close>

definition update_joystick_logic :: "VirtualJoystick \<Rightarrow> SDL_FPoint \<Rightarrow> VirtualJoystick" where
  "update_joystick_logic joystick touch_position =
     (let vector_from_base_center =
            Vector2 (fsub (fpoint_x touch_position) (fpoint_x (base_center joystick)))
                    (fsub (fpoint_y touch_position) (fpoint_y (base_center joystick)));
          clamped_vector = Vector2_LimitLength vector_from_base_center (clampzone_size joystick);
          joystick1 =
            (if joystick_mode joystick = JOYSTICK_MODE_FOLLOWING \<and>
                fgt (Vector2_Length vector_from_base_center) (clampzone_size joystick)
             then move_base joystick
                    (SDL_FPoint (fsub (fpoint_x touch_position) (vec_x clamped_vector))
                                (fsub (fpoint_y touch_position) (vec_y clamped_vector)))
             else joystick);
          joystick2 =
            move_tip joystick1
              (SDL_FPoint (fadd (fpoint_x (base_center joystick1)) (vec_x clamped_vector))
                          (fadd (fpoint_y (base_center joystick1)) (vec_y clamped_vector)))
      in
      if fgt (Vector2_Length clamped_vector) (deadzone_size joystick2) then
        (let normalized_vector = Vector2_Normalize clamped_vector;
             effective_length = fsub (Vector2_Length clamped_vector) (deadzone_size joystick2);
             max_effective_length = fsub (clampzone_size joystick2) (deadzone_size joystick2) in
         if fle max_effective_length (Fin 0) then
           joystick2\<lparr>is_pressed := True, output := Vector2 (Fin 0) (Fin 0)\<rparr>
         else
           joystick2\<lparr>is_pressed := True,
                     output := Vector2
                       (fmul (vec_x normalized_vector) (fdiv effective_length max_effective_length))
                       (fmul (vec_y normalized_vector) (fdiv effective_length max_effective_length))\<rparr>)
      else joystick2\<lparr>is_pressed := False, output := Vector2 (Fin 0) (Fin 0)\<rparr>)"

definition reset_joystick :: "VirtualJoystick \<Rightarrow> VirtualJoystick" where
  "reset_joystick joystick =
     (let joystick1 = joystick\<lparr>is_pressed := False, output := Vector2 (Fin 0) (Fin 0),
                               touch_index := - 1\<rparr>;
          joystick2 = joystick1\<lparr>tip_texture :=
                        SDL_SetTextureColorMod (tip_texture joystick1)
                          (col_r (default_tip_color joystick1))
                          (col_g (default_tip_color joystick1))
                          (col_b (default_tip_color joystick1))\<rparr>;
          joystick3 = move_base joystick2 (base_default_center joystick2);
          joystick4 = move_tip joystick3 (base_default_center joystick3)
      in joystick4\<lparr>hidden := True\<rparr>)"

text \<open>
  \<open>VirtualJoystick_Create\<close>. \<open>malloc_ok\<close> and \<open>SDL_CreateTexture_ok\<close> are the outcomes
  of the two allocations the function depends on; \<open>None\<close> is the null result. The
  base radius is computed in \<open>double\<close>, where a quarter of an \<open>int\<close> is exact; the tip
  radius in \<open>float\<close>, with the literal \<open>0.6f\<close> the \<open>float\<close> nearest to 6/10.
\<close>

definition VirtualJoystick_Create ::
  "bool \<Rightarrow> (int \<Rightarrow> bool) \<Rightarrow> nat \<Rightarrow> int \<Rightarrow> int \<Rightarrow> int \<Rightarrow> int \<Rightarrow> int \<Rightarrow> int \<Rightarrow> VirtualJoystick option" where
  "VirtualJoystick_Create malloc_ok SDL_CreateTexture_ok renderer_h x y width height win_width win_height =
     (if \<not> malloc_ok then None
      else
        let b_radius = int_of_float (Fin (min (real_of_int width) (real_of_int height) * (1 / 4)));
            t_radius = int_of_float (fmul (float_of_int b_radius) (rnd (6 / 10)));
            tip_color = SDL_Color 200 200 200 180;
            b_texture = create_circle_texture SDL_CreateTexture_ok b_radius (SDL_Color 50 50 50 180);
            t_texture = create_circle_texture SDL_CreateTexture_ok t_radius tip_color;
            area = SDL_Rect x y width height;
            default_center =
              SDL_FPoint (fadd (float_of_int (rect_x area)) (fdiv (float_of_int (rect_w area)) (Fin 2)))
                         (fadd (float_of_int (rect_y area)) (fdiv (float_of_int (rect_h area)) (Fin 2)))
        in
        if b_texture = None \<or> t_texture = None then None
        else Some \<lparr>renderer = renderer_h,
                   joystick_area = area,
                   pressed_color = SDL_Color 100 100 100 180,
                   deadzone_size = Fin 10,
                   clampzone_size = Fin 75,
                   joystick_mode = JOYSTICK_MODE_DYNAMIC,
                   is_pressed = False,
                   output = Vector2 (Fin 0) (Fin 0),
                   touch_index = - 1,
                   base_texture = b_texture,
                   tip_texture = t_texture,
                   base_center = default_center,
                   tip_center = default_center,
                   base_default_center = default_center,
                   default_tip_color = tip_color,
                   base_radius = b_radius,
                   tip_radius = t_radius,
                   hidden = True,
                   window_width = win_width,
                   window_height = win_height\<rparr>)"

text \<open>\<open>VirtualJoystick_SetWindowSize\<close>: the argument may be the null pointer.\<close>

definition VirtualJoystick_SetWindowSize ::
  "VirtualJoystick option \<Rightarrow> int \<Rightarrow> int \<Rightarrow> VirtualJoystick option" where
  "VirtualJoystick_SetWindowSize joystick width height =
     (case joystick of None \<Rightarrow> None
      | Some j \<Rightarrow> Some (j\<lparr>window_width := width, window_height := height\<rparr>))"

text \<open>
  \<open>VirtualJoystick_HandleEvent\<close>. \<open>touch_pos_of\<close> is the conversion of the event's
  normalised coordinates to pixels, which the C function writes out in two of its
  cases: the product of a \<open>float\<close> and an \<open>int\<close> converted to \<open>float\<close>. The comparison
  \<open>fingerId == _touch_index\<close> is made at 64 bits, between the event's identifier and
  the stored \<open>int\<close>.
\<close>

definition touch_pos_of :: "VirtualJoystick \<Rightarrow> SDL_Event \<Rightarrow> SDL_FPoint" where
  "touch_pos_of joystick event =
     SDL_FPoint (fmul (tfinger_x (tfinger event)) (float_of_int (window_width joystick)))
                (fmul (tfinger_y (tfinger event)) (float_of_int (window_height joystick)))"

definition VirtualJoystick_HandleEvent :: "VirtualJoystick \<Rightarrow> SDL_Event \<Rightarrow> VirtualJoystick" where
  "VirtualJoystick_HandleEvent joystick event =
     (if hidden joystick \<and> event_type event \<noteq> SDL_FINGERDOWN then joystick
      else if event_type event = SDL_FINGERDOWN then
        let touch_pos = touch_pos_of joystick event in
        if is_point_inside_joystick_area joystick touch_pos \<and> touch_index joystick = - 1 then
          let should_activate =
                (if joystick_mode joystick = JOYSTICK_MODE_DYNAMIC \<or>
                    joystick_mode joystick = JOYSTICK_MODE_FOLLOWING then True
                 else if joystick_mode joystick = JOYSTICK_MODE_FIXED \<and>
                         is_point_inside_base joystick touch_pos then True
                 else False) in
          if should_activate then
            let joystick1 =
                  (if joystick_mode joystick = JOYSTICK_MODE_DYNAMIC \<or>
                      joystick_mode joystick = JOYSTICK_MODE_FOLLOWING
                   then move_base joystick touch_pos else joystick);
                joystick2 = joystick1\<lparr>touch_index := int_of_FingerID (fingerId (tfinger event))\<rparr>;
                joystick3 = joystick2\<lparr>hidden := False\<rparr>;
                joystick4 = joystick3\<lparr>tip_texture :=
                              SDL_SetTextureColorMod (tip_texture joystick3)
                                (col_r (pressed_color joystick3))
                                (col_g (pressed_color joystick3))
                                (col_b (pressed_color joystick3))\<rparr>
            in update_joystick_logic joystick4 touch_pos
          else joystick
        else joystick
      else if event_type event = SDL_FINGERUP then
        (if fingerId (tfinger event) = touch_index joystick then reset_joystick joystick
         else joystick)
      else if event_type event = SDL_FINGERMOTION then
        (if fingerId (tfinger event) = touch_index joystick
         then update_joystick_logic joystick (touch_pos_of joystick event)
         else joystick)
      else joystick)"

subsection \<open>Notions the properties are stated with\<close>

text \<open>
  \<open>update_output\<close> is the output block of the update routine (its last \<open>if\<close>), as a
  function of the state it finds and of the clamped vector: the update routine ends
  with it (lemma \<open>update_joystick_logic_alt\<close>).
  \<open>raw_vector\<close> is the C local \<open>vector_from_base_center\<close> and \<open>clamped\<close> the C
  local \<open>clamped_vector\<close>; \<open>follows\<close> is the
  condition under which the update routine moves the base. \<open>activation_gate\<close> is the
  conjunction of the tests a touch-down passes before the handler activates the
  joystick, and \<open>activated\<close> the state the handler has built when it calls the update
  routine.
\<close>

definition update_output :: "VirtualJoystick \<Rightarrow> Vector2 \<Rightarrow> VirtualJoystick" where
  "update_output joystick clamped_vector =
     (if fgt (Vector2_Length clamped_vector) (deadzone_size joystick) then
        (let normalized_vector = Vector2_Normalize clamped_vector;
             effective_length = fsub (Vector2_Length clamped_vector) (deadzone_size joystick);
             max_effective_length = fsub (clampzone_size joystick) (deadzone_size joystick) in
         if fle max_effective_length (Fin 0) then
           joystick\<lparr>is_pressed := True, output := Vector2 (Fin 0) (Fin 0)\<rparr>
         else
           joystick\<lparr>is_pressed := True,
                    output := Vector2
                      (fmul (vec_x normalized_vector) (fdiv effective_length max_effective_length))
                      (fmul (vec_y normalized_vector) (fdiv effective_length max_effective_length))\<rparr>)
      else joystick\<lparr>is_pressed := False, output := Vector2 (Fin 0) (Fin 0)\<rparr>)"

definition raw_vector :: "VirtualJoystick \<Rightarrow> SDL_FPoint \<Rightarrow> Vector2" where
  "raw_vector j p =
     Vector2 (fsub (fpoint_x p) (fpoint_x (base_center j)))
             (fsub (fpoint_y p) (fpoint_y (base_center j)))"

definition clamped :: "VirtualJoystick \<Rightarrow> SDL_FPoint \<Rightarrow> Vector2" where
  "clamped j p = Vector2_LimitLength (raw_vector j p) (clampzone_size j)"

definition follows :: "VirtualJoystick \<Rightarrow> SDL_FPoint \<Rightarrow> bool" where
  "follows j p \<longleftrightarrow> joystick_mode j = JOYSTICK_MODE_FOLLOWING \<and>
     fgt (Vector2_Length (raw_vector j p)) (clampzone_size j)"

definition activated :: "VirtualJoystick \<Rightarrow> SDL_Event \<Rightarrow> VirtualJoystick" where
  "activated j e =
     j\<lparr>base_center := (if joystick_mode j = JOYSTICK_MODE_FIXED then base_center j
                        else touch_pos_of j e),
       touch_index := int_of_FingerID (fingerId (tfinger e)),
       hidden := False,
       tip_texture := SDL_SetTextureColorMod (tip_texture j)
                        (col_r (pressed_color j)) (col_g (pressed_color j)) (col_b (pressed_color j))\<rparr>"

definition activation_gate :: "VirtualJoystick \<Rightarrow> SDL_Event \<Rightarrow> bool" where
  "activation_gate j e \<longleftrightarrow>
     is_point_inside_joystick_area j (touch_pos_of j e) \<and> touch_index j = - 1 \<and>
     (joystick_mode j = JOYSTICK_MODE_DYNAMIC \<or> joystick_mode j = JOYSTICK_MODE_FOLLOWING \<or>
      (joystick_mode j = JOYSTICK_MODE_FIXED \<and> is_point_inside_base j (touch_pos_of j e)))"

text \<open>
  The invariants of the data model. Magnitudes and distances are the exact Euclidean
  ones, of the numbers the \<open>float\<close> values stand for (\<open>float_val\<close>, of a finite
  \<open>float\<close>); \<open>Vector2_Length\<close> is the rounded length that the code computes.
  \<open>bounded_point B p\<close> says that the coordinates of \<open>p\<close> are finite and of magnitude at
  most \<open>B\<close>.
\<close>

definition is_finite :: "float \<Rightarrow> bool" where
  "is_finite f = (case f of Fin r \<Rightarrow> True | _ \<Rightarrow> False)"

definition float_val :: "float \<Rightarrow> real" where
  "float_val f = (case f of Fin r \<Rightarrow> r | _ \<Rightarrow> 0)"

definition finite_vec :: "Vector2 \<Rightarrow> bool" where
  "finite_vec v \<longleftrightarrow> is_finite (vec_x v) \<and> is_finite (vec_y v)"

definition finite_point :: "SDL_FPoint \<Rightarrow> bool" where
  "finite_point p \<longleftrightarrow> is_finite (fpoint_x p) \<and> is_finite (fpoint_y p)"

definition magnitude :: "Vector2 \<Rightarrow> real" where
  "magnitude v = sqrt ((float_val (vec_x v))\<^sup>2 + (float_val (vec_y v))\<^sup>2)"

definition distance :: "SDL_FPoint \<Rightarrow> SDL_FPoint \<Rightarrow> real" where
  "distance p q =
     sqrt ((float_val (fpoint_x p) - float_val (fpoint_x q))\<^sup>2 +
           (float_val (fpoint_y p) - float_val (fpoint_y q))\<^sup>2)"

definition bounded_point :: "real \<Rightarrow> SDL_FPoint \<Rightarrow> bool" where
  "bounded_point B p \<longleftrightarrow> finite_point p \<and> \<bar>float_val (fpoint_x p)\<bar> \<le> B \<and> \<bar>float_val (fpoint_y p)\<bar> \<le> B"

definition tip_distance :: "VirtualJoystick \<Rightarrow> real" where
  "tip_distance j = distance (tip_center j) (base_center j)"

definition released_zero :: "VirtualJoystick \<Rightarrow> bool" where
  "released_zero j \<longleftrightarrow> (\<not> is_pressed j \<longrightarrow> output j = Vector2 (Fin 0) (Fin 0))"

definition hidden_idle :: "VirtualJoystick \<Rightarrow> bool" where
  "hidden_idle j \<longleftrightarrow>
     (hidden j \<longrightarrow>
        \<not> is_pressed j \<and> touch_index j = - 1 \<and>
        base_center j = base_default_center j \<and> tip_center j = base_default_center j)"

subsection \<open>Example states and events\<close>

text \<open>
  The joystick that \<open>VirtualJoystick_Create\<close> returns for the area \<open>(0, 0, 200, 600)\<close>
  in a 1024 by 1024 window, and a finger event with given type, identifier and
  normalised coordinates.
\<close>

definition example_joystick :: VirtualJoystick where
  "example_joystick =
     \<lparr>renderer = 0,
      joystick_area = SDL_Rect 0 0 200 600,
      pressed_color = SDL_Color 100 100 100 180,
      deadzone_size = Fin 10,
      clampzone_size = Fin 75,
      joystick_mode = JOYSTICK_MODE_DYNAMIC,
      is_pressed = False,
      output = Vector2 (Fin 0) (Fin 0),
      touch_index = - 1,
      base_texture = Some (SDL_Texture 100 (SDL_Color 50 50 50 180) (255, 255, 255)),
      tip_texture = Some (SDL_Texture 60 (SDL_Color 200 200 200 180) (255, 255, 255)),
      base_center = SDL_FPoint (Fin 100) (Fin 300),
      tip_center = SDL_FPoint (Fin 100) (Fin 300),
      base_default_center = SDL_FPoint (Fin 100) (Fin 300),
      default_tip_color = SDL_Color 200 200 200 180,
      base_radius = 50,
      tip_radius = 30,
      hidden = True,
      window_width = 1024,
      window_height = 1024\<rparr>"

definition finger_event :: "nat \<Rightarrow> int \<Rightarrow> real \<Rightarrow> real \<Rightarrow> SDL_Event" where
  "finger_event t f fx fy =
     \<lparr>event_type = t, tfinger = \<lparr>fingerId = f, tfinger_x = Fin fx, tfinger_y = Fin fy\<rparr>\<rparr>"


definition following_joystick :: VirtualJoystick where
  "following_joystick =
     example_joystick\<lparr>joystick_mode := JOYSTICK_MODE_FOLLOWING, hidden := False, touch_index := 7\<rparr>"

definition misconfigured_joystick :: VirtualJoystick where
  "misconfigured_joystick =
     example_joystick\<lparr>deadzone_size := Fin 80, hidden := False, touch_index := 7\<rparr>"

definition active_joystick :: VirtualJoystick where
  "active_joystick =
     example_joystick\<lparr>base_center := SDL_FPoint (Fin 50) (Fin 50),
       tip_center := SDL_FPoint (Fin 50) (Fin 50), hidden := False, touch_index := 7,
       tip_texture := Some (SDL_Texture 60 (SDL_Color 200 200 200 180) (100, 100, 100))\<rparr>"

section \<open>Properties\<close>

subsection \<open>Rounding\<close>

lemma round_even_close: "\<bar>of_int (round_even m) - m\<bar> \<le> 1 / 2"
proof -
  have "of_int \<lfloor>m\<rfloor> \<le> m" "m < of_int \<lfloor>m\<rfloor> + 1" by linarith+
  then show ?thesis by (auto simp add: round_even_def Let_def abs_le_iff)
qed

lemma ulp_pos: "0 < ulp t"
  by (simp add: ulp_def)

lemma rnd_r_close: "\<bar>rnd_r t - t\<bar> \<le> ulp t / 2"
proof (cases "t = 0")
  case True
  then show ?thesis using ulp_pos [of t] by (simp add: rnd_r_def)
next
  case False
  define n where "n = real_of_int (round_even (t / ulp t))"
  have "\<bar>n - t / ulp t\<bar> \<le> 1 / 2" unfolding n_def by (rule round_even_close)
  then have "\<bar>n - t / ulp t\<bar> * ulp t \<le> 1 / 2 * ulp t"
    using ulp_pos [of t] by (intro mult_right_mono) simp_all
  moreover have "\<bar>n - t / ulp t\<bar> * ulp t = \<bar>(n - t / ulp t) * ulp t\<bar>"
    using ulp_pos [of t] by (simp add: abs_mult)
  moreover have "(n - t / ulp t) * ulp t = n * ulp t - t"
    using ulp_pos [of t] by (simp add: algebra_simps)
  ultimately show ?thesis using False by (simp add: rnd_r_def n_def)
qed

lemma powi_powr: "(2::real) powi e = 2 powr of_int e"
  by (simp add: powr_real_of_int')

lemma binade_eq:
  assumes "2 powi e \<le> \<bar>t\<bar>" "\<bar>t\<bar> < 2 powi (e + 1)" "- 126 \<le> e"
  shows "binade t = e"
proof -
  have pos: "0 < \<bar>t\<bar>" using assms(1) by (smt (verit) zero_less_power_int)
  have a1: "2 powr of_int e \<le> \<bar>t\<bar>" using assms(1) by (simp only: powi_powr)
  have a2: "\<bar>t\<bar> < 2 powr of_int (e + 1)" using assms(2) by (simp only: powi_powr)
  have "of_int e \<le> log 2 \<bar>t\<bar>" using a1 pos by (simp add: le_log_iff)
  moreover have "log 2 \<bar>t\<bar> < of_int (e + 1)" using a2 pos by (subst log_less_iff) simp_all
  ultimately have "\<lfloor>log 2 \<bar>t\<bar>\<rfloor> = e" by (simp add: floor_unique)
  with assms(3) show ?thesis by (simp add: binade_def)
qed

lemma binade_sub:
  assumes "\<bar>t\<bar> < 2 powi (- 126)" "t \<noteq> 0"
  shows "binade t = - 126"
proof -
  have a: "\<bar>t\<bar> < 2 powr of_int (- 126)" using assms(1) by (simp only: powi_powr)
  have "log 2 \<bar>t\<bar> < of_int (- 126)" using a assms(2) by (subst log_less_iff) simp_all
  then have "\<lfloor>log 2 \<bar>t\<bar>\<rfloor> < - 126" by linarith
  then show ?thesis by (simp add: binade_def)
qed

lemma binade_ge: "- 126 \<le> binade t"
  by (simp add: binade_def)

lemma ulp_rel:
  assumes "2 powi (- 126) \<le> \<bar>t\<bar>"
  shows "ulp t \<le> \<bar>t\<bar> / 2 ^ 23"
proof -
  have pos: "0 < \<bar>t\<bar>" using assms by (smt (verit) zero_less_power_int)
  have a: "2 powr of_int (- 126) \<le> \<bar>t\<bar>" using assms by (simp only: powi_powr)
  have "of_int (- 126) \<le> log 2 \<bar>t\<bar>" using a pos by (subst le_log_iff) simp_all
  then have "- 126 \<le> \<lfloor>log 2 \<bar>t\<bar>\<rfloor>" by linarith
  then have b: "binade t = \<lfloor>log 2 \<bar>t\<bar>\<rfloor>" by (simp add: binade_def)
  have "of_int \<lfloor>log 2 \<bar>t\<bar>\<rfloor> \<le> log 2 \<bar>t\<bar>" by simp
  then have "2 powr of_int \<lfloor>log 2 \<bar>t\<bar>\<rfloor> \<le> \<bar>t\<bar>" using pos
    by (subst (asm) le_log_iff) simp_all
  then have "2 powi binade t \<le> \<bar>t\<bar>" using b by (simp only: powi_powr)
  then have "2 powi binade t / 2 ^ 23 \<le> \<bar>t\<bar> / 2 ^ 23" by (simp add: divide_right_mono)
  moreover have "(2::real) powi (binade t - 23) = 2 powi binade t / 2 ^ 23"
    by (simp add: power_int_diff)
  ultimately show ?thesis by (simp add: ulp_def)
qed

lemma ulp_sub: "\<bar>t\<bar> < 2 powi (- 126) \<Longrightarrow> t \<noteq> 0 \<Longrightarrow> ulp t = 1 / 2 ^ 149"
  by (simp add: ulp_def binade_sub)

text \<open>The standard model of a rounded operation.\<close>

lemma rnd_r_error: "\<bar>rnd_r t - t\<bar> \<le> \<bar>t\<bar> / 2 ^ 24 + 1 / 2 ^ 150"
proof (cases "t = 0")
  case True
  then show ?thesis by (simp add: rnd_r_def)
next
  case False
  show ?thesis
  proof (cases "2 powi (- 126) \<le> \<bar>t\<bar>")
    case True
    then have "ulp t / 2 \<le> \<bar>t\<bar> / 2 ^ 24" using ulp_rel [OF True] by simp
    then show ?thesis using rnd_r_close [of t] by simp
  next
    case False
    then have "ulp t / 2 = 1 / 2 ^ 150" using ulp_sub [of t] \<open>t \<noteq> 0\<close> by simp
    then show ?thesis using rnd_r_close [of t] by (smt (verit) divide_nonneg_pos zero_less_power abs_ge_zero)
  qed
qed

lemma rnd_r_eval:
  assumes "2 powi e \<le> \<bar>t\<bar>" "\<bar>t\<bar> < 2 powi (e + 1)" "- 126 \<le> e"
  shows "rnd_r t = of_int (round_even (t / 2 powi (e - 23))) * 2 powi (e - 23)"
proof -
  have "t \<noteq> 0" using assms(1) by (smt (verit) zero_less_power_int)
  then show ?thesis by (simp add: rnd_r_def ulp_def binade_eq [OF assms])
qed

lemma rnd_r_eval_sub:
  assumes "\<bar>t\<bar> < 2 powi (- 126)"
  shows "rnd_r t = of_int (round_even (t * 2 ^ 149)) / 2 ^ 149"
proof (cases "t = 0")
  case True
  then show ?thesis by (simp add: rnd_r_def round_even_def)
next
  case False
  have u: "ulp t = 1 / 2 ^ 149" using assms False by (rule ulp_sub)
  have "t / ulp t = t * 2 ^ 149" unfolding u by simp
  then show ?thesis using False unfolding rnd_r_def u by simp
qed


lemma round_even_of_int [simp]: "round_even (of_int z) = z"
  by (simp add: round_even_def)

lemma round_even_sign:
  "0 \<le> m \<Longrightarrow> 0 \<le> round_even m" "m \<le> 0 \<Longrightarrow> round_even m \<le> 0"
proof -
  have f: "of_int \<lfloor>m\<rfloor> \<le> m" "m < of_int \<lfloor>m\<rfloor> + 1" by linarith+
  show "0 \<le> m \<Longrightarrow> 0 \<le> round_even m"
    using f by (auto simp add: round_even_def Let_def)
  show "m \<le> 0 \<Longrightarrow> round_even m \<le> 0"
    using f by (auto simp add: round_even_def Let_def; linarith)
qed

lemma rnd_r_sign:
  "0 \<le> t \<Longrightarrow> 0 \<le> rnd_r t" "t \<le> 0 \<Longrightarrow> rnd_r t \<le> 0"
proof -
  show "0 \<le> t \<Longrightarrow> 0 \<le> rnd_r t"
    using ulp_pos [of t] round_even_sign(1) [of "t / ulp t"]
    by (simp add: rnd_r_def)
  show "t \<le> 0 \<Longrightarrow> rnd_r t \<le> 0"
    using ulp_pos [of t] round_even_sign(2) [of "t / ulp t"]
    by (simp add: rnd_r_def mult_le_0_iff divide_le_0_iff)
qed

lemma rnd_cases:
  "rnd t = Fin (rnd_r t) \<or> (rnd t = PInf \<and> 0 < t) \<or> (rnd t = NInf \<and> t < 0)"
proof -
  have "2 ^ 128 \<le> rnd_r t \<Longrightarrow> 0 < t"
    using rnd_r_sign(2) [of t] by (smt (verit) zero_less_power)
  moreover have "rnd_r t \<le> - (2 ^ 128) \<Longrightarrow> t < 0"
    using rnd_r_sign(1) [of t] by (smt (verit) zero_less_power)
  ultimately show ?thesis by (auto simp add: rnd_def Let_def)
qed

lemma rnd_zero [simp]: "rnd 0 = Fin 0"
  by (simp add: rnd_def rnd_r_def)

lemma binade_le:
  assumes "\<bar>t\<bar> < 2 powi (e + 1)" "- 126 \<le> e" "t \<noteq> 0"
  shows "binade t \<le> e"
proof -
  have False: "t \<noteq> 0" by (rule assms(3))
  have a: "\<bar>t\<bar> < 2 powr of_int (e + 1)" using assms(1) by (simp only: powi_powr)
  have "log 2 \<bar>t\<bar> < of_int (e + 1)" using a False by (subst log_less_iff) simp_all
  then have "\<lfloor>log 2 \<bar>t\<bar>\<rfloor> \<le> e" by linarith
  with assms(2) show ?thesis by (simp add: binade_def)
qed

text \<open>A number with 24 significant bits, in range, is a \<open>float\<close>: rounding keeps it.\<close>

lemma rnd_r_exact:
  assumes "t = of_int m * 2 powi k" "\<bar>m\<bar> < 2 ^ 24" "- 149 \<le> k"
  shows "rnd_r t = t"
proof (cases "t = 0")
  case True
  then show ?thesis by (simp add: rnd_r_def)
next
  case False
  define e where "e = max (k + 23) (- 126)"
  have "\<bar>t\<bar> = \<bar>of_int m\<bar> * 2 powi k" by (simp add: assms(1) abs_mult)
  also have "\<dots> < 2 ^ 24 * 2 powi k"
    using assms(2) by (intro mult_strict_right_mono) simp_all
  also have "\<dots> = 2 powi (k + 24)" by (simp add: power_int_add)
  also have "\<dots> \<le> 2 powi (e + 1)" by (intro power_int_increasing) (simp_all add: e_def)
  finally have "binade t \<le> e" using False by (intro binade_le) (simp_all add: e_def)
  then have le: "binade t - 23 \<le> k" using assms(3) binade_ge [of t] by (simp add: e_def split: if_splits)
  define d where "d = nat (k - (binade t - 23))"
  define u where "u = ulp t"
  have u: "u = 2 powi (k - int d)" using le by (simp add: u_def ulp_def d_def)
  have "(2::real) powi k = 2 powi (k - int d + int d)" by simp
  also have "\<dots> = 2 powi (k - int d) * 2 ^ d"
    by (subst power_int_add) simp_all
  finally have k: "(2::real) powi k = u * 2 ^ d" by (simp add: u)
  have upos: "0 < u" by (simp add: u)
  have t: "t = of_int (m * 2 ^ d) * u" by (simp add: assms(1) k)
  then have "t / u = of_int (m * 2 ^ d)" using upos by simp
  then have "round_even (t / u) = m * 2 ^ d" by (simp only: round_even_of_int)
  then have "rnd_r t = of_int (m * 2 ^ d) * u" using False by (simp add: rnd_r_def u_def)
  with t show ?thesis by simp
qed

lemma rnd_r_int: "\<bar>n\<bar> < 2 ^ 24 \<Longrightarrow> rnd_r (of_int n) = of_int n"
  using rnd_r_exact [of "of_int n" n 0] by simp

lemma rnd_int: "\<bar>n\<bar> < 2 ^ 24 \<Longrightarrow> rnd (of_int n) = Fin (of_int n)"
proof -
  assume a: "\<bar>n\<bar> < 2 ^ 24"
  then have "\<bar>real_of_int n\<bar> < 2 ^ 24" by (metis of_int_abs of_int_less_numeral_power_cancel_iff)
  moreover have "(2::real) ^ 24 \<le> 2 ^ 128" by simp
  ultimately have "\<bar>real_of_int n\<bar> < 2 ^ 128" by linarith
  then show ?thesis using a by (simp add: rnd_def rnd_r_int abs_less_iff)
qed

lemma rnd_numeral:
  "numeral k < (2::int) ^ 24 \<Longrightarrow> rnd (numeral k) = Fin (numeral k)"
  "numeral k < (2::int) ^ 24 \<Longrightarrow> rnd (- numeral k) = Fin (- numeral k)"
  "rnd 1 = Fin 1" "rnd (- 1) = Fin (- 1)"
  using rnd_int [of "numeral k"] rnd_int [of "- numeral k"] rnd_int [of 1] rnd_int [of "- 1"]
  by simp_all

text \<open>
  The defining equations of the operations, which a proof that computes with given
  steps sets aside.
\<close>

lemmas float_ops = fadd.simps fmul.simps fdiv.simps fsqrt.simps

subsection \<open>The comparisons\<close>

lemma fgt_not_fle: "fle a b \<Longrightarrow> \<not> fgt a b"
  by (cases a; cases b) (auto simp add: fle_def fgt_def)

lemma fle_refl_iff: "fle a a \<longleftrightarrow> a \<noteq> NaN"
  by (cases a) (simp_all add: fle_def)

lemma fgt_NaN [simp]: "\<not> fgt NaN b" "\<not> fgt a NaN"
  by (cases b; simp add: fgt_def) (cases a; simp add: fgt_def)

lemma fle_NaN [simp]: "\<not> fle NaN b" "\<not> fle a NaN"
  by (cases b; simp add: fle_def) (cases a; simp add: fle_def)

lemma fgt_PInf [simp]: "\<not> fgt a PInf"
  by (cases a) (simp_all add: fgt_def)

lemma fle_Fin [simp]: "fle (Fin a) (Fin b) \<longleftrightarrow> a \<le> b"
  by (auto simp add: fle_def)

lemma fgt_Fin [simp]: "fgt (Fin a) (Fin b) \<longleftrightarrow> b < a"
  by (simp add: fgt_def)

subsection \<open>The vector helpers and the output block\<close>

lemma Vector2_Length_not_NInf: "Vector2_Length v \<noteq> NInf"
proof -
  have "fsqrt a \<noteq> NInf" for a
  proof (cases a)
    case (Fin r)
    then show ?thesis using rnd_cases [of "sqrt r"] by (auto simp add: not_less)
  qed simp_all
  then show ?thesis by (simp add: Vector2_Length_def)
qed

lemma Vector2_Normalize_zero:
  "feq (Vector2_Length v) (Fin 0) \<Longrightarrow> Vector2_Normalize v = Vector2 (Fin 0) (Fin 0)"
  by (simp add: Vector2_Normalize_def)

lemma Vector2_LimitLength_within:
  "fle (Vector2_Length v) max_len \<Longrightarrow> Vector2_LimitLength v max_len = v"
  by (simp add: Vector2_LimitLength_def fgt_not_fle)

lemma Vector2_LimitLength_not_beyond:
  "\<not> fgt (Vector2_Length v) max_len \<Longrightarrow> Vector2_LimitLength v max_len = v"
  by (simp add: Vector2_LimitLength_def)

lemma update_output_released:
  "\<not> fgt (Vector2_Length c) (deadzone_size j) \<Longrightarrow>
   update_output j c = j\<lparr>is_pressed := False, output := Vector2 (Fin 0) (Fin 0)\<rparr>"
  by (simp add: update_output_def)

lemma update_output_misconfigured:
  "fgt (Vector2_Length c) (deadzone_size j) \<Longrightarrow>
   fle (fsub (clampzone_size j) (deadzone_size j)) (Fin 0) \<Longrightarrow>
   update_output j c = j\<lparr>is_pressed := True, output := Vector2 (Fin 0) (Fin 0)\<rparr>"
  by (simp add: update_output_def)

lemma update_output_pressed:
  "fgt (Vector2_Length c) (deadzone_size j) \<Longrightarrow>
   \<not> fle (fsub (clampzone_size j) (deadzone_size j)) (Fin 0) \<Longrightarrow>
   update_output j c =
     j\<lparr>is_pressed := True,
       output := Vector2
         (fmul (vec_x (Vector2_Normalize c))
            (fdiv (fsub (Vector2_Length c) (deadzone_size j))
                  (fsub (clampzone_size j) (deadzone_size j))))
         (fmul (vec_y (Vector2_Normalize c))
            (fdiv (fsub (Vector2_Length c) (deadzone_size j))
                  (fsub (clampzone_size j) (deadzone_size j))))\<rparr>"
  by (simp add: update_output_def Let_def)

lemma update_output_shape:
  "\<exists>b out. update_output j c = j\<lparr>is_pressed := b, output := out\<rparr> \<and>
     (\<not> b \<longrightarrow> out = Vector2 (Fin 0) (Fin 0)) \<and>
     (b \<longleftrightarrow> fgt (Vector2_Length c) (deadzone_size j))"
proof (cases "fgt (Vector2_Length c) (deadzone_size j)")
  case False
  then show ?thesis using update_output_released [of c j] by auto
next
  case True
  show ?thesis
  proof (cases "fle (fsub (clampzone_size j) (deadzone_size j)) (Fin 0)")
    case True
    with \<open>fgt (Vector2_Length c) (deadzone_size j)\<close> show ?thesis
      using update_output_misconfigured [of c j] by auto
  next
    case False
    with \<open>fgt (Vector2_Length c) (deadzone_size j)\<close> show ?thesis
      using update_output_pressed [of c j] by auto
  qed
qed

subsection \<open>The update routine\<close>

text \<open>The update routine is the clamping, the moves, and then the output block.\<close>

lemma update_joystick_logic_alt:
  "update_joystick_logic joystick touch_position =
     (let vector_from_base_center = raw_vector joystick touch_position;
          clamped_vector = Vector2_LimitLength vector_from_base_center (clampzone_size joystick);
          joystick1 =
            (if joystick_mode joystick = JOYSTICK_MODE_FOLLOWING \<and>
                fgt (Vector2_Length vector_from_base_center) (clampzone_size joystick)
             then move_base joystick
                    (SDL_FPoint (fsub (fpoint_x touch_position) (vec_x clamped_vector))
                                (fsub (fpoint_y touch_position) (vec_y clamped_vector)))
             else joystick);
          joystick2 =
            move_tip joystick1
              (SDL_FPoint (fadd (fpoint_x (base_center joystick1)) (vec_x clamped_vector))
                          (fadd (fpoint_y (base_center joystick1)) (vec_y clamped_vector)))
      in update_output joystick2 clamped_vector)"
  unfolding update_joystick_logic_def update_output_def raw_vector_def by (rule refl)

text \<open>The same, with the new base centre named and the two moves carried out.\<close>

lemma update_joystick_logic_eq:
  "update_joystick_logic j p =
     (let c = Vector2_LimitLength (raw_vector j p) (clampzone_size j);
          bc = (if follows j p then SDL_FPoint (fsub (fpoint_x p) (vec_x c)) (fsub (fpoint_y p) (vec_y c))
                else base_center j)
      in update_output
           (j\<lparr>base_center := bc,
              tip_center := SDL_FPoint (fadd (fpoint_x bc) (vec_x c)) (fadd (fpoint_y bc) (vec_y c))\<rparr>) c)"
  by (simp add: update_joystick_logic_alt follows_def Let_def move_base_def move_tip_def)

lemma update_joystick_logic_frame:
  "\<exists>bc tc b out.
      update_joystick_logic j p = j\<lparr>base_center := bc, tip_center := tc, is_pressed := b, output := out\<rparr> \<and>
      (\<not> b \<longrightarrow> out = Vector2 (Fin 0) (Fin 0))"
proof -
  define c where "c = Vector2_LimitLength (raw_vector j p) (clampzone_size j)"
  define bc where "bc = (if follows j p then SDL_FPoint (fsub (fpoint_x p) (vec_x c)) (fsub (fpoint_y p) (vec_y c))
                else base_center j)"
  define tc where "tc = SDL_FPoint (fadd (fpoint_x bc) (vec_x c)) (fadd (fpoint_y bc) (vec_y c))"
  define j2 where "j2 = j\<lparr>base_center := bc, tip_center := tc\<rparr>"
  have upd: "update_joystick_logic j p = update_output j2 c"
    by (simp add: update_joystick_logic_eq c_def bc_def tc_def j2_def Let_def)
  obtain b out where "update_output j2 c = j2\<lparr>is_pressed := b, output := out\<rparr>"
      "\<not> b \<longrightarrow> out = Vector2 (Fin 0) (Fin 0)"
    using update_output_shape by blast
  with upd show ?thesis
    by (intro exI [of _ bc] exI [of _ tc] exI [of _ b] exI [of _ out]) (simp add: j2_def)
qed

lemma update_keeps:
  "hidden (update_joystick_logic j p) = hidden j"
  "touch_index (update_joystick_logic j p) = touch_index j"
  "clampzone_size (update_joystick_logic j p) = clampzone_size j"
  "deadzone_size (update_joystick_logic j p) = deadzone_size j"
  "joystick_mode (update_joystick_logic j p) = joystick_mode j"
  "base_default_center (update_joystick_logic j p) = base_default_center j"
  using update_joystick_logic_frame [of j p] by auto

lemma update_released_zero: "released_zero (update_joystick_logic j p)"
  using update_joystick_logic_frame [of j p] by (auto simp add: released_zero_def)

subsection \<open>The event handler\<close>

lemma event_codes_distinct [simp]:
  "SDL_FINGERDOWN \<noteq> SDL_FINGERUP" "SDL_FINGERDOWN \<noteq> SDL_FINGERMOTION"
  "SDL_FINGERUP \<noteq> SDL_FINGERDOWN" "SDL_FINGERUP \<noteq> SDL_FINGERMOTION"
  "SDL_FINGERMOTION \<noteq> SDL_FINGERDOWN" "SDL_FINGERMOTION \<noteq> SDL_FINGERUP"
  by (simp_all add: SDL_FINGERDOWN_def SDL_FINGERUP_def SDL_FINGERMOTION_def)

lemma HandleEvent_hidden:
  "hidden j \<Longrightarrow> event_type e \<noteq> SDL_FINGERDOWN \<Longrightarrow> VirtualJoystick_HandleEvent j e = j"
  by (simp add: VirtualJoystick_HandleEvent_def)

lemma HandleEvent_down_rejected:
  "event_type e = SDL_FINGERDOWN \<Longrightarrow> \<not> activation_gate j e \<Longrightarrow>
   VirtualJoystick_HandleEvent j e = j"
  by (cases "joystick_mode j") (auto simp add: VirtualJoystick_HandleEvent_def activation_gate_def Let_def)

lemma HandleEvent_down_activated:
  "event_type e = SDL_FINGERDOWN \<Longrightarrow> activation_gate j e \<Longrightarrow>
   VirtualJoystick_HandleEvent j e = update_joystick_logic (activated j e) (touch_pos_of j e)"
  by (cases "joystick_mode j")
     (auto simp add: VirtualJoystick_HandleEvent_def activation_gate_def activated_def Let_def move_base_def)

lemma HandleEvent_up:
  "\<not> hidden j \<Longrightarrow> event_type e = SDL_FINGERUP \<Longrightarrow>
   VirtualJoystick_HandleEvent j e =
     (if fingerId (tfinger e) = touch_index j then reset_joystick j else j)"
  by (simp add: VirtualJoystick_HandleEvent_def)

lemma HandleEvent_motion:
  "\<not> hidden j \<Longrightarrow> event_type e = SDL_FINGERMOTION \<Longrightarrow>
   VirtualJoystick_HandleEvent j e =
     (if fingerId (tfinger e) = touch_index j then update_joystick_logic j (touch_pos_of j e)
      else j)"
  by (simp add: VirtualJoystick_HandleEvent_def)

lemma HandleEvent_other:
  "event_type e \<noteq> SDL_FINGERDOWN \<Longrightarrow> event_type e \<noteq> SDL_FINGERUP \<Longrightarrow>
   event_type e \<noteq> SDL_FINGERMOTION \<Longrightarrow> VirtualJoystick_HandleEvent j e = j"
  by (simp add: VirtualJoystick_HandleEvent_def)

lemma reset_joystick_eq:
  "reset_joystick j =
     j\<lparr>is_pressed := False, output := Vector2 (Fin 0) (Fin 0), touch_index := - 1,
       tip_texture := SDL_SetTextureColorMod (tip_texture j)
                        (col_r (default_tip_color j)) (col_g (default_tip_color j))
                        (col_b (default_tip_color j)),
       base_center := base_default_center j, tip_center := base_default_center j,
       hidden := True\<rparr>"
  by (simp add: reset_joystick_def Let_def move_base_def move_tip_def)

text \<open>The possible results of one event: the disjunction a preservation proof splits on.\<close>

lemma HandleEvent_results:
  "VirtualJoystick_HandleEvent j e = j \<or>
   (\<not> hidden j \<and> VirtualJoystick_HandleEvent j e = reset_joystick j) \<or>
   (\<not> hidden j \<and> VirtualJoystick_HandleEvent j e = update_joystick_logic j (touch_pos_of j e)) \<or>
   VirtualJoystick_HandleEvent j e = update_joystick_logic (activated j e) (touch_pos_of j e)"
proof -
  consider (down) "event_type e = SDL_FINGERDOWN"
    | (hid) "hidden j" "event_type e \<noteq> SDL_FINGERDOWN"
    | (up) "\<not> hidden j" "event_type e = SDL_FINGERUP"
    | (motion) "\<not> hidden j" "event_type e = SDL_FINGERMOTION"
    | (other) "event_type e \<noteq> SDL_FINGERDOWN" "event_type e \<noteq> SDL_FINGERUP"
        "event_type e \<noteq> SDL_FINGERMOTION"
    by blast
  then show ?thesis
  proof cases
    case down
    then show ?thesis
      using HandleEvent_down_rejected [of e j] HandleEvent_down_activated [of e j] by blast
  next
    case hid
    then show ?thesis by (simp add: HandleEvent_hidden)
  next
    case up
    then show ?thesis by (simp add: HandleEvent_up)
  next
    case motion
    then show ?thesis by (simp add: HandleEvent_motion)
  next
    case other
    then show ?thesis by (simp add: HandleEvent_other)
  qed
qed

subsection \<open>Creation and reset\<close>

lemma Create_fields:
  assumes "VirtualJoystick_Create m ok rh ax ay width height ww wh = Some j"
  shows "joystick_area j = SDL_Rect ax ay width height" "deadzone_size j = Fin 10"
    "clampzone_size j = Fin 75" "joystick_mode j = JOYSTICK_MODE_DYNAMIC" "\<not> is_pressed j"
    "output j = Vector2 (Fin 0) (Fin 0)" "touch_index j = - 1"
    "base_default_center j =
       SDL_FPoint (fadd (float_of_int ax) (fdiv (float_of_int width) (Fin 2)))
                  (fadd (float_of_int ay) (fdiv (float_of_int height) (Fin 2)))"
    "base_center j = base_default_center j" "tip_center j = base_default_center j"
    "hidden j" "window_width j = ww" "window_height j = wh"
  using assms
  by (auto simp add: VirtualJoystick_Create_def Let_def split: if_splits)

lemma hidden_idle_reset: "hidden_idle (reset_joystick j)"
  by (simp add: hidden_idle_def reset_joystick_eq)

lemma hidden_activated [simp]: "\<not> hidden (activated j e)"
  by (simp add: activated_def)

subsection \<open>Facts about the example states\<close>

lemma Create_example:
  "VirtualJoystick_Create True (\<lambda>_. True) 0 0 0 200 600 1024 1024 = Some example_joystick"
proof -
  have six: "rnd (6 / 10) = Fin (5033165 / 8388608)"
    by (simp add: rnd_def rnd_r_eval [where e = "- 1"] round_even_def)
  have tip: "rnd (50 * (5033165 / 8388608)) = Fin (15728641 / 524288)"
    by (simp add: rnd_def rnd_r_eval [where e = 4] round_even_def)
  show ?thesis
    by (simp add: VirtualJoystick_Create_def example_joystick_def create_circle_texture_def
        Let_def float_of_int_def rnd_numeral six [simplified] tip [simplified])
qed

lemma example_touch_pos:
  "touch_pos_of example_joystick (finger_event t f (25 / 512) (25 / 512)) = SDL_FPoint (Fin 50) (Fin 50)"
  "touch_pos_of example_joystick (finger_event t f (25 / 512) (25 / 256)) = SDL_FPoint (Fin 50) (Fin 100)"
  "touch_pos_of example_joystick (finger_event t f (5 / 512) (5 / 512)) = SDL_FPoint (Fin 10) (Fin 10)"
  by (simp_all add: touch_pos_of_def finger_event_def example_joystick_def float_of_int_def rnd_numeral)

text \<open>Evaluating a rounding and a square root at given numbers.\<close>

lemma round_even_strict:
  assumes "of_int n - 1 / 2 < m" "m < of_int n + 1 / 2"
  shows "round_even m = n"
proof -
  have f: "of_int \<lfloor>m\<rfloor> \<le> m" "m < of_int \<lfloor>m\<rfloor> + 1" by linarith+
  have "\<lfloor>m\<rfloor> = n \<or> \<lfloor>m\<rfloor> = n - 1" using assms f by linarith
  then show ?thesis
  proof
    assume "\<lfloor>m\<rfloor> = n"
    then show ?thesis using assms by (simp add: round_even_def Let_def)
  next
    assume "\<lfloor>m\<rfloor> = n - 1"
    then show ?thesis using assms by (simp add: round_even_def Let_def)
  qed
qed

lemma fsqrt_eval:
  assumes "- 126 \<le> e" "(2 powi e)\<^sup>2 \<le> a" "a < (2 powi (e + 1))\<^sup>2"
    "((of_int n - 1 / 2) * 2 powi (e - 23))\<^sup>2 < a" "a < ((of_int n + 1 / 2) * 2 powi (e - 23))\<^sup>2"
    "0 < n" "of_int n * 2 powi (e - 23) < (2::real) ^ 128"
  shows "fsqrt (Fin a) = Fin (of_int n * 2 powi (e - 23))"
proof -
  define u :: real where "u = 2 powi (e - 23)"
  have upos: "0 < u" by (simp add: u_def)
  have a0: "0 \<le> a" using assms(2) by (smt (verit) zero_le_power2)
  have lo: "2 powi e \<le> sqrt a" using assms(2) by (rule real_le_rsqrt)
  have hi: "sqrt a < 2 powi (e + 1)" using assms(3) by (intro real_less_lsqrt) simp_all
  have s0: "0 \<le> sqrt a" using a0 by simp
  have r: "rnd_r (sqrt a) = of_int (round_even (sqrt a / u)) * u"
    unfolding u_def using lo hi assms(1) s0 by (intro rnd_r_eval) simp_all
  have "(of_int n - 1 / 2) * u < sqrt a" using assms(4) unfolding u_def by (rule real_less_rsqrt)
  then have 1: "of_int n - 1 / 2 < sqrt a / u" using upos by (simp add: pos_less_divide_eq)
  have "0 \<le> (of_int n + 1 / 2) * u" using upos assms(6) by simp
  then have "sqrt a < (of_int n + 1 / 2) * u" using assms(5) unfolding u_def by (intro real_less_lsqrt)
  then have 2: "sqrt a / u < of_int n + 1 / 2" using upos by (simp add: pos_divide_less_eq)
  have "round_even (sqrt a / u) = n" using 1 2 by (rule round_even_strict)
  with r have r': "rnd_r (sqrt a) = of_int n * u" by simp
  have "0 < of_int n * u" using upos assms(6) by simp
  then have "rnd (sqrt a) = Fin (of_int n * u)"
    using assms(7) unfolding u_def [symmetric] by (simp add: rnd_def r')
  then show ?thesis using a0 by (simp add: u_def)
qed

subsection \<open>The update routine at given positions\<close>

text \<open>
  Each lemma computes the update routine at one position, rounding by rounding: every
  step is one operation of the code on two given \<open>float\<close> values.
\<close>

lemmas eval_update = update_joystick_logic_eq raw_vector_def follows_def Vector2_LimitLength_def
  Vector2_Length_def Vector2_Normalize_def update_output_def Let_def

lemma active_start:
  "update_joystick_logic (active_joystick\<lparr>touch_index := i\<rparr>) (SDL_FPoint (Fin 50) (Fin 50)) =
     (active_joystick\<lparr>touch_index := i\<rparr>)\<lparr>tip_center := SDL_FPoint (Fin 50) (Fin 50),
       is_pressed := False,
       output := Vector2 (Fin 0) (Fin 0)\<rparr>"
proof -
  have s1: "fsub (Fin 50) (Fin 50) = Fin 0"
    by (simp add: fsub_def)
  have s2: "fmul (Fin 0) (Fin 0) = Fin 0"
    by simp
  have s3: "fadd (Fin 0) (Fin 0) = Fin 0"
    by simp
  have s4: "fsqrt (Fin 0) = Fin 0"
    by simp
  have s5: "fgt (Fin 0) (Fin 75) = False"
    by simp
  have s6: "fadd (Fin 50) (Fin 0) = Fin 50"
    by (simp add:  rnd_def rnd_r_eval [where e = "5"] round_even_def)
  have s7: "fgt (Fin 0) (Fin 10) = False"
    by simp
  show ?thesis
    by (simp add: eval_update active_joystick_def example_joystick_def s1 s2 s3 s4 s5 s6 s7
          del: float_ops)
qed

lemma active_motion:
  "update_joystick_logic (active_joystick\<lparr>touch_index := i\<rparr>) (SDL_FPoint (Fin 50) (Fin 100)) =
     (active_joystick\<lparr>touch_index := i\<rparr>)\<lparr>tip_center := SDL_FPoint (Fin 50) (Fin 100),
       is_pressed := True,
       output := Vector2 (Fin 0) (Fin (10324441 / 16777216))\<rparr>"
proof -
  have s1: "fsub (Fin 50) (Fin 50) = Fin 0"
    by (simp add: fsub_def)
  have s2: "fsub (Fin 100) (Fin 50) = Fin 50"
    by (simp add: fsub_def rnd_def rnd_r_eval [where e = "5"] round_even_def)
  have s3: "fmul (Fin 0) (Fin 0) = Fin 0"
    by simp
  have s4: "fmul (Fin 50) (Fin 50) = Fin 2500"
    by (simp add:  rnd_def rnd_r_eval [where e = "11"] round_even_def)
  have s5: "fadd (Fin 0) (Fin 2500) = Fin 2500"
    by (simp add:  rnd_def rnd_r_eval [where e = "11"] round_even_def)
  have s6: "fsqrt (Fin 2500) = Fin 50"
    using fsqrt_eval [where e = "5" and a = "2500" and n = 13107200] by (simp add: power2_eq_square)
  have s7: "fgt (Fin 50) (Fin 75) = False"
    by simp
  have s8: "fadd (Fin 50) (Fin 0) = Fin 50"
    by (simp add:  rnd_def rnd_r_eval [where e = "5"] round_even_def)
  have s9: "fadd (Fin 50) (Fin 50) = Fin 100"
    by (simp add:  rnd_def rnd_r_eval [where e = "6"] round_even_def)
  have s10: "fgt (Fin 50) (Fin 10) = True"
    by simp
  have s11: "feq (Fin 50) (Fin 0) = False"
    by simp
  have s12: "fdiv (Fin 0) (Fin 50) = Fin 0"
    by simp
  have s13: "fdiv (Fin 50) (Fin 50) = Fin 1"
    by (simp add:  rnd_def rnd_r_eval [where e = "0"] round_even_def)
  have s14: "fsub (Fin 50) (Fin 10) = Fin 40"
    by (simp add: fsub_def rnd_def rnd_r_eval [where e = "5"] round_even_def)
  have s15: "fsub (Fin 75) (Fin 10) = Fin 65"
    by (simp add: fsub_def rnd_def rnd_r_eval [where e = "6"] round_even_def)
  have s16: "fle (Fin 65) (Fin 0) = False"
    by simp
  have s17: "fdiv (Fin 40) (Fin 65) = Fin (10324441 / 16777216)"
    by (simp add:  rnd_def rnd_r_eval [where e = "- 1"] round_even_def)
  have s18: "fmul (Fin 0) (Fin (10324441 / 16777216)) = Fin 0"
    by simp
  have s19: "fmul (Fin 1) (Fin (10324441 / 16777216)) = Fin (10324441 / 16777216)"
    by (simp add:  rnd_def rnd_r_eval [where e = "- 1"] round_even_def)
  show ?thesis
    by (simp add: eval_update active_joystick_def example_joystick_def s1 s2 s3 s4 s5 s6 s7 s8 s9 s10 s11 s12 s13 s14 s15 s16 s17 s18 s19
          del: float_ops)
qed

lemma active_far_motion:
  "update_joystick_logic (active_joystick) (SDL_FPoint (Fin 51) (Fin 128)) =
     (active_joystick)\<lparr>tip_center := SDL_FPoint (Fin (13359241 / 262144)) (Fin (16383193 / 131072)),
       is_pressed := True,
       output := Vector2 (Fin (6882395 / 536870912)) (Fin (16775839 / 16777216))\<rparr>"
proof -
  have s1: "fsub (Fin 51) (Fin 50) = Fin 1"
    by (simp add: fsub_def rnd_def rnd_r_eval [where e = "0"] round_even_def)
  have s2: "fsub (Fin 128) (Fin 50) = Fin 78"
    by (simp add: fsub_def rnd_def rnd_r_eval [where e = "6"] round_even_def)
  have s3: "fmul (Fin 1) (Fin 1) = Fin 1"
    by (simp add:  rnd_def rnd_r_eval [where e = "0"] round_even_def)
  have s4: "fmul (Fin 78) (Fin 78) = Fin 6084"
    by (simp add:  rnd_def rnd_r_eval [where e = "12"] round_even_def)
  have s5: "fadd (Fin 1) (Fin 6084) = Fin 6085"
    by (simp add:  rnd_def rnd_r_eval [where e = "12"] round_even_def)
  have s6: "fsqrt (Fin 6085) = Fin (1278057 / 16384)"
    using fsqrt_eval [where e = "6" and a = "6085" and n = 10224456] by (simp add: power2_eq_square)
  have s7: "fgt (Fin (1278057 / 16384)) (Fin 75) = True"
    by simp
  have s8: "fdiv (Fin 1) (Fin (1278057 / 16384)) = Fin (6882395 / 536870912)"
    by (simp add:  rnd_def rnd_r_eval [where e = "- 7"] round_even_def)
  have s9: "fmul (Fin (6882395 / 536870912)) (Fin 75) = Fin (16130613 / 16777216)"
    by (simp add:  rnd_def rnd_r_eval [where e = "- 1"] round_even_def)
  have s10: "fdiv (Fin 78) (Fin (1278057 / 16384)) = Fin (8387919 / 8388608)"
    by (simp add:  rnd_def rnd_r_eval [where e = "- 1"] round_even_def)
  have s11: "fmul (Fin (8387919 / 8388608)) (Fin 75) = Fin (9829593 / 131072)"
    by (simp add:  rnd_def rnd_r_eval [where e = "6"] round_even_def)
  have s12: "fadd (Fin 50) (Fin (16130613 / 16777216)) = Fin (13359241 / 262144)"
    by (simp add:  rnd_def rnd_r_eval [where e = "5"] round_even_def)
  have s13: "fadd (Fin 50) (Fin (9829593 / 131072)) = Fin (16383193 / 131072)"
    by (simp add:  rnd_def rnd_r_eval [where e = "6"] round_even_def)
  have s14: "fmul (Fin (16130613 / 16777216)) (Fin (16130613 / 16777216)) = Fin (7754465 / 8388608)"
    by (simp add:  rnd_def rnd_r_eval [where e = "- 1"] round_even_def)
  have s15: "fmul (Fin (9829593 / 131072)) (Fin (9829593 / 131072)) = Fin (11518109 / 2048)"
    by (simp add:  rnd_def rnd_r_eval [where e = "12"] round_even_def)
  have s16: "fadd (Fin (7754465 / 8388608)) (Fin (11518109 / 2048)) = Fin (5760001 / 1024)"
    by (simp add:  rnd_def rnd_r_eval [where e = "12"] round_even_def)
  have s17: "fsqrt (Fin (5760001 / 1024)) = Fin (9830401 / 131072)"
    using fsqrt_eval [where e = "6" and a = "5760001 / 1024" and n = 9830401] by (simp add: power2_eq_square)
  have s18: "fgt (Fin (9830401 / 131072)) (Fin 10) = True"
    by simp
  have s19: "feq (Fin (9830401 / 131072)) (Fin 0) = False"
    by simp
  have s20: "fdiv (Fin (16130613 / 16777216)) (Fin (9830401 / 131072)) = Fin (3441197 / 268435456)"
    by (simp add:  rnd_def rnd_r_eval [where e = "- 7"] round_even_def)
  have s21: "fdiv (Fin (9829593 / 131072)) (Fin (9830401 / 131072)) = Fin (16775837 / 16777216)"
    by (simp add:  rnd_def rnd_r_eval [where e = "- 1"] round_even_def)
  have s22: "fsub (Fin (9830401 / 131072)) (Fin 10) = Fin (8519681 / 131072)"
    by (simp add: fsub_def rnd_def rnd_r_eval [where e = "6"] round_even_def)
  have s23: "fsub (Fin 75) (Fin 10) = Fin 65"
    by (simp add: fsub_def rnd_def rnd_r_eval [where e = "6"] round_even_def)
  have s24: "fle (Fin 65) (Fin 0) = False"
    by simp
  have s25: "fdiv (Fin (8519681 / 131072)) (Fin 65) = Fin (8388609 / 8388608)"
    by (simp add:  rnd_def rnd_r_eval [where e = "0"] round_even_def)
  have s26: "fmul (Fin (3441197 / 268435456)) (Fin (8388609 / 8388608)) = Fin (6882395 / 536870912)"
    by (simp add:  rnd_def rnd_r_eval [where e = "- 7"] round_even_def)
  have s27: "fmul (Fin (16775837 / 16777216)) (Fin (8388609 / 8388608)) = Fin (16775839 / 16777216)"
    by (simp add:  rnd_def rnd_r_eval [where e = "- 1"] round_even_def)
  show ?thesis
    by (simp add: eval_update active_joystick_def example_joystick_def s1 s2 s3 s4 s5 s6 s7 s8 s9 s10 s11 s12 s13 s14 s15 s16 s17 s18 s19 s20 s21 s22 s23 s24 s25 s26 s27
          del: float_ops)
qed

lemma following_motion:
  "update_joystick_logic (following_joystick) (SDL_FPoint (Fin 869) (Fin 121)) =
     (following_joystick)\<lparr>base_center := SDL_FPoint (Fin (13040891 / 16384)) (Fin (565261 / 4096)),
       tip_center := SDL_FPoint (Fin 869) (Fin (15859711 / 131072)),
       is_pressed := True,
       output := Vector2 (Fin (16340379 / 16777216)) (Fin (- (15214189 / 67108864)))\<rparr>"
proof -
  have s1: "fsub (Fin 869) (Fin 100) = Fin 769"
    by (simp add: fsub_def rnd_def rnd_r_eval [where e = "9"] round_even_def)
  have s2: "fsub (Fin 121) (Fin 300) = Fin (- 179)"
    by (simp add: fsub_def rnd_def rnd_r_eval [where e = "7"] round_even_def)
  have s3: "fmul (Fin 769) (Fin 769) = Fin 591361"
    by (simp add:  rnd_def rnd_r_eval [where e = "19"] round_even_def)
  have s4: "fmul (Fin (- 179)) (Fin (- 179)) = Fin 32041"
    by (simp add:  rnd_def rnd_r_eval [where e = "14"] round_even_def)
  have s5: "fadd (Fin 591361) (Fin 32041) = Fin 623402"
    by (simp add:  rnd_def rnd_r_eval [where e = "19"] round_even_def)
  have s6: "fsqrt (Fin 623402) = Fin (1617015 / 2048)"
    using fsqrt_eval [where e = "9" and a = "623402" and n = 12936120] by (simp add: power2_eq_square)
  have s7: "fgt (Fin (1617015 / 2048)) (Fin 75) = True"
    by simp
  have s8: "fdiv (Fin 769) (Fin (1617015 / 2048)) = Fin (4085095 / 4194304)"
    by (simp add:  rnd_def rnd_r_eval [where e = "- 1"] round_even_def)
  have s9: "fmul (Fin (4085095 / 4194304)) (Fin 75) = Fin (9574441 / 131072)"
    by (simp add:  rnd_def rnd_r_eval [where e = "6"] round_even_def)
  have s10: "fdiv (Fin (- 179)) (Fin (1617015 / 2048)) = Fin (- (7607095 / 33554432))"
    by (simp add:  rnd_def rnd_r_eval [where e = "- 3"] round_even_def)
  have s11: "fmul (Fin (- (7607095 / 33554432))) (Fin 75) = Fin (- (2228641 / 131072))"
    by (simp add:  rnd_def rnd_r_eval [where e = "4"] round_even_def)
  have s12: "fsub (Fin 869) (Fin (9574441 / 131072)) = Fin (13040891 / 16384)"
    by (simp add: fsub_def rnd_def rnd_r_eval [where e = "9"] round_even_def)
  have s13: "fsub (Fin 121) (Fin (- (2228641 / 131072))) = Fin (565261 / 4096)"
    by (simp add: fsub_def rnd_def rnd_r_eval [where e = "7"] round_even_def)
  have s14: "fadd (Fin (13040891 / 16384)) (Fin (9574441 / 131072)) = Fin 869"
    by (simp add:  rnd_def rnd_r_eval [where e = "9"] round_even_def)
  have s15: "fadd (Fin (565261 / 4096)) (Fin (- (2228641 / 131072))) = Fin (15859711 / 131072)"
    by (simp add:  rnd_def rnd_r_eval [where e = "6"] round_even_def)
  have s16: "fmul (Fin (9574441 / 131072)) (Fin (9574441 / 131072)) = Fin (5463953 / 1024)"
    by (simp add:  rnd_def rnd_r_eval [where e = "12"] round_even_def)
  have s17: "fmul (Fin (- (2228641 / 131072))) (Fin (- (2228641 / 131072))) = Fin (9473497 / 32768)"
    by (simp add:  rnd_def rnd_r_eval [where e = "8"] round_even_def)
  have s18: "fadd (Fin (5463953 / 1024)) (Fin (9473497 / 32768)) = Fin 5625"
    by (simp add:  rnd_def rnd_r_eval [where e = "12"] round_even_def)
  have s19: "fsqrt (Fin 5625) = Fin 75"
    using fsqrt_eval [where e = "6" and a = "5625" and n = 9830400] by (simp add: power2_eq_square)
  have s20: "fgt (Fin 75) (Fin 10) = True"
    by simp
  have s21: "feq (Fin 75) (Fin 0) = False"
    by simp
  have s22: "fdiv (Fin (9574441 / 131072)) (Fin 75) = Fin (16340379 / 16777216)"
    by (simp add:  rnd_def rnd_r_eval [where e = "- 1"] round_even_def)
  have s23: "fdiv (Fin (- (2228641 / 131072))) (Fin 75) = Fin (- (15214189 / 67108864))"
    by (simp add:  rnd_def rnd_r_eval [where e = "- 3"] round_even_def)
  have s24: "fsub (Fin 75) (Fin 10) = Fin 65"
    by (simp add: fsub_def rnd_def rnd_r_eval [where e = "6"] round_even_def)
  have s25: "fle (Fin 65) (Fin 0) = False"
    by simp
  have s26: "fdiv (Fin 65) (Fin 65) = Fin 1"
    by (simp add:  rnd_def rnd_r_eval [where e = "0"] round_even_def)
  have s27: "fmul (Fin (16340379 / 16777216)) (Fin 1) = Fin (16340379 / 16777216)"
    by (simp add:  rnd_def rnd_r_eval [where e = "- 1"] round_even_def)
  have s28: "fmul (Fin (- (15214189 / 67108864))) (Fin 1) = Fin (- (15214189 / 67108864))"
    by (simp add:  rnd_def rnd_r_eval [where e = "- 3"] round_even_def)
  show ?thesis
    by (simp add: eval_update following_joystick_def example_joystick_def s1 s2 s3 s4 s5 s6 s7 s8 s9 s10 s11 s12 s13 s14 s15 s16 s17 s18 s19 s20 s21 s22 s23 s24 s25 s26 s27 s28
          del: float_ops)
qed

lemma following_axis_motion:
  "update_joystick_logic (following_joystick) (SDL_FPoint (Fin 250) (Fin 300)) =
     (following_joystick)\<lparr>base_center := SDL_FPoint (Fin 175) (Fin 300),
       tip_center := SDL_FPoint (Fin 250) (Fin 300),
       is_pressed := True,
       output := Vector2 (Fin 1) (Fin 0)\<rparr>"
proof -
  have s1: "fsub (Fin 250) (Fin 100) = Fin 150"
    by (simp add: fsub_def rnd_def rnd_r_eval [where e = "7"] round_even_def)
  have s2: "fsub (Fin 300) (Fin 300) = Fin 0"
    by (simp add: fsub_def)
  have s3: "fmul (Fin 150) (Fin 150) = Fin 22500"
    by (simp add:  rnd_def rnd_r_eval [where e = "14"] round_even_def)
  have s4: "fmul (Fin 0) (Fin 0) = Fin 0"
    by simp
  have s5: "fadd (Fin 22500) (Fin 0) = Fin 22500"
    by (simp add:  rnd_def rnd_r_eval [where e = "14"] round_even_def)
  have s6: "fsqrt (Fin 22500) = Fin 150"
    using fsqrt_eval [where e = "7" and a = "22500" and n = 9830400] by (simp add: power2_eq_square)
  have s7: "fgt (Fin 150) (Fin 75) = True"
    by simp
  have s8: "fdiv (Fin 150) (Fin 150) = Fin 1"
    by (simp add:  rnd_def rnd_r_eval [where e = "0"] round_even_def)
  have s9: "fmul (Fin 1) (Fin 75) = Fin 75"
    by (simp add:  rnd_def rnd_r_eval [where e = "6"] round_even_def)
  have s10: "fdiv (Fin 0) (Fin 150) = Fin 0"
    by simp
  have s11: "fmul (Fin 0) (Fin 75) = Fin 0"
    by simp
  have s12: "fsub (Fin 250) (Fin 75) = Fin 175"
    by (simp add: fsub_def rnd_def rnd_r_eval [where e = "7"] round_even_def)
  have s13: "fsub (Fin 300) (Fin 0) = Fin 300"
    by (simp add: fsub_def rnd_def rnd_r_eval [where e = "8"] round_even_def)
  have s14: "fadd (Fin 175) (Fin 75) = Fin 250"
    by (simp add:  rnd_def rnd_r_eval [where e = "7"] round_even_def)
  have s15: "fadd (Fin 300) (Fin 0) = Fin 300"
    by (simp add:  rnd_def rnd_r_eval [where e = "8"] round_even_def)
  have s16: "fmul (Fin 75) (Fin 75) = Fin 5625"
    by (simp add:  rnd_def rnd_r_eval [where e = "12"] round_even_def)
  have s17: "fadd (Fin 5625) (Fin 0) = Fin 5625"
    by (simp add:  rnd_def rnd_r_eval [where e = "12"] round_even_def)
  have s18: "fsqrt (Fin 5625) = Fin 75"
    using fsqrt_eval [where e = "6" and a = "5625" and n = 9830400] by (simp add: power2_eq_square)
  have s19: "fgt (Fin 75) (Fin 10) = True"
    by simp
  have s20: "feq (Fin 75) (Fin 0) = False"
    by simp
  have s21: "fdiv (Fin 75) (Fin 75) = Fin 1"
    by (simp add:  rnd_def rnd_r_eval [where e = "0"] round_even_def)
  have s22: "fdiv (Fin 0) (Fin 75) = Fin 0"
    by simp
  have s23: "fsub (Fin 75) (Fin 10) = Fin 65"
    by (simp add: fsub_def rnd_def rnd_r_eval [where e = "6"] round_even_def)
  have s24: "fle (Fin 65) (Fin 0) = False"
    by simp
  have s25: "fdiv (Fin 65) (Fin 65) = Fin 1"
    by (simp add:  rnd_def rnd_r_eval [where e = "0"] round_even_def)
  have s26: "fmul (Fin 1) (Fin 1) = Fin 1"
    by (simp add:  rnd_def rnd_r_eval [where e = "0"] round_even_def)
  have s27: "fmul (Fin 0) (Fin 1) = Fin 0"
    by simp
  show ?thesis
    by (simp add: eval_update following_joystick_def example_joystick_def s1 s2 s3 s4 s5 s6 s7 s8 s9 s10 s11 s12 s13 s14 s15 s16 s17 s18 s19 s20 s21 s22 s23 s24 s25 s26 s27
          del: float_ops)
qed

lemma following_boundary_motion:
  "update_joystick_logic (following_joystick) (SDL_FPoint (Fin 175) (Fin 300)) =
     (following_joystick)\<lparr>tip_center := SDL_FPoint (Fin 175) (Fin 300),
       is_pressed := True,
       output := Vector2 (Fin 1) (Fin 0)\<rparr>"
proof -
  have s1: "fsub (Fin 175) (Fin 100) = Fin 75"
    by (simp add: fsub_def rnd_def rnd_r_eval [where e = "6"] round_even_def)
  have s2: "fsub (Fin 300) (Fin 300) = Fin 0"
    by (simp add: fsub_def)
  have s3: "fmul (Fin 75) (Fin 75) = Fin 5625"
    by (simp add:  rnd_def rnd_r_eval [where e = "12"] round_even_def)
  have s4: "fmul (Fin 0) (Fin 0) = Fin 0"
    by simp
  have s5: "fadd (Fin 5625) (Fin 0) = Fin 5625"
    by (simp add:  rnd_def rnd_r_eval [where e = "12"] round_even_def)
  have s6: "fsqrt (Fin 5625) = Fin 75"
    using fsqrt_eval [where e = "6" and a = "5625" and n = 9830400] by (simp add: power2_eq_square)
  have s7: "fgt (Fin 75) (Fin 75) = False"
    by simp
  have s8: "fadd (Fin 100) (Fin 75) = Fin 175"
    by (simp add:  rnd_def rnd_r_eval [where e = "7"] round_even_def)
  have s9: "fadd (Fin 300) (Fin 0) = Fin 300"
    by (simp add:  rnd_def rnd_r_eval [where e = "8"] round_even_def)
  have s10: "fgt (Fin 75) (Fin 10) = True"
    by simp
  have s11: "feq (Fin 75) (Fin 0) = False"
    by simp
  have s12: "fdiv (Fin 75) (Fin 75) = Fin 1"
    by (simp add:  rnd_def rnd_r_eval [where e = "0"] round_even_def)
  have s13: "fdiv (Fin 0) (Fin 75) = Fin 0"
    by simp
  have s14: "fsub (Fin 75) (Fin 10) = Fin 65"
    by (simp add: fsub_def rnd_def rnd_r_eval [where e = "6"] round_even_def)
  have s15: "fle (Fin 65) (Fin 0) = False"
    by simp
  have s16: "fdiv (Fin 65) (Fin 65) = Fin 1"
    by (simp add:  rnd_def rnd_r_eval [where e = "0"] round_even_def)
  have s17: "fmul (Fin 1) (Fin 1) = Fin 1"
    by (simp add:  rnd_def rnd_r_eval [where e = "0"] round_even_def)
  have s18: "fmul (Fin 0) (Fin 1) = Fin 0"
    by simp
  show ?thesis
    by (simp add: eval_update following_joystick_def example_joystick_def s1 s2 s3 s4 s5 s6 s7 s8 s9 s10 s11 s12 s13 s14 s15 s16 s17 s18
          del: float_ops)
qed


lemma misconfigured_following_motion:
  "update_joystick_logic (misconfigured_joystick\<lparr>joystick_mode := JOYSTICK_MODE_FOLLOWING\<rparr>) (SDL_FPoint (Fin 250) (Fin 300)) =
     (misconfigured_joystick\<lparr>joystick_mode := JOYSTICK_MODE_FOLLOWING\<rparr>)\<lparr>base_center := SDL_FPoint (Fin 175) (Fin 300),
       tip_center := SDL_FPoint (Fin 250) (Fin 300),
       is_pressed := False,
       output := Vector2 (Fin 0) (Fin 0)\<rparr>"
proof -
  have s1: "fsub (Fin 250) (Fin 100) = Fin 150"
    by (simp add: fsub_def rnd_def rnd_r_eval [where e = "7"] round_even_def)
  have s2: "fsub (Fin 300) (Fin 300) = Fin 0"
    by (simp add: fsub_def)
  have s3: "fmul (Fin 150) (Fin 150) = Fin 22500"
    by (simp add:  rnd_def rnd_r_eval [where e = "14"] round_even_def)
  have s4: "fmul (Fin 0) (Fin 0) = Fin 0"
    by simp
  have s5: "fadd (Fin 22500) (Fin 0) = Fin 22500"
    by (simp add:  rnd_def rnd_r_eval [where e = "14"] round_even_def)
  have s6: "fsqrt (Fin 22500) = Fin 150"
    using fsqrt_eval [where e = "7" and a = "22500" and n = 9830400] by (simp add: power2_eq_square)
  have s7: "fgt (Fin 150) (Fin 75) = True"
    by simp
  have s8: "fdiv (Fin 150) (Fin 150) = Fin 1"
    by (simp add:  rnd_def rnd_r_eval [where e = "0"] round_even_def)
  have s9: "fmul (Fin 1) (Fin 75) = Fin 75"
    by (simp add:  rnd_def rnd_r_eval [where e = "6"] round_even_def)
  have s10: "fdiv (Fin 0) (Fin 150) = Fin 0"
    by simp
  have s11: "fmul (Fin 0) (Fin 75) = Fin 0"
    by simp
  have s12: "fsub (Fin 250) (Fin 75) = Fin 175"
    by (simp add: fsub_def rnd_def rnd_r_eval [where e = "7"] round_even_def)
  have s13: "fsub (Fin 300) (Fin 0) = Fin 300"
    by (simp add: fsub_def rnd_def rnd_r_eval [where e = "8"] round_even_def)
  have s14: "fadd (Fin 175) (Fin 75) = Fin 250"
    by (simp add:  rnd_def rnd_r_eval [where e = "7"] round_even_def)
  have s15: "fadd (Fin 300) (Fin 0) = Fin 300"
    by (simp add:  rnd_def rnd_r_eval [where e = "8"] round_even_def)
  have s16: "fmul (Fin 75) (Fin 75) = Fin 5625"
    by (simp add:  rnd_def rnd_r_eval [where e = "12"] round_even_def)
  have s17: "fadd (Fin 5625) (Fin 0) = Fin 5625"
    by (simp add:  rnd_def rnd_r_eval [where e = "12"] round_even_def)
  have s18: "fsqrt (Fin 5625) = Fin 75"
    using fsqrt_eval [where e = "6" and a = "5625" and n = 9830400] by (simp add: power2_eq_square)
  have s19: "fgt (Fin 75) (Fin 80) = False"
    by simp
  show ?thesis
    by (simp add: eval_update misconfigured_joystick_def example_joystick_def s1 s2 s3 s4 s5 s6 s7 s8 s9 s10 s11 s12 s13 s14 s15 s16 s17 s18 s19
          del: float_ops)
qed


lemma near_zones_motion:
  "update_joystick_logic (active_joystick\<lparr>deadzone_size := Fin (9830399 / 131072)\<rparr>) (SDL_FPoint (Fin 51) (Fin 128)) =
     (active_joystick\<lparr>deadzone_size := Fin (9830399 / 131072)\<rparr>)\<lparr>tip_center := SDL_FPoint (Fin (13359241 / 262144)) (Fin (16383193 / 131072)),
       is_pressed := True,
       output := Vector2 (Fin (3441197 / 134217728)) (Fin (16775837 / 8388608))\<rparr>"
proof -
  have s1: "fsub (Fin 51) (Fin 50) = Fin 1"
    by (simp add: fsub_def rnd_def rnd_r_eval [where e = "0"] round_even_def)
  have s2: "fsub (Fin 128) (Fin 50) = Fin 78"
    by (simp add: fsub_def rnd_def rnd_r_eval [where e = "6"] round_even_def)
  have s3: "fmul (Fin 1) (Fin 1) = Fin 1"
    by (simp add:  rnd_def rnd_r_eval [where e = "0"] round_even_def)
  have s4: "fmul (Fin 78) (Fin 78) = Fin 6084"
    by (simp add:  rnd_def rnd_r_eval [where e = "12"] round_even_def)
  have s5: "fadd (Fin 1) (Fin 6084) = Fin 6085"
    by (simp add:  rnd_def rnd_r_eval [where e = "12"] round_even_def)
  have s6: "fsqrt (Fin 6085) = Fin (1278057 / 16384)"
    using fsqrt_eval [where e = "6" and a = "6085" and n = 10224456] by (simp add: power2_eq_square)
  have s7: "fgt (Fin (1278057 / 16384)) (Fin 75) = True"
    by simp
  have s8: "fdiv (Fin 1) (Fin (1278057 / 16384)) = Fin (6882395 / 536870912)"
    by (simp add:  rnd_def rnd_r_eval [where e = "- 7"] round_even_def)
  have s9: "fmul (Fin (6882395 / 536870912)) (Fin 75) = Fin (16130613 / 16777216)"
    by (simp add:  rnd_def rnd_r_eval [where e = "- 1"] round_even_def)
  have s10: "fdiv (Fin 78) (Fin (1278057 / 16384)) = Fin (8387919 / 8388608)"
    by (simp add:  rnd_def rnd_r_eval [where e = "- 1"] round_even_def)
  have s11: "fmul (Fin (8387919 / 8388608)) (Fin 75) = Fin (9829593 / 131072)"
    by (simp add:  rnd_def rnd_r_eval [where e = "6"] round_even_def)
  have s12: "fadd (Fin 50) (Fin (16130613 / 16777216)) = Fin (13359241 / 262144)"
    by (simp add:  rnd_def rnd_r_eval [where e = "5"] round_even_def)
  have s13: "fadd (Fin 50) (Fin (9829593 / 131072)) = Fin (16383193 / 131072)"
    by (simp add:  rnd_def rnd_r_eval [where e = "6"] round_even_def)
  have s14: "fmul (Fin (16130613 / 16777216)) (Fin (16130613 / 16777216)) = Fin (7754465 / 8388608)"
    by (simp add:  rnd_def rnd_r_eval [where e = "- 1"] round_even_def)
  have s15: "fmul (Fin (9829593 / 131072)) (Fin (9829593 / 131072)) = Fin (11518109 / 2048)"
    by (simp add:  rnd_def rnd_r_eval [where e = "12"] round_even_def)
  have s16: "fadd (Fin (7754465 / 8388608)) (Fin (11518109 / 2048)) = Fin (5760001 / 1024)"
    by (simp add:  rnd_def rnd_r_eval [where e = "12"] round_even_def)
  have s17: "fsqrt (Fin (5760001 / 1024)) = Fin (9830401 / 131072)"
    using fsqrt_eval [where e = "6" and a = "5760001 / 1024" and n = 9830401] by (simp add: power2_eq_square)
  have s18: "fgt (Fin (9830401 / 131072)) (Fin (9830399 / 131072)) = True"
    by simp
  have s19: "feq (Fin (9830401 / 131072)) (Fin 0) = False"
    by simp
  have s20: "fdiv (Fin (16130613 / 16777216)) (Fin (9830401 / 131072)) = Fin (3441197 / 268435456)"
    by (simp add:  rnd_def rnd_r_eval [where e = "- 7"] round_even_def)
  have s21: "fdiv (Fin (9829593 / 131072)) (Fin (9830401 / 131072)) = Fin (16775837 / 16777216)"
    by (simp add:  rnd_def rnd_r_eval [where e = "- 1"] round_even_def)
  have s22: "fsub (Fin (9830401 / 131072)) (Fin (9830399 / 131072)) = Fin (1 / 65536)"
    by (simp add: fsub_def rnd_def rnd_r_eval [where e = "- 16"] round_even_def)
  have s23: "fsub (Fin 75) (Fin (9830399 / 131072)) = Fin (1 / 131072)"
    by (simp add: fsub_def rnd_def rnd_r_eval [where e = "- 17"] round_even_def)
  have s24: "fle (Fin (1 / 131072)) (Fin 0) = False"
    by simp
  have s25: "fdiv (Fin (1 / 65536)) (Fin (1 / 131072)) = Fin 2"
    by (simp add:  rnd_def rnd_r_eval [where e = "1"] round_even_def)
  have s26: "fmul (Fin (3441197 / 268435456)) (Fin 2) = Fin (3441197 / 134217728)"
    by (simp add:  rnd_def rnd_r_eval [where e = "- 6"] round_even_def)
  have s27: "fmul (Fin (16775837 / 16777216)) (Fin 2) = Fin (16775837 / 8388608)"
    by (simp add:  rnd_def rnd_r_eval [where e = "0"] round_even_def)
  show ?thesis
    by (simp add: eval_update active_joystick_def example_joystick_def s1 s2 s3 s4 s5 s6 s7 s8 s9 s10 s11 s12 s13 s14 s15 s16 s17 s18 s19 s20 s21 s22 s23 s24 s25 s26 s27
          del: float_ops)
qed

lemma clamp_example:
  "Vector2_LimitLength (Vector2 (Fin 1) (Fin 78)) (Fin 75) = Vector2 (Fin (16130613 / 16777216)) (Fin (9829593 / 131072))"
  "Vector2_Length (Vector2 (Fin (16130613 / 16777216)) (Fin (9829593 / 131072))) = Fin (9830401 / 131072)"
proof -
  have s1: "fmul (Fin 1) (Fin 1) = Fin 1"
    by (simp add:  rnd_def rnd_r_eval [where e = "0"] round_even_def)
  have s2: "fmul (Fin 78) (Fin 78) = Fin 6084"
    by (simp add:  rnd_def rnd_r_eval [where e = "12"] round_even_def)
  have s3: "fadd (Fin 1) (Fin 6084) = Fin 6085"
    by (simp add:  rnd_def rnd_r_eval [where e = "12"] round_even_def)
  have s4: "fsqrt (Fin 6085) = Fin (1278057 / 16384)"
    using fsqrt_eval [where e = "6" and a = "6085" and n = 10224456] by (simp add: power2_eq_square)
  have s5: "fgt (Fin (1278057 / 16384)) (Fin 75) = True"
    by simp
  have s6: "fdiv (Fin 1) (Fin (1278057 / 16384)) = Fin (6882395 / 536870912)"
    by (simp add:  rnd_def rnd_r_eval [where e = "- 7"] round_even_def)
  have s7: "fmul (Fin (6882395 / 536870912)) (Fin 75) = Fin (16130613 / 16777216)"
    by (simp add:  rnd_def rnd_r_eval [where e = "- 1"] round_even_def)
  have s8: "fdiv (Fin 78) (Fin (1278057 / 16384)) = Fin (8387919 / 8388608)"
    by (simp add:  rnd_def rnd_r_eval [where e = "- 1"] round_even_def)
  have s9: "fmul (Fin (8387919 / 8388608)) (Fin 75) = Fin (9829593 / 131072)"
    by (simp add:  rnd_def rnd_r_eval [where e = "6"] round_even_def)
  have s10: "fmul (Fin (16130613 / 16777216)) (Fin (16130613 / 16777216)) = Fin (7754465 / 8388608)"
    by (simp add:  rnd_def rnd_r_eval [where e = "- 1"] round_even_def)
  have s11: "fmul (Fin (9829593 / 131072)) (Fin (9829593 / 131072)) = Fin (11518109 / 2048)"
    by (simp add:  rnd_def rnd_r_eval [where e = "12"] round_even_def)
  have s12: "fadd (Fin (7754465 / 8388608)) (Fin (11518109 / 2048)) = Fin (5760001 / 1024)"
    by (simp add:  rnd_def rnd_r_eval [where e = "12"] round_even_def)
  have s13: "fsqrt (Fin (5760001 / 1024)) = Fin (9830401 / 131072)"
    using fsqrt_eval [where e = "6" and a = "5760001 / 1024" and n = 9830401] by (simp add: power2_eq_square)
  show "Vector2_LimitLength (Vector2 (Fin 1) (Fin 78)) (Fin 75) = Vector2 (Fin (16130613 / 16777216)) (Fin (9829593 / 131072))"
    by (simp only: Vector2_LimitLength_def Vector2_Length_def Let_def Vector2.sel if_True if_False s1 s2 s3 s4 s5 s6 s7 s8 s9 s10 s11 s12 s13)
  show "Vector2_Length (Vector2 (Fin (16130613 / 16777216)) (Fin (9829593 / 131072))) = Fin (9830401 / 131072)"
    by (simp only: Vector2_Length_def Vector2.sel s1 s2 s3 s4 s5 s6 s7 s8 s9 s10 s11 s12 s13)
qed

lemma far_motion_output_length:
  "Vector2_Length (Vector2 (Fin (6882395 / 536870912)) (Fin (16775839 / 16777216))) = Fin (8388609 / 8388608)"
proof -
  have s1: "fmul (Fin (6882395 / 536870912)) (Fin (6882395 / 536870912)) = Fin (11293259 / 68719476736)"
    by (simp add:  rnd_def rnd_r_eval [where e = "- 13"] round_even_def)
  have s2: "fmul (Fin (16775839 / 16777216)) (Fin (16775839 / 16777216)) = Fin (8387231 / 8388608)"
    by (simp add:  rnd_def rnd_r_eval [where e = "- 1"] round_even_def)
  have s3: "fadd (Fin (11293259 / 68719476736)) (Fin (8387231 / 8388608)) = Fin (4194305 / 4194304)"
    by (simp add:  rnd_def rnd_r_eval [where e = "0"] round_even_def)
  have s4: "fsqrt (Fin (4194305 / 4194304)) = Fin (8388609 / 8388608)"
    using fsqrt_eval [where e = "0" and a = "4194305 / 4194304" and n = 8388609] by (simp add: power2_eq_square)
  show ?thesis
    by (simp only: Vector2_Length_def Vector2.sel s1 s2 s3 s4)
qed

lemma following_motion_output_length:
  "Vector2_Length (Vector2 (Fin (16340379 / 16777216)) (Fin (- (15214189 / 67108864)))) = Fin (16777215 / 16777216)"
proof -
  have s1: "fmul (Fin (16340379 / 16777216)) (Fin (16340379 / 16777216)) = Fin (3978729 / 4194304)"
    by (simp add:  rnd_def rnd_r_eval [where e = "- 1"] round_even_def)
  have s2: "fmul (Fin (- (15214189 / 67108864))) (Fin (- (15214189 / 67108864))) = Fin (13796779 / 268435456)"
    by (simp add:  rnd_def rnd_r_eval [where e = "- 5"] round_even_def)
  have s3: "fadd (Fin (3978729 / 4194304)) (Fin (13796779 / 268435456)) = Fin (16777215 / 16777216)"
    by (simp add:  rnd_def rnd_r_eval [where e = "- 1"] round_even_def)
  have s4: "fsqrt (Fin (16777215 / 16777216)) = Fin (16777215 / 16777216)"
    using fsqrt_eval [where e = "- 1" and a = "16777215 / 16777216" and n = 16777215] by (simp add: power2_eq_square)
  show ?thesis
    by (simp only: Vector2_Length_def Vector2.sel s1 s2 s3 s4)
qed

lemma following_raw_facts:
  "follows following_joystick (SDL_FPoint (Fin 250) (Fin 300))"
  "clamped following_joystick (SDL_FPoint (Fin 250) (Fin 300)) = Vector2 (Fin 75) (Fin 0)"
  "\<not> follows following_joystick (SDL_FPoint (Fin 175) (Fin 300))"
  "feq (Vector2_Length (raw_vector following_joystick (SDL_FPoint (Fin 175) (Fin 300))))
     (clampzone_size following_joystick)"
  "follows following_joystick (SDL_FPoint (Fin 869) (Fin 121))"
  "follows (misconfigured_joystick\<lparr>joystick_mode := JOYSTICK_MODE_FOLLOWING\<rparr>)
     (SDL_FPoint (Fin 250) (Fin 300))"
  "clampzone_size following_joystick = Fin 75" "deadzone_size following_joystick = Fin 10"
proof -
  have s1: "fsub (Fin 250) (Fin 100) = Fin 150"
    by (simp add: fsub_def rnd_def rnd_r_eval [where e = "7"] round_even_def)
  have s2: "fsub (Fin 300) (Fin 300) = Fin 0"
    by (simp add: fsub_def)
  have s3: "fmul (Fin 150) (Fin 150) = Fin 22500"
    by (simp add:  rnd_def rnd_r_eval [where e = "14"] round_even_def)
  have s4: "fmul (Fin 0) (Fin 0) = Fin 0"
    by simp
  have s5: "fadd (Fin 22500) (Fin 0) = Fin 22500"
    by (simp add:  rnd_def rnd_r_eval [where e = "14"] round_even_def)
  have s6: "fsqrt (Fin 22500) = Fin 150"
    using fsqrt_eval [where e = "7" and a = "22500" and n = 9830400] by (simp add: power2_eq_square)
  have s7: "fgt (Fin 150) (Fin 75) = True"
    by simp
  have s8: "feq (Fin 150) (Fin 75) = False"
    by simp
  have s9: "fsub (Fin 175) (Fin 100) = Fin 75"
    by (simp add: fsub_def rnd_def rnd_r_eval [where e = "6"] round_even_def)
  have s10: "fmul (Fin 75) (Fin 75) = Fin 5625"
    by (simp add:  rnd_def rnd_r_eval [where e = "12"] round_even_def)
  have s11: "fadd (Fin 5625) (Fin 0) = Fin 5625"
    by (simp add:  rnd_def rnd_r_eval [where e = "12"] round_even_def)
  have s12: "fsqrt (Fin 5625) = Fin 75"
    using fsqrt_eval [where e = "6" and a = "5625" and n = 9830400] by (simp add: power2_eq_square)
  have s13: "fgt (Fin 75) (Fin 75) = False"
    by simp
  have s14: "feq (Fin 75) (Fin 75) = True"
    by simp
  have s15: "fsub (Fin 869) (Fin 100) = Fin 769"
    by (simp add: fsub_def rnd_def rnd_r_eval [where e = "9"] round_even_def)
  have s16: "fsub (Fin 121) (Fin 300) = Fin (- 179)"
    by (simp add: fsub_def rnd_def rnd_r_eval [where e = "7"] round_even_def)
  have s17: "fmul (Fin 769) (Fin 769) = Fin 591361"
    by (simp add:  rnd_def rnd_r_eval [where e = "19"] round_even_def)
  have s18: "fmul (Fin (- 179)) (Fin (- 179)) = Fin 32041"
    by (simp add:  rnd_def rnd_r_eval [where e = "14"] round_even_def)
  have s19: "fadd (Fin 591361) (Fin 32041) = Fin 623402"
    by (simp add:  rnd_def rnd_r_eval [where e = "19"] round_even_def)
  have s20: "fsqrt (Fin 623402) = Fin (1617015 / 2048)"
    using fsqrt_eval [where e = "9" and a = "623402" and n = 12936120] by (simp add: power2_eq_square)
  have s21: "fgt (Fin (1617015 / 2048)) (Fin 75) = True"
    by simp
  have s22: "feq (Fin (1617015 / 2048)) (Fin 75) = False"
    by simp
  have s23: "fdiv (Fin 150) (Fin 150) = Fin 1"
    by (simp add:  rnd_def rnd_r_eval [where e = "0"] round_even_def)
  have s24: "fmul (Fin 1) (Fin 75) = Fin 75"
    by (simp add:  rnd_def rnd_r_eval [where e = "6"] round_even_def)
  have s25: "fdiv (Fin 0) (Fin 150) = Fin 0"
    by simp
  have s26: "fmul (Fin 0) (Fin 75) = Fin 0"
    by simp
  note steps = s1 s2 s3 s4 s5 s6 s7 s8 s9 s10 s11 s12 s13 s14 s15 s16 s17 s18 s19 s20 s21 s22 s23 s24 s25 s26
  show "follows following_joystick (SDL_FPoint (Fin 250) (Fin 300))"
    by (simp add: follows_def raw_vector_def Vector2_Length_def following_joystick_def
          example_joystick_def steps del: float_ops)
  show "clamped following_joystick (SDL_FPoint (Fin 250) (Fin 300)) = Vector2 (Fin 75) (Fin 0)"
    by (simp add: clamped_def raw_vector_def Vector2_LimitLength_def Vector2_Length_def
          following_joystick_def example_joystick_def steps del: float_ops)
  show "\<not> follows following_joystick (SDL_FPoint (Fin 175) (Fin 300))"
    by (simp add: follows_def raw_vector_def Vector2_Length_def following_joystick_def
          example_joystick_def steps del: float_ops)
  show "feq (Vector2_Length (raw_vector following_joystick (SDL_FPoint (Fin 175) (Fin 300))))
     (clampzone_size following_joystick)"
    by (simp add: raw_vector_def Vector2_Length_def following_joystick_def
          example_joystick_def steps del: float_ops)
  show "follows following_joystick (SDL_FPoint (Fin 869) (Fin 121))"
    by (simp add: follows_def raw_vector_def Vector2_Length_def following_joystick_def
          example_joystick_def steps del: float_ops)
  show "follows (misconfigured_joystick\<lparr>joystick_mode := JOYSTICK_MODE_FOLLOWING\<rparr>)
     (SDL_FPoint (Fin 250) (Fin 300))"
    by (simp add: follows_def raw_vector_def Vector2_Length_def misconfigured_joystick_def
          example_joystick_def steps del: float_ops)
  show "clampzone_size following_joystick = Fin 75" "deadzone_size following_joystick = Fin 10"
    by (simp_all add: following_joystick_def example_joystick_def)
qed


lemma negative_clamp_centre_motion:
  "update_joystick_logic (active_joystick\<lparr>clampzone_size := Fin (- 1), deadzone_size := Fin 0\<rparr>)
     (SDL_FPoint (Fin 50) (Fin 50)) =
   (active_joystick\<lparr>clampzone_size := Fin (- 1), deadzone_size := Fin 0\<rparr>)\<lparr>tip_center := SDL_FPoint NaN NaN,
      is_pressed := False, output := Vector2 (Fin 0) (Fin 0)\<rparr>"
  by (simp add: eval_update active_joystick_def example_joystick_def fsub_def)

subsection \<open>Facts about the example states and events\<close>

lemma update_overwrites_tip:
  "update_joystick_logic (j\<lparr>tip_center := t\<rparr>) p = update_joystick_logic j p"
  by (simp add: update_joystick_logic_eq raw_vector_def follows_def Let_def update_output_def)

lemma example_down:
  "VirtualJoystick_HandleEvent example_joystick (finger_event SDL_FINGERDOWN f (25 / 512) (25 / 512)) =
     active_joystick\<lparr>touch_index := int_of_FingerID f\<rparr>"
proof -
  let ?e = "finger_event SDL_FINGERDOWN f (25 / 512) (25 / 512)"
  have gate: "activation_gate example_joystick ?e"
    by (simp add: activation_gate_def example_touch_pos is_point_inside_joystick_area_def
        SDL_PointInRect_def)
       (simp add: example_joystick_def)
  have act: "activated example_joystick ?e =
      active_joystick\<lparr>touch_index := int_of_FingerID f, tip_center := SDL_FPoint (Fin 100) (Fin 300)\<rparr>"
    by (simp add: activated_def example_touch_pos)
       (simp add: active_joystick_def example_joystick_def finger_event_def SDL_SetTextureColorMod_def)
  have "VirtualJoystick_HandleEvent example_joystick ?e =
      update_joystick_logic (activated example_joystick ?e) (SDL_FPoint (Fin 50) (Fin 50))"
    using HandleEvent_down_activated [OF _ gate] by (simp add: example_touch_pos) (simp add: finger_event_def)
  also have "\<dots> = active_joystick\<lparr>touch_index := int_of_FingerID f\<rparr>"
    unfolding act update_overwrites_tip active_start
    by (simp add: active_joystick_def example_joystick_def)
  finally show ?thesis .
qed

lemma active_touch_pos:
  "touch_pos_of (active_joystick\<lparr>touch_index := i\<rparr>) (finger_event t f (25 / 512) (25 / 256)) =
     SDL_FPoint (Fin 50) (Fin 100)"
  "touch_pos_of active_joystick (finger_event t f (51 / 1024) (1 / 8)) = SDL_FPoint (Fin 51) (Fin 128)"
  by (simp_all add: touch_pos_of_def finger_event_def active_joystick_def example_joystick_def
      float_of_int_def rnd_numeral)

lemma active_facts:
  "\<not> hidden (active_joystick\<lparr>touch_index := i\<rparr>)" "\<not> hidden active_joystick"
  "touch_index active_joystick = 7" "active_joystick\<lparr>touch_index := 7\<rparr> = active_joystick"
  "clampzone_size active_joystick = Fin 75" "deadzone_size active_joystick = Fin 10"
  "base_center active_joystick = SDL_FPoint (Fin 50) (Fin 50)"
  "joystick_mode active_joystick = JOYSTICK_MODE_DYNAMIC"
  "hidden_idle active_joystick"
  by (simp_all add: active_joystick_def example_joystick_def hidden_idle_def)

lemma finger_event_sel [simp]:
  "event_type (finger_event t f fx fy) = t" "fingerId (tfinger (finger_event t f fx fy)) = f"
  by (simp_all add: finger_event_def)

lemma int_of_FingerID_7 [simp]: "int_of_FingerID 7 = 7" "int_of_FingerID 4294967303 = 7"
  by (simp_all add: int_of_FingerID_def)

lemma int_of_FingerID_id: "- 2147483648 \<le> f \<Longrightarrow> f < 2147483648 \<Longrightarrow> int_of_FingerID f = f"
  by (simp add: int_of_FingerID_def)

lemma reset_active:
  "reset_joystick (active_joystick\<lparr>touch_index := i, tip_center := tc, is_pressed := b, output := out\<rparr>) =
     example_joystick\<lparr>tip_texture := Some (SDL_Texture 60 (SDL_Color 200 200 200 180) (200, 200, 200))\<rparr>"
  by (simp add: reset_joystick_eq active_joystick_def example_joystick_def SDL_SetTextureColorMod_def)

text \<open>
  The scenario of a touch-down at pixel \<open>(50, 50)\<close>, a motion to \<open>(50, 100)\<close> and a
  touch-up, for a finger whose identifier fits the \<open>int\<close> field. The second component
  of the output is the \<open>float\<close> nearest to 40/65.
\<close>

lemma dynamic_scenario_int_id:
  assumes "- 2147483648 \<le> f" "f < 2147483648"
  shows "VirtualJoystick_HandleEvent example_joystick (finger_event SDL_FINGERDOWN f (25 / 512) (25 / 512)) =
           active_joystick\<lparr>touch_index := f\<rparr>"
    "VirtualJoystick_HandleEvent (active_joystick\<lparr>touch_index := f\<rparr>)
         (finger_event SDL_FINGERMOTION f (25 / 512) (25 / 256)) =
       active_joystick\<lparr>touch_index := f, tip_center := SDL_FPoint (Fin 50) (Fin 100), is_pressed := True,
         output := Vector2 (Fin 0) (Fin (10324441 / 16777216))\<rparr>"
    "VirtualJoystick_HandleEvent
         (active_joystick\<lparr>touch_index := f, tip_center := SDL_FPoint (Fin 50) (Fin 100), is_pressed := True,
            output := Vector2 (Fin 0) (Fin (10324441 / 16777216))\<rparr>)
         (finger_event SDL_FINGERUP f (25 / 512) (25 / 256)) =
       example_joystick\<lparr>tip_texture := Some (SDL_Texture 60 (SDL_Color 200 200 200 180) (200, 200, 200))\<rparr>"
proof -
  show "VirtualJoystick_HandleEvent example_joystick (finger_event SDL_FINGERDOWN f (25 / 512) (25 / 512)) =
           active_joystick\<lparr>touch_index := f\<rparr>"
    using assms by (simp add: example_down int_of_FingerID_id)
  show "VirtualJoystick_HandleEvent (active_joystick\<lparr>touch_index := f\<rparr>)
         (finger_event SDL_FINGERMOTION f (25 / 512) (25 / 256)) =
       active_joystick\<lparr>touch_index := f, tip_center := SDL_FPoint (Fin 50) (Fin 100), is_pressed := True,
         output := Vector2 (Fin 0) (Fin (10324441 / 16777216))\<rparr>"
    by (simp add: HandleEvent_motion active_facts active_touch_pos active_motion)
  show "VirtualJoystick_HandleEvent
         (active_joystick\<lparr>touch_index := f, tip_center := SDL_FPoint (Fin 50) (Fin 100), is_pressed := True,
            output := Vector2 (Fin 0) (Fin (10324441 / 16777216))\<rparr>)
         (finger_event SDL_FINGERUP f (25 / 512) (25 / 256)) =
       example_joystick\<lparr>tip_texture := Some (SDL_Texture 60 (SDL_Color 200 200 200 180) (200, 200, 200))\<rparr>"
    by (simp add: HandleEvent_up active_facts reset_active)
qed


subsection \<open>Lemmas for the claims\<close>


lemma released_zero_HandleEvent:
  assumes "released_zero j"
  shows "released_zero (VirtualJoystick_HandleEvent j e)"
  using HandleEvent_results [of j e] assms update_released_zero [of j "touch_pos_of j e"]
    update_released_zero [of "activated j e" "touch_pos_of j e"]
  by (auto simp add: released_zero_def reset_joystick_eq)

lemma update_tip_base:
  "base_center (update_joystick_logic j p) =
     (if follows j p
      then SDL_FPoint (fsub (fpoint_x p) (vec_x (clamped j p))) (fsub (fpoint_y p) (vec_y (clamped j p)))
      else base_center j)"
  "tip_center (update_joystick_logic j p) =
     SDL_FPoint (fadd (fpoint_x (base_center (update_joystick_logic j p))) (vec_x (clamped j p)))
                (fadd (fpoint_y (base_center (update_joystick_logic j p))) (vec_y (clamped j p)))"
proof -
  define c where "c = Vector2_LimitLength (raw_vector j p) (clampzone_size j)"
  define bc where "bc = (if follows j p then SDL_FPoint (fsub (fpoint_x p) (vec_x c)) (fsub (fpoint_y p) (vec_y c))
                else base_center j)"
  define j2 where "j2 = j\<lparr>base_center := bc,
      tip_center := SDL_FPoint (fadd (fpoint_x bc) (vec_x c)) (fadd (fpoint_y bc) (vec_y c))\<rparr>"
  have upd: "update_joystick_logic j p = update_output j2 c"
    by (simp add: update_joystick_logic_eq c_def bc_def j2_def Let_def)
  obtain b out where "update_output j2 c = j2\<lparr>is_pressed := b, output := out\<rparr>"
    using update_output_shape by blast
  with upd have 1: "base_center (update_joystick_logic j p) = bc"
    and 2: "tip_center (update_joystick_logic j p) =
      SDL_FPoint (fadd (fpoint_x bc) (vec_x c)) (fadd (fpoint_y bc) (vec_y c))"
    by (simp_all add: j2_def)
  show "base_center (update_joystick_logic j p) =
     (if follows j p
      then SDL_FPoint (fsub (fpoint_x p) (vec_x (clamped j p))) (fsub (fpoint_y p) (vec_y (clamped j p)))
      else base_center j)"
    using 1 by (simp add: bc_def c_def clamped_def)
  show "tip_center (update_joystick_logic j p) =
     SDL_FPoint (fadd (fpoint_x (base_center (update_joystick_logic j p))) (vec_x (clamped j p)))
                (fadd (fpoint_y (base_center (update_joystick_logic j p))) (vec_y (clamped j p)))"
    using 1 2 by (simp add: c_def clamped_def)
qed

lemma tip_distance_same: "tip_center j = base_center j \<Longrightarrow> tip_distance j = 0"
  by (simp add: tip_distance_def distance_def)

subsection \<open>Rounding errors\<close>

text \<open>
  The error of one rounding is at most \<open>2\<^sup>-\<^sup>2\<^sup>4\<close> of the value, plus \<open>2\<^sup>-\<^sup>1\<^sup>5\<^sup>0\<close> where the
  result is subnormal (\<open>rnd_r_error\<close>). The lemmas below carry this through the
  operations of the vector helpers. \<open>nrm x y\<close> is the Euclidean norm of \<open>(x, y)\<close>.
\<close>

lemma rnd_r_le: "0 \<le> t \<Longrightarrow> rnd_r t \<le> t * (1 + 1 / 2 ^ 24) + 1 / 2 ^ 150"
  using rnd_r_error [of t] by (simp add: abs_le_iff algebra_simps)

lemma rnd_r_ge: "0 \<le> t \<Longrightarrow> t * (1 - 1 / 2 ^ 24) - 1 / 2 ^ 150 \<le> rnd_r t"
  using rnd_r_error [of t] by (simp add: abs_le_iff algebra_simps)

lemma rnd_r_abs: "\<bar>rnd_r t\<bar> \<le> \<bar>t\<bar> * (1 + 1 / 2 ^ 24) + 1 / 2 ^ 150"
  using rnd_r_error [of t] by (simp add: algebra_simps)

lemma rnd_fin:
  assumes "\<bar>t\<bar> \<le> 2 ^ 127"
  shows "rnd t = Fin (rnd_r t)"
proof -
  have "\<bar>t\<bar> * (1 + 1 / 2 ^ 24) \<le> 2 ^ 127 * (1 + 1 / 2 ^ 24)"
    using assms by (intro mult_right_mono) simp_all
  then have "\<bar>rnd_r t\<bar> < 2 ^ 128" using rnd_r_abs [of t] by simp
  then show ?thesis by (simp add: rnd_def abs_less_iff)
qed

lemma nrm_triangle: "sqrt ((a + c)\<^sup>2 + (b + d)\<^sup>2) \<le> sqrt (a\<^sup>2 + b\<^sup>2) + sqrt (c\<^sup>2 + d\<^sup>2)"
  by (rule real_sqrt_sum_squares_triangle_ineq)

lemma nrm_le_abs: "sqrt (a\<^sup>2 + b\<^sup>2) \<le> \<bar>a\<bar> + \<bar>b\<bar>"
  by (rule sqrt_sum_squares_le_sum_abs)

lemma abs_le_nrm: "\<bar>a\<bar> \<le> sqrt (a\<^sup>2 + b\<^sup>2)" "\<bar>b\<bar> \<le> sqrt (a\<^sup>2 + b\<^sup>2)"
  by (simp_all add: real_le_rsqrt)

lemma nrm_scale: "sqrt ((k * a)\<^sup>2 + (k * b)\<^sup>2) = \<bar>k\<bar> * sqrt (a\<^sup>2 + b\<^sup>2)"
proof -
  have "(k * a)\<^sup>2 + (k * b)\<^sup>2 = k\<^sup>2 * (a\<^sup>2 + b\<^sup>2)" by (simp add: power2_eq_square algebra_simps)
  then show ?thesis by (simp add: real_sqrt_mult)
qed

lemma nrm_perturb:
  assumes "\<bar>cx - a\<bar> \<le> ex" "\<bar>cy - b\<bar> \<le> ey"
  shows "sqrt (cx\<^sup>2 + cy\<^sup>2) \<le> sqrt (a\<^sup>2 + b\<^sup>2) + ex + ey"
    and "sqrt (a\<^sup>2 + b\<^sup>2) - ex - ey \<le> sqrt (cx\<^sup>2 + cy\<^sup>2)"
proof -
  have d: "sqrt ((cx - a)\<^sup>2 + (cy - b)\<^sup>2) \<le> ex + ey"
    using nrm_le_abs [of "cx - a" "cy - b"] assms by linarith
  have "sqrt (cx\<^sup>2 + cy\<^sup>2) \<le> sqrt (a\<^sup>2 + b\<^sup>2) + sqrt ((cx - a)\<^sup>2 + (cy - b)\<^sup>2)"
    using nrm_triangle [of a "cx - a" b "cy - b"] by simp
  with d show "sqrt (cx\<^sup>2 + cy\<^sup>2) \<le> sqrt (a\<^sup>2 + b\<^sup>2) + ex + ey" by linarith
  have "sqrt (a\<^sup>2 + b\<^sup>2) \<le> sqrt (cx\<^sup>2 + cy\<^sup>2) + sqrt ((a - cx)\<^sup>2 + (b - cy)\<^sup>2)"
    using nrm_triangle [of cx "a - cx" cy "b - cy"] by simp
  moreover have "sqrt ((a - cx)\<^sup>2 + (b - cy)\<^sup>2) = sqrt ((cx - a)\<^sup>2 + (cy - b)\<^sup>2)"
    by (simp add: power2_commute)
  ultimately show "sqrt (a\<^sup>2 + b\<^sup>2) - ex - ey \<le> sqrt (cx\<^sup>2 + cy\<^sup>2)" using d by linarith
qed

lemma rnd_r_min:
  assumes "rnd_r t \<noteq> 0"
  shows "1 / 2 ^ 149 \<le> \<bar>rnd_r t\<bar>"
proof -
  define n where "n = round_even (t / ulp t)"
  have t: "t \<noteq> 0" using assms by (auto simp add: rnd_r_def)
  then have r: "rnd_r t = of_int n * ulp t" by (simp add: rnd_r_def n_def)
  with assms have "n \<noteq> 0" by auto
  then have n: "1 \<le> \<bar>real_of_int n\<bar>" by linarith
  have "(2::real) powi (- 149) \<le> 2 powi (binade t - 23)"
    using binade_ge [of t] by (intro power_int_increasing) simp_all
  then have "1 / 2 ^ 149 \<le> ulp t" by (simp add: ulp_def power_int_minus field_simps)
  moreover have "\<bar>rnd_r t\<bar> = \<bar>real_of_int n\<bar> * ulp t" using ulp_pos [of t] by (simp add: r abs_mult)
  moreover have "1 * ulp t \<le> \<bar>real_of_int n\<bar> * ulp t"
    using n ulp_pos [of t] by (intro mult_right_mono) simp_all
  ultimately show ?thesis by linarith
qed

text \<open>The computed length of a vector, against its exact length.\<close>

lemma Vector2_Length_error:
  assumes "\<bar>x\<bar> \<le> 2 ^ 60" "\<bar>y\<bar> \<le> 2 ^ 60"
  shows "\<exists>l. Vector2_Length (Vector2 (Fin x) (Fin y)) = Fin l \<and> 0 \<le> l \<and> l \<le> 2 ^ 63 \<and>
           (l = 0 \<or> 1 / 2 ^ 149 \<le> l) \<and>
           l \<le> sqrt (x\<^sup>2 + y\<^sup>2) * (1 + 4 / 2 ^ 24) + 1 / 2 ^ 73 \<and>
           sqrt (x\<^sup>2 + y\<^sup>2) * (1 - 4 / 2 ^ 24) - 1 / 2 ^ 73 \<le> l"
proof -
  define A where "A = x * x"
  define B where "B = y * y"
  define L where "L = sqrt (x\<^sup>2 + y\<^sup>2)"
  define Q where "Q = L * L"
  define s1 where "s1 = rnd_r A"
  define s2 where "s2 = rnd_r B"
  define s where "s = rnd_r (s1 + s2)"
  define r where "r = sqrt s"
  define l where "l = rnd_r r"
  have A0: "0 \<le> A" and B0: "0 \<le> B" by (simp_all add: A_def B_def)
  have L0: "0 \<le> L" by (simp add: L_def)
  have Q: "Q = A + B" by (simp add: Q_def L_def A_def B_def power2_eq_square [symmetric])
  have Q0: "0 \<le> Q" using A0 B0 by (simp add: Q)
  have "\<bar>x\<bar> * \<bar>x\<bar> \<le> 2 ^ 60 * 2 ^ 60" using assms(1) by (intro mult_mono) simp_all
  then have A1: "A \<le> 2 ^ 120" by (simp add: A_def abs_mult_self_eq)
  have "\<bar>y\<bar> * \<bar>y\<bar> \<le> 2 ^ 60 * 2 ^ 60" using assms(2) by (intro mult_mono) simp_all
  then have B1: "B \<le> 2 ^ 120" by (simp add: B_def abs_mult_self_eq)
  have s1: "0 \<le> s1" "s1 \<le> A * (1 + 1 / 2 ^ 24) + 1 / 2 ^ 150" "A * (1 - 1 / 2 ^ 24) - 1 / 2 ^ 150 \<le> s1"
    using rnd_r_sign(1) [OF A0] rnd_r_le [OF A0] rnd_r_ge [OF A0] by (simp_all add: s1_def)
  have s2: "0 \<le> s2" "s2 \<le> B * (1 + 1 / 2 ^ 24) + 1 / 2 ^ 150" "B * (1 - 1 / 2 ^ 24) - 1 / 2 ^ 150 \<le> s2"
    using rnd_r_sign(1) [OF B0] rnd_r_le [OF B0] rnd_r_ge [OF B0] by (simp_all add: s2_def)
  have t0: "0 \<le> s1 + s2" using s1 s2 by simp
  have t1: "s1 + s2 \<le> 2 ^ 122" using s1(2) s2(2) A1 B1 by simp
  have s: "0 \<le> s" "s \<le> (s1 + s2) * (1 + 1 / 2 ^ 24) + 1 / 2 ^ 150"
      "(s1 + s2) * (1 - 1 / 2 ^ 24) - 1 / 2 ^ 150 \<le> s"
    using rnd_r_sign(1) [OF t0] rnd_r_le [OF t0] rnd_r_ge [OF t0] by (simp_all add: s_def)
  have s_up: "s \<le> Q * (1 + 3 / 2 ^ 24) + 4 / 2 ^ 150"
    using s(2) s1(2) s2(2) A0 B0 unfolding Q by (simp; argo)
  have s_lo: "Q * (1 - 3 / 2 ^ 24) - 4 / 2 ^ 150 \<le> s"
    using s(3) s1(3) s2(3) A0 B0 unfolding Q by (simp; argo)
  have s_max: "s \<le> 2 ^ 123" using s(2) t1 by (simp; argo)
  have r0: "0 \<le> r" using s(1) by (simp add: r_def)
  have r_up: "r \<le> L * (1 + 2 / 2 ^ 24) + 1 / 2 ^ 74"
  proof -
    define w where "w = L * (1 + 2 / 2 ^ 24)"
    have w0: "0 \<le> w" using L0 by (simp add: w_def)
    have "w * w = Q * ((1 + 2 / 2 ^ 24) * (1 + 2 / 2 ^ 24))" by (simp add: w_def Q_def algebra_simps)
    then have ww: "Q * (1 + 3 / 2 ^ 24) \<le> w * w" using Q0 by (simp; argo)
    have "0 \<le> w * (1 / 2 ^ 74)" using w0 by simp
    moreover have "(w + 1 / 2 ^ 74)\<^sup>2 = w * w + 2 * (w * (1 / 2 ^ 74)) + 1 / 2 ^ 148"
      by (simp add: power2_eq_square algebra_simps)
    ultimately have "s \<le> (w + 1 / 2 ^ 74)\<^sup>2" using s_up ww by (simp; argo)
    then have "sqrt s \<le> w + 1 / 2 ^ 74" using w0 by (intro real_le_lsqrt) simp_all
    then show ?thesis by (simp add: r_def w_def)
  qed
  have r_lo: "L * (1 - 3 / 2 ^ 24) - 1 / 2 ^ 74 \<le> r"
  proof (cases "L * (1 - 3 / 2 ^ 24) - 1 / 2 ^ 74 \<le> 0")
    case True
    with r0 show ?thesis by linarith
  next
    case False
    define w where "w = L * (1 - 3 / 2 ^ 24)"
    have w1: "1 / 2 ^ 74 < w" using False by (simp add: w_def)
    have "w * w = Q * ((1 - 3 / 2 ^ 24) * (1 - 3 / 2 ^ 24))" by (simp add: w_def Q_def algebra_simps)
    then have ww: "w * w \<le> Q * (1 - 3 / 2 ^ 24)" using Q0 by (simp; argo)
    have "1 / 2 ^ 74 * (1 / 2 ^ 74) \<le> w * (1 / 2 ^ 74)" using w1 by (intro mult_right_mono) simp_all
    moreover have "(w - 1 / 2 ^ 74)\<^sup>2 = w * w - 2 * (w * (1 / 2 ^ 74)) + 1 / 2 ^ 148"
      by (simp add: power2_eq_square algebra_simps)
    ultimately have "(w - 1 / 2 ^ 74)\<^sup>2 \<le> s" using s_lo ww by (simp; argo)
    then have "w - 1 / 2 ^ 74 \<le> sqrt s" by (rule real_le_rsqrt)
    then show ?thesis by (simp add: r_def w_def)
  qed
  have "r * r = s" using s(1) by (simp add: r_def)
  then have r_max: "r \<le> 2 ^ 62"
  proof -
    have "s \<le> (2 ^ 62)\<^sup>2" using s_max by (simp; argo)
    then have "sqrt s \<le> 2 ^ 62" by (intro real_le_lsqrt) simp_all
    then show ?thesis by (simp add: r_def)
  qed
  have l: "0 \<le> l" "l \<le> r * (1 + 1 / 2 ^ 24) + 1 / 2 ^ 150" "r * (1 - 1 / 2 ^ 24) - 1 / 2 ^ 150 \<le> l"
    using rnd_r_sign(1) [OF r0] rnd_r_le [OF r0] rnd_r_ge [OF r0] by (simp_all add: l_def)
  have l_up: "l \<le> L * (1 + 4 / 2 ^ 24) + 1 / 2 ^ 73" using l(2) r_up L0 by (simp; argo)
  have l_lo: "L * (1 - 4 / 2 ^ 24) - 1 / 2 ^ 73 \<le> l" using l(3) r_lo L0 by (simp; argo)
  have l_max: "l \<le> 2 ^ 63" using l(2) r_max by (simp; argo)
  have f1: "fmul (Fin x) (Fin x) = Fin s1" using A1 A0 by (simp add: s1_def A_def rnd_fin)
  have f2: "fmul (Fin y) (Fin y) = Fin s2" using B1 B0 by (simp add: s2_def B_def rnd_fin)
  have f3: "fadd (Fin s1) (Fin s2) = Fin s" using t0 t1 by (simp add: s_def rnd_fin)
  have f4: "fsqrt (Fin s) = Fin l" using s(1) r0 r_max by (simp add: l_def r_def rnd_fin)
  have "Vector2_Length (Vector2 (Fin x) (Fin y)) = Fin l"
    by (simp only: Vector2_Length_def Vector2.sel f1 f2 f3 f4)
  moreover have "l = 0 \<or> 1 / 2 ^ 149 \<le> l"
    using rnd_r_min [of r] l(1) by (auto simp add: l_def)
  ultimately show ?thesis using l(1) l_up l_lo l_max unfolding L_def by blast
qed

text \<open>One component of the clamped vector, against the exact scaling by \<open>m / l\<close>.\<close>

lemma clamp_component:
  assumes l: "0 < l" "m < l" "0 \<le> m" "m \<le> 2 ^ 60"
    and X: "\<bar>x\<bar> / l \<le> 2 ^ 77" and x: "\<bar>x\<bar> \<le> 2 ^ 60"
  shows "\<exists>c. fmul (fdiv (Fin x) (Fin l)) (Fin m) = Fin c \<and> \<bar>c\<bar> \<le> 2 ^ 61 \<and>
           \<bar>c - m / l * x\<bar> \<le> 3 / 2 ^ 24 * (m / l * \<bar>x\<bar>) + 1 / 2 ^ 88"
proof -
  define q where "q = rnd_r (x / l)"
  define c where "c = rnd_r (q * m)"
  define X where "X = \<bar>x\<bar> / l"
  define P where "P = X * m"
  have X0: "0 \<le> X" using l(1) by (simp add: X_def)
  have Xa: "\<bar>x / l\<bar> = X" using l(1) by (simp add: X_def)
  have P0: "0 \<le> P" using X0 l(3) by (simp add: P_def)
  have Pk: "P = m / l * \<bar>x\<bar>" by (simp add: P_def X_def)
  have "m / l \<le> 1" using l by simp
  then have "m / l * \<bar>x\<bar> \<le> 1 * \<bar>x\<bar>" by (intro mult_right_mono) simp_all
  then have P1: "P \<le> 2 ^ 60" using x by (simp add: Pk)
  have e1: "\<bar>q - x / l\<bar> \<le> X / 2 ^ 24 + 1 / 2 ^ 150"
    using rnd_r_error [of "x / l"] unfolding Xa q_def [symmetric] by simp
  have "\<bar>q\<bar> \<le> \<bar>q - x / l\<bar> + X" using Xa by linarith
  then have qa: "\<bar>q\<bar> \<le> X * (1 + 1 / 2 ^ 24) + 1 / 2 ^ 150" using e1 by (simp; argo)
  have "\<bar>q\<bar> * m \<le> (X * (1 + 1 / 2 ^ 24) + 1 / 2 ^ 150) * m"
    using qa l(3) by (rule mult_right_mono)
  also have "\<dots> = P * (1 + 1 / 2 ^ 24) + m / 2 ^ 150" by (simp add: P_def algebra_simps)
  finally have qm: "\<bar>q * m\<bar> \<le> P * (1 + 1 / 2 ^ 24) + m / 2 ^ 150" using l(3) by (simp add: abs_mult)
  have e2: "\<bar>c - q * m\<bar> \<le> \<bar>q * m\<bar> / 2 ^ 24 + 1 / 2 ^ 150"
    using rnd_r_error [of "q * m"] by (simp add: c_def)
  have "\<bar>q - x / l\<bar> * m \<le> (X / 2 ^ 24 + 1 / 2 ^ 150) * m"
    using e1 l(3) by (rule mult_right_mono)
  also have "\<dots> = P / 2 ^ 24 + m / 2 ^ 150" by (simp add: P_def algebra_simps)
  finally have "\<bar>(q - x / l) * m\<bar> \<le> P / 2 ^ 24 + m / 2 ^ 150" using l(3) by (simp add: abs_mult)
  moreover have "(q - x / l) * m = q * m - m / l * x" by (simp add: algebra_simps)
  ultimately have e3: "\<bar>q * m - m / l * x\<bar> \<le> P / 2 ^ 24 + m / 2 ^ 150" by simp
  have "\<bar>c - m / l * x\<bar> \<le> \<bar>c - q * m\<bar> + \<bar>q * m - m / l * x\<bar>" by linarith
  then have err: "\<bar>c - m / l * x\<bar> \<le> 3 / 2 ^ 24 * P + 1 / 2 ^ 88"
    using e2 e3 qm P0 l(3,4) by (simp; argo)
  have cmax: "\<bar>c\<bar> \<le> 2 ^ 61" using e2 qm P0 P1 l(3,4) by (simp; argo)
  have "\<bar>x / l\<bar> \<le> 2 ^ 127" using X unfolding Xa X_def [symmetric] by (simp; argo)
  then have f1: "fdiv (Fin x) (Fin l) = Fin q" using l(1) by (simp add: q_def rnd_fin)
  have "\<bar>q * m\<bar> \<le> 2 ^ 127" using qm P1 l(3,4) by (simp; argo)
  then have f2: "fmul (Fin q) (Fin m) = Fin c" by (simp add: c_def rnd_fin)
  show ?thesis using f1 f2 err cmax by (simp add: Pk)
qed

text \<open>The clamped vector: its exact length against \<open>max_len\<close>.\<close>

lemma Vector2_LimitLength_error:
  assumes "\<bar>x\<bar> \<le> 2 ^ 60" "\<bar>y\<bar> \<le> 2 ^ 60" "0 \<le> m" "m \<le> 2 ^ 60"
  shows "\<exists>cx cy. Vector2_LimitLength (Vector2 (Fin x) (Fin y)) (Fin m) = Vector2 (Fin cx) (Fin cy) \<and>
           \<bar>cx\<bar> \<le> 2 ^ 61 \<and> \<bar>cy\<bar> \<le> 2 ^ 61 \<and>
           sqrt (cx\<^sup>2 + cy\<^sup>2) \<le> m * (1 + 16 / 2 ^ 24) + 1 / 2 ^ 70 \<and>
           (fgt (Vector2_Length (Vector2 (Fin x) (Fin y))) (Fin m) \<longrightarrow>
              m * (1 - 16 / 2 ^ 24) - 1 / 2 ^ 70 \<le> sqrt (cx\<^sup>2 + cy\<^sup>2))"
proof -
  define L where "L = sqrt (x\<^sup>2 + y\<^sup>2)"
  obtain l where len: "Vector2_Length (Vector2 (Fin x) (Fin y)) = Fin l" and l0: "0 \<le> l"
    and l_up: "l \<le> L * (1 + 4 / 2 ^ 24) + 1 / 2 ^ 73"
    and l_lo: "L * (1 - 4 / 2 ^ 24) - 1 / 2 ^ 73 \<le> l"
    and l_min: "l = 0 \<or> 1 / 2 ^ 149 \<le> l"
    using Vector2_Length_error [OF assms(1,2)] unfolding L_def by blast
  have L0: "0 \<le> L" by (simp add: L_def)
  have xL: "\<bar>x\<bar> \<le> L" "\<bar>y\<bar> \<le> L" unfolding L_def by (rule abs_le_nrm)+
  show ?thesis
  proof (cases "m < l")
    case False
    then have "Vector2_LimitLength (Vector2 (Fin x) (Fin y)) (Fin m) = Vector2 (Fin x) (Fin y)"
      by (simp add: Vector2_LimitLength_def len)
    moreover have "L \<le> m * (1 + 16 / 2 ^ 24) + 1 / 2 ^ 70" using l_lo False assms(3) by (simp; argo)
    moreover have "(2::real) ^ 60 \<le> 2 ^ 61" by simp
    then have "\<bar>x\<bar> \<le> 2 ^ 61" "\<bar>y\<bar> \<le> 2 ^ 61" using assms(1,2) by linarith+
    ultimately show ?thesis using False by (simp add: len L_def)
  next
    case True
    then have lpos: "0 < l" using assms(3) by simp
    define k where "k = m / l"
    have k: "0 \<le> k" "k \<le> 1" "k * l = m" using True lpos assms(3) by (simp_all add: k_def)
    have "l \<noteq> 0" using lpos by simp
    have lmin: "1 / 2 ^ 149 \<le> l" using l_min lpos by simp
    have Ll: "L \<le> l * 2 ^ 77" using l_lo lmin by (simp; argo)
    have X: "\<bar>x\<bar> / l \<le> 2 ^ 77" "\<bar>y\<bar> / l \<le> 2 ^ 77"
      using xL Ll lpos by (simp_all add: field_simps)
    obtain cx where cx: "fmul (fdiv (Fin x) (Fin l)) (Fin m) = Fin cx" "\<bar>cx\<bar> \<le> 2 ^ 61"
        "\<bar>cx - k * x\<bar> \<le> 3 / 2 ^ 24 * (k * \<bar>x\<bar>) + 1 / 2 ^ 88"
      using clamp_component [OF lpos True assms(3,4) X(1) assms(1)] unfolding k_def by blast
    obtain cy where cy: "fmul (fdiv (Fin y) (Fin l)) (Fin m) = Fin cy" "\<bar>cy\<bar> \<le> 2 ^ 61"
        "\<bar>cy - k * y\<bar> \<le> 3 / 2 ^ 24 * (k * \<bar>y\<bar>) + 1 / 2 ^ 88"
      using clamp_component [OF lpos True assms(3,4) X(2) assms(2)] unfolding k_def by blast
    define K where "K = k * L"
    have K0: "0 \<le> K" using k(1) L0 by (simp add: K_def)
    have kx: "k * \<bar>x\<bar> \<le> K" "k * \<bar>y\<bar> \<le> K" unfolding K_def using xL k(1) by (simp_all add: mult_left_mono)
    have nk: "sqrt ((k * x)\<^sup>2 + (k * y)\<^sup>2) = K" using k(1) by (simp add: nrm_scale K_def L_def)
    have up: "sqrt (cx\<^sup>2 + cy\<^sup>2) \<le> K + (3 / 2 ^ 24 * K + 1 / 2 ^ 88) + (3 / 2 ^ 24 * K + 1 / 2 ^ 88)"
      using nrm_perturb(1) [of cx "k * x" "3 / 2 ^ 24 * K + 1 / 2 ^ 88" cy "k * y" "3 / 2 ^ 24 * K + 1 / 2 ^ 88"]
        cx(3) cy(3) kx unfolding nk by (simp; argo)
    have lo: "K - (3 / 2 ^ 24 * K + 1 / 2 ^ 88) - (3 / 2 ^ 24 * K + 1 / 2 ^ 88) \<le> sqrt (cx\<^sup>2 + cy\<^sup>2)"
      using nrm_perturb(2) [of cx "k * x" "3 / 2 ^ 24 * K + 1 / 2 ^ 88" cy "k * y" "3 / 2 ^ 24 * K + 1 / 2 ^ 88"]
        cx(3) cy(3) kx unfolding nk by (simp; argo)
    have "k * (L * (1 - 4 / 2 ^ 24) - 1 / 2 ^ 73) \<le> k * l" using l_lo k(1) by (rule mult_left_mono)
    then have K_up: "K * (1 - 4 / 2 ^ 24) \<le> m + k / 2 ^ 73" by (simp add: K_def k(3) algebra_simps)
    have "k * l \<le> k * (L * (1 + 4 / 2 ^ 24) + 1 / 2 ^ 73)" using l_up k(1) by (rule mult_left_mono)
    then have K_lo: "m \<le> K * (1 + 4 / 2 ^ 24) + k / 2 ^ 73" by (simp add: K_def k(3) algebra_simps)
    have 1: "sqrt (cx\<^sup>2 + cy\<^sup>2) \<le> m * (1 + 16 / 2 ^ 24) + 1 / 2 ^ 70"
      using up K_up K0 k(1,2) assms(3) by (simp; argo)
    have 2: "m * (1 - 16 / 2 ^ 24) - 1 / 2 ^ 70 \<le> sqrt (cx\<^sup>2 + cy\<^sup>2)"
      using lo K_lo K0 k(1,2) assms(3) by (simp; argo)
    have "Vector2_LimitLength (Vector2 (Fin x) (Fin y)) (Fin m) = Vector2 (Fin cx) (Fin cy)"
      using True by (simp add: Vector2_LimitLength_def len cx(1) cy(1) del: float_ops)
    then show ?thesis using cx(2) cy(2) 1 2 by simp
  qed
qed

text \<open>The tip after the update routine: its exact distance from the base centre.\<close>

lemma bounded_point_cases:
  assumes "bounded_point B p"
  obtains x y where "p = SDL_FPoint (Fin x) (Fin y)" "\<bar>x\<bar> \<le> B" "\<bar>y\<bar> \<le> B"
proof -
  obtain a b where p: "p = SDL_FPoint a b" by (cases p)
  with assms obtain x y where "a = Fin x" "b = Fin y"
    by (cases a; cases b) (simp_all add: bounded_point_def finite_point_def is_finite_def)
  with p assms that show ?thesis by (simp add: bounded_point_def float_val_def)
qed

lemma update_tip_distance:
  assumes p: "bounded_point 8192 p" and b: "bounded_point 8192 (base_center j)"
    and m: "clampzone_size j = Fin m" "0 \<le> m" "m \<le> 1024"
  shows "bounded_point 16384 (base_center (update_joystick_logic j p)) \<and>
         finite_point (tip_center (update_joystick_logic j p)) \<and>
         tip_distance (update_joystick_logic j p) \<le> m + 1 / 2 ^ 7 \<and>
         (follows j p \<longrightarrow>
            m - 1 / 2 ^ 7 \<le> tip_distance (update_joystick_logic j p) \<and>
            distance (tip_center (update_joystick_logic j p)) p \<le> 1 / 2 ^ 7) \<and>
         (\<exists>cx cy. clamped j p = Vector2 (Fin cx) (Fin cy) \<and>
            sqrt (cx\<^sup>2 + cy\<^sup>2) \<le> m * (1 + 16 / 2 ^ 24) + 1 / 2 ^ 70 \<and>
            (follows j p \<longrightarrow> m * (1 - 16 / 2 ^ 24) - 1 / 2 ^ 70 \<le> sqrt (cx\<^sup>2 + cy\<^sup>2)))"
proof -
  obtain px py where pp: "p = SDL_FPoint (Fin px) (Fin py)" "\<bar>px\<bar> \<le> 8192" "\<bar>py\<bar> \<le> 8192"
    using p by (rule bounded_point_cases)
  obtain bx "by" where bb: "base_center j = SDL_FPoint (Fin bx) (Fin by)" "\<bar>bx\<bar> \<le> 8192" "\<bar>by\<bar> \<le> 8192"
    using b by (rule bounded_point_cases)
  define rx where "rx = rnd_r (px - bx)"
  define ry where "ry = rnd_r (py - by)"
  have rx: "\<bar>rx\<bar> \<le> 2 ^ 15" using rnd_r_abs [of "px - bx"] pp(2) bb(2) unfolding rx_def by (simp; argo)
  have ry: "\<bar>ry\<bar> \<le> 2 ^ 15" using rnd_r_abs [of "py - by"] pp(3) bb(3) unfolding ry_def by (simp; argo)
  have "\<bar>px - bx\<bar> \<le> 2 ^ 127" using pp(2) bb(2) by (simp; argo)
  moreover have "\<bar>py - by\<bar> \<le> 2 ^ 127" using pp(3) bb(3) by (simp; argo)
  ultimately have raw: "raw_vector j p = Vector2 (Fin rx) (Fin ry)"
    by (simp add: raw_vector_def pp(1) bb(1) fsub_def rx_def ry_def rnd_fin)
  have r60: "\<bar>rx\<bar> \<le> 2 ^ 60" "\<bar>ry\<bar> \<le> 2 ^ 60" "m \<le> 2 ^ 60"
  proof -
    show "\<bar>rx\<bar> \<le> 2 ^ 60" using rx by (simp; argo)
    show "\<bar>ry\<bar> \<le> 2 ^ 60" using ry by (simp; argo)
    show "m \<le> 2 ^ 60" using m(3) by (simp; argo)
  qed
  obtain cx cy where c: "Vector2_LimitLength (Vector2 (Fin rx) (Fin ry)) (Fin m) = Vector2 (Fin cx) (Fin cy)"
    and cn: "sqrt (cx\<^sup>2 + cy\<^sup>2) \<le> m * (1 + 16 / 2 ^ 24) + 1 / 2 ^ 70"
    and cl_lo: "fgt (Vector2_Length (Vector2 (Fin rx) (Fin ry))) (Fin m) \<longrightarrow>
              m * (1 - 16 / 2 ^ 24) - 1 / 2 ^ 70 \<le> sqrt (cx\<^sup>2 + cy\<^sup>2)"
    using Vector2_LimitLength_error [OF r60(1,2) m(2) r60(3)] by blast
  have cn_lo: "m * (1 - 16 / 2 ^ 24) - 1 / 2 ^ 70 \<le> sqrt (cx\<^sup>2 + cy\<^sup>2)" if "follows j p"
    using that cl_lo by (simp add: follows_def raw m(1))
  have cl: "clamped j p = Vector2 (Fin cx) (Fin cy)" by (simp add: clamped_def raw m(1) c)
  have cxy: "\<bar>cx\<bar> \<le> 1025" "\<bar>cy\<bar> \<le> 1025"
  proof -
    show "\<bar>cx\<bar> \<le> 1025" using abs_le_nrm(1) [of cx cy] cn m(2,3) by (simp; argo)
    show "\<bar>cy\<bar> \<le> 1025" using abs_le_nrm(2) [of cy cx] cn m(2,3) by (simp; argo)
  qed
  define ax where "ax = (if follows j p then rnd_r (px - cx) else bx)"
  define ay where "ay = (if follows j p then rnd_r (py - cy) else by)"
  have ax: "\<bar>ax\<bar> \<le> 16384"
    using rnd_r_abs [of "px - cx"] pp(2) cxy(1) bb(2) unfolding ax_def by (simp; argo)
  have ay: "\<bar>ay\<bar> \<le> 16384"
    using rnd_r_abs [of "py - cy"] pp(3) cxy(2) bb(3) unfolding ay_def by (simp; argo)
  have "\<bar>px - cx\<bar> \<le> 2 ^ 127" using pp(2) cxy(1) by (simp; argo)
  moreover have "\<bar>py - cy\<bar> \<le> 2 ^ 127" using pp(3) cxy(2) by (simp; argo)
  ultimately have base: "base_center (update_joystick_logic j p) = SDL_FPoint (Fin ax) (Fin ay)"
    by (simp add: update_tip_base(1) cl [unfolded pp(1)] pp(1) bb(1) fsub_def ax_def ay_def rnd_fin)
  define tx where "tx = rnd_r (ax + cx)"
  define ty where "ty = rnd_r (ay + cy)"
  have "\<bar>ax + cx\<bar> \<le> 2 ^ 127" using ax cxy(1) by (simp; argo)
  moreover have "\<bar>ay + cy\<bar> \<le> 2 ^ 127" using ay cxy(2) by (simp; argo)
  ultimately have tip: "tip_center (update_joystick_logic j p) = SDL_FPoint (Fin tx) (Fin ty)"
    by (simp add: update_tip_base(2) base cl tx_def ty_def rnd_fin del: float_ops)
       (simp add: rnd_fin)
  have ex: "\<bar>(tx - ax) - cx\<bar> \<le> 1 / 2 ^ 9"
    using rnd_r_error [of "ax + cx"] ax cxy(1) unfolding tx_def by (simp; argo)
  have ey: "\<bar>(ty - ay) - cy\<bar> \<le> 1 / 2 ^ 9"
    using rnd_r_error [of "ay + cy"] ay cxy(2) unfolding ty_def by (simp; argo)
  have "sqrt ((tx - ax)\<^sup>2 + (ty - ay)\<^sup>2) \<le> sqrt (cx\<^sup>2 + cy\<^sup>2) + 1 / 2 ^ 9 + 1 / 2 ^ 9"
    using ex ey by (rule nrm_perturb(1))
  then have "sqrt ((tx - ax)\<^sup>2 + (ty - ay)\<^sup>2) \<le> m + 1 / 2 ^ 7" using cn m(2,3) by (simp; argo)
  then have up: "tip_distance (update_joystick_logic j p) \<le> m + 1 / 2 ^ 7"
    by (simp add: tip_distance_def distance_def base tip float_val_def)
  have lo: "m - 1 / 2 ^ 7 \<le> tip_distance (update_joystick_logic j p)" if f: "follows j p"
  proof -
    have "sqrt (cx\<^sup>2 + cy\<^sup>2) - 1 / 2 ^ 9 - 1 / 2 ^ 9 \<le> sqrt ((tx - ax)\<^sup>2 + (ty - ay)\<^sup>2)"
      using ex ey by (rule nrm_perturb(2))
    then have "m - 1 / 2 ^ 7 \<le> sqrt ((tx - ax)\<^sup>2 + (ty - ay)\<^sup>2)"
      using cn_lo [OF f] m(2,3) by (simp; argo)
    then show ?thesis by (simp add: tip_distance_def distance_def base tip float_val_def)
  qed
  have onp: "distance (tip_center (update_joystick_logic j p)) p \<le> 1 / 2 ^ 7" if f: "follows j p"
  proof -
    have a: "ax = rnd_r (px - cx)" "ay = rnd_r (py - cy)" using f by (simp_all add: ax_def ay_def)
    have "\<bar>ax - (px - cx)\<bar> \<le> 1 / 2 ^ 10"
      using rnd_r_error [of "px - cx"] pp(2) cxy(1) unfolding a by (simp; argo)
    then have 1: "\<bar>tx - px\<bar> \<le> 1 / 2 ^ 8" using ex by (simp; argo)
    have "\<bar>ay - (py - cy)\<bar> \<le> 1 / 2 ^ 10"
      using rnd_r_error [of "py - cy"] pp(3) cxy(2) unfolding a by (simp; argo)
    then have 2: "\<bar>ty - py\<bar> \<le> 1 / 2 ^ 8" using ey by (simp; argo)
    have "sqrt ((tx - px)\<^sup>2 + (ty - py)\<^sup>2) \<le> 1 / 2 ^ 7"
      using nrm_le_abs [of "tx - px" "ty - py"] 1 2 by (simp; argo)
    then show ?thesis by (simp add: distance_def tip [unfolded pp(1)] pp(1) float_val_def)
  qed
  have "bounded_point 16384 (base_center (update_joystick_logic j p))"
    using ax ay by (simp add: base bounded_point_def finite_point_def is_finite_def float_val_def)
  moreover have "finite_point (tip_center (update_joystick_logic j p))"
    by (simp add: tip finite_point_def is_finite_def)
  ultimately show ?thesis using cl cn cn_lo up lo onp by blast
qed

lemma update_output_frame:
  "update_output (j\<lparr>base_center := b, tip_center := t\<rparr>) c =
     (update_output j c)\<lparr>base_center := b, tip_center := t\<rparr>"
  by (simp add: update_output_def Let_def)

lemma update_output_of_update:
  "output (update_joystick_logic j p) = output (update_output j (clamped j p))"
  "is_pressed (update_joystick_logic j p) = is_pressed (update_output j (clamped j p))"
  by (simp_all add: update_joystick_logic_eq Let_def update_output_frame clamped_def)

text \<open>The output block: the exact magnitude of the output.\<close>

lemma update_output_magnitude:
  assumes cn: "sqrt (cx\<^sup>2 + cy\<^sup>2) \<le> m * (1 + 16 / 2 ^ 24) + 1 / 2 ^ 70"
    and m: "clampzone_size j = Fin m" "1 \<le> m" "m \<le> 1024"
    and d: "deadzone_size j = Fin d" "0 \<le> d" "2 * d \<le> m"
  shows "\<exists>ox oy. output (update_output j (Vector2 (Fin cx) (Fin cy))) = Vector2 (Fin ox) (Fin oy) \<and>
           sqrt (ox\<^sup>2 + oy\<^sup>2) \<le> 1 + 1 / 2 ^ 18 \<and>
           (m * (1 - 16 / 2 ^ 24) - 1 / 2 ^ 70 \<le> sqrt (cx\<^sup>2 + cy\<^sup>2) \<longrightarrow>
              is_pressed (update_output j (Vector2 (Fin cx) (Fin cy))) \<and>
              1 - 1 / 2 ^ 18 \<le> sqrt (ox\<^sup>2 + oy\<^sup>2))"
proof -
  define C where "C = sqrt (cx\<^sup>2 + cy\<^sup>2)"
  have C0: "0 \<le> C" by (simp add: C_def)
  have cC: "\<bar>cx\<bar> \<le> C" "\<bar>cy\<bar> \<le> C" unfolding C_def by (rule abs_le_nrm)+
  have C1: "C \<le> 1025" using cn m(3) unfolding C_def [symmetric] by (simp; argo)
  have c60: "\<bar>cx\<bar> \<le> 2 ^ 60" "\<bar>cy\<bar> \<le> 2 ^ 60"
  proof -
    show "\<bar>cx\<bar> \<le> 2 ^ 60" using cC(1) C1 by (simp; argo)
    show "\<bar>cy\<bar> \<le> 2 ^ 60" using cC(2) C1 by (simp; argo)
  qed
  obtain lc where len: "Vector2_Length (Vector2 (Fin cx) (Fin cy)) = Fin lc" and l0: "0 \<le> lc"
    and l_min: "lc = 0 \<or> 1 / 2 ^ 149 \<le> lc"
    and l_up: "lc \<le> C * (1 + 4 / 2 ^ 24) + 1 / 2 ^ 73"
    and l_lo: "C * (1 - 4 / 2 ^ 24) - 1 / 2 ^ 73 \<le> lc"
    using Vector2_Length_error [OF c60] unfolding C_def by blast
  show ?thesis
  proof (cases "d < lc")
    case False
    then have "update_output j (Vector2 (Fin cx) (Fin cy)) =
        j\<lparr>is_pressed := False, output := Vector2 (Fin 0) (Fin 0)\<rparr>"
      by (intro update_output_released) (simp add: len d(1))
    moreover have "\<not> m * (1 - 16 / 2 ^ 24) - 1 / 2 ^ 70 \<le> C"
      using False l_lo m(2) d(3) by (simp; argo)
    ultimately show ?thesis unfolding C_def by (intro exI [of _ 0]) simp
  next
    case True
    have lpos: "0 < lc" using True d(2) by simp
    have lmin: "1 / 2 ^ 149 \<le> lc" using l_min lpos by simp
    define Z where "Z = 1 / lc"
    have Z: "0 < Z" "lc * Z = 1" using lpos by (simp_all add: Z_def)
    have "1 / lc \<le> 1 / (1 / 2 ^ 149)" using lmin by (intro divide_left_mono) simp_all
    then have Zmax: "Z \<le> 2 ^ 149" by (simp add: Z_def)
    define D where "D = m - d"
    have D: "1 / 2 \<le> D" "D \<le> 1024" using m(2,3) d(2,3) by (simp_all add: D_def)
    define me where "me = rnd_r D"
    have D0: "0 \<le> D" using D(1) by simp
    have me_lo: "D * (1 - 2 / 2 ^ 24) \<le> me" using rnd_r_ge [OF D0] D(1) unfolding me_def by (simp; argo)
    have me_pos: "1 / 4 \<le> me" using me_lo D(1) by (simp; argo)
    have "\<bar>m - d\<bar> \<le> 2 ^ 127" using D D0 unfolding D_def by (simp; argo)
    then have f_me: "fsub (Fin m) (Fin d) = Fin me" by (simp add: fsub_def me_def D_def rnd_fin)
    define ee where "ee = lc - d"
    have ee0: "0 \<le> ee" using True by (simp add: ee_def)
    have ee_up: "ee \<le> D * (1 + 43 / 2 ^ 24)"
      using l_up cn m(2) d(3) unfolding C_def [symmetric] ee_def D_def by (simp; argo)
    have ee_lc: "ee \<le> lc" using d(2) by (simp add: ee_def)
    define eff where "eff = rnd_r ee"
    have eff0: "0 \<le> eff" unfolding eff_def using ee0 by (rule rnd_r_sign(1))
    have eff_up: "eff \<le> D * (1 + 45 / 2 ^ 24)"
      using rnd_r_le [OF ee0] ee_up D(1) unfolding eff_def by (simp; argo)
    have eff_lc: "eff \<le> lc * (1 + 1 / 2 ^ 24) + 1 / 2 ^ 150"
      using rnd_r_le [OF ee0] ee_lc unfolding eff_def by (simp; argo)
    have "\<bar>lc - d\<bar> \<le> 2 ^ 127" using ee0 ee_up D(2) unfolding ee_def by (simp; argo)
    then have f_eff: "fsub (Fin lc) (Fin d) = Fin eff" by (simp add: fsub_def eff_def ee_def rnd_fin)
    define E where "E = eff / me"
    have E0: "0 \<le> E" using eff0 me_pos by (simp add: E_def)
    have "eff / me \<le> (D * (1 + 45 / 2 ^ 24)) / (D * (1 - 2 / 2 ^ 24))"
      using eff_up me_lo D(1) by (intro frac_le) simp_all
    also have "\<dots> = (1 + 45 / 2 ^ 24) / (1 - 2 / 2 ^ 24)" using D(1) by simp
    also have "\<dots> \<le> 1 + 48 / 2 ^ 24" by simp
    finally have E_up: "E \<le> 1 + 48 / 2 ^ 24" by (simp add: E_def)
    define q where "q = rnd_r E"
    have q0: "0 \<le> q" unfolding q_def using E0 by (rule rnd_r_sign(1))
    have q_E: "q \<le> E * (1 + 1 / 2 ^ 24) + 1 / 2 ^ 150" unfolding q_def using E0 by (rule rnd_r_le)
    have q_up: "q \<le> 1 + 50 / 2 ^ 24" using q_E E_up by (simp; argo)
    have "\<bar>E\<bar> \<le> 2 ^ 127" using E0 E_up by (simp; argo)
    then have "rnd E = Fin q" by (simp add: q_def rnd_fin)
    then have f_q: "fdiv (Fin eff) (Fin me) = Fin q" using me_pos by (simp add: E_def)
    have "eff * Z \<le> (lc * (1 + 1 / 2 ^ 24) + 1 / 2 ^ 150) * Z"
      using eff_lc Z(1) by (intro mult_right_mono) simp_all
    also have "\<dots> = (lc * Z) * (1 + 1 / 2 ^ 24) + Z / 2 ^ 150" by (simp add: algebra_simps)
    finally have effZ: "eff * Z \<le> 2" using Zmax unfolding Z(2) by (simp; argo)
    have "(eff * Z) / me \<le> 2 / (1 / 4)"
      using effZ me_pos eff0 Z(1) by (intro frac_le) simp_all
    then have EZ: "E * Z \<le> 8" by (simp add: E_def)
    have "q * Z \<le> (E * (1 + 1 / 2 ^ 24) + 1 / 2 ^ 150) * Z"
      using q_E Z(1) by (intro mult_right_mono) simp_all
    also have "\<dots> = (E * Z) * (1 + 1 / 2 ^ 24) + Z / 2 ^ 150" by (simp add: algebra_simps)
    finally have qZ: "q * Z \<le> 9" using EZ Zmax by (simp; argo)
    define N where "N = C * Z"
    have N0: "0 \<le> N" using C0 Z(1) by (simp add: N_def)
    have "(C * (1 - 4 / 2 ^ 24) - 1 / 2 ^ 73) * Z \<le> lc * Z"
      using l_lo Z(1) by (intro mult_right_mono) simp_all
    then have N_up: "N * (1 - 4 / 2 ^ 24) \<le> 1 + Z / 2 ^ 73"
      unfolding Z(2) by (simp add: N_def algebra_simps)
    have N_max: "N \<le> 2 ^ 77" using N_up Zmax by (simp; argo)
    have cN: "\<bar>cx / lc\<bar> \<le> N" "\<bar>cy / lc\<bar> \<le> N"
    proof -
      have "\<bar>cx\<bar> * Z \<le> C * Z" using cC(1) Z(1) by (intro mult_right_mono) simp_all
      then show "\<bar>cx / lc\<bar> \<le> N" using lpos by (simp add: N_def Z_def)
      have "\<bar>cy\<bar> * Z \<le> C * Z" using cC(2) Z(1) by (intro mult_right_mono) simp_all
      then show "\<bar>cy / lc\<bar> \<le> N" using lpos by (simp add: N_def Z_def)
    qed
    define nx where "nx = rnd_r (cx / lc)"
    define ny where "ny = rnd_r (cy / lc)"
    have enx: "\<bar>nx - Z * cx\<bar> \<le> N / 2 ^ 24 + 1 / 2 ^ 150"
      using rnd_r_error [of "cx / lc"] cN(1) unfolding nx_def by (simp add: Z_def; argo)
    have eny: "\<bar>ny - Z * cy\<bar> \<le> N / 2 ^ 24 + 1 / 2 ^ 150"
      using rnd_r_error [of "cy / lc"] cN(2) unfolding ny_def by (simp add: Z_def; argo)
    define Nn where "Nn = sqrt (nx\<^sup>2 + ny\<^sup>2)"
    have Nn0: "0 \<le> Nn" by (simp add: Nn_def)
    have nN: "\<bar>nx\<bar> \<le> Nn" "\<bar>ny\<bar> \<le> Nn" unfolding Nn_def by (rule abs_le_nrm)+
    have nZ: "sqrt ((Z * cx)\<^sup>2 + (Z * cy)\<^sup>2) = N" using Z(1) by (simp add: nrm_scale N_def C_def)
    then have Nn_up: "Nn \<le> N * (1 + 2 / 2 ^ 24) + 2 / 2 ^ 150"
      using nrm_perturb(1) [OF enx eny] unfolding Nn_def [symmetric] by (simp; argo)
    have "\<bar>cx / lc\<bar> \<le> 2 ^ 127" using cN(1) N_max by (simp; argo)
    moreover have "\<bar>cy / lc\<bar> \<le> 2 ^ 127" using cN(2) N_max by (simp; argo)
    ultimately have f_n: "Vector2_Normalize (Vector2 (Fin cx) (Fin cy)) = Vector2 (Fin nx) (Fin ny)"
      using lpos by (simp add: Vector2_Normalize_def len nx_def ny_def rnd_fin)
    define W where "W = q * N"
    have W0: "0 \<le> W" using q0 N0 by (simp add: W_def)
    have "q * (N * (1 - 4 / 2 ^ 24)) \<le> q * (1 + Z / 2 ^ 73)" using N_up q0 by (rule mult_left_mono)
    then have "W * (1 - 4 / 2 ^ 24) \<le> q + (q * Z) / 2 ^ 73" by (simp add: W_def algebra_simps)
    then have W_up: "W \<le> 1 + 55 / 2 ^ 24" using q_up qZ by (simp; argo)
    define G where "G = q * Nn"
    have G0: "0 \<le> G" using q0 Nn0 by (simp add: G_def)
    have "q * Nn \<le> q * (N * (1 + 2 / 2 ^ 24) + 2 / 2 ^ 150)" using Nn_up q0 by (rule mult_left_mono)
    then have "G \<le> W * (1 + 2 / 2 ^ 24) + q * (2 / 2 ^ 150)" by (simp add: G_def W_def algebra_simps)
    then have G_up: "G \<le> 1 + 58 / 2 ^ 24" using W_up q_up q0 by (simp; argo)
    have nq: "\<bar>nx * q\<bar> \<le> G" "\<bar>ny * q\<bar> \<le> G"
    proof -
      have "\<bar>nx\<bar> * q \<le> Nn * q" using nN(1) q0 by (rule mult_right_mono)
      then show "\<bar>nx * q\<bar> \<le> G" using q0 by (simp add: abs_mult G_def mult.commute)
      have "\<bar>ny\<bar> * q \<le> Nn * q" using nN(2) q0 by (rule mult_right_mono)
      then show "\<bar>ny * q\<bar> \<le> G" using q0 by (simp add: abs_mult G_def mult.commute)
    qed
    define ox where "ox = rnd_r (nx * q)"
    define oy where "oy = rnd_r (ny * q)"
    have eox: "\<bar>ox - q * nx\<bar> \<le> G / 2 ^ 24 + 1 / 2 ^ 150"
      using rnd_r_error [of "nx * q"] nq(1) unfolding ox_def by (simp add: mult.commute; argo)
    have eoy: "\<bar>oy - q * ny\<bar> \<le> G / 2 ^ 24 + 1 / 2 ^ 150"
      using rnd_r_error [of "ny * q"] nq(2) unfolding oy_def by (simp add: mult.commute; argo)
    have nG: "sqrt ((q * nx)\<^sup>2 + (q * ny)\<^sup>2) = G" using q0 by (simp add: nrm_scale G_def Nn_def)
    then have out: "sqrt (ox\<^sup>2 + oy\<^sup>2) \<le> 1 + 1 / 2 ^ 18"
      using nrm_perturb(1) [OF eox eoy] G_up G0 by (simp; argo)
    have "\<bar>nx * q\<bar> \<le> 2 ^ 127" using nq(1) G_up by (simp; argo)
    moreover have "\<bar>ny * q\<bar> \<le> 2 ^ 127" using nq(2) G_up by (simp; argo)
    ultimately have f_o: "fmul (Fin nx) (Fin q) = Fin ox" "fmul (Fin ny) (Fin q) = Fin oy"
      by (simp_all add: ox_def oy_def rnd_fin)
    have pressed: "fgt (Vector2_Length (Vector2 (Fin cx) (Fin cy))) (deadzone_size j)"
      using True by (simp add: len d(1))
    have range: "\<not> fle (fsub (clampzone_size j) (deadzone_size j)) (Fin 0)"
      using me_pos by (simp add: m(1) d(1) f_me)
    have res: "output (update_output j (Vector2 (Fin cx) (Fin cy))) = Vector2 (Fin ox) (Fin oy)"
      "is_pressed (update_output j (Vector2 (Fin cx) (Fin cy)))"
      unfolding update_output_pressed [OF pressed range]
      by (simp_all add: len m(1) d(1) f_me f_eff f_q f_n f_o del: float_ops)
    have "1 - 1 / 2 ^ 18 \<le> sqrt (ox\<^sup>2 + oy\<^sup>2)" if Clo: "m * (1 - 16 / 2 ^ 24) - 1 / 2 ^ 70 \<le> C"
    proof -
      have lc_lo: "m * (1 - 21 / 2 ^ 24) \<le> lc" using Clo l_lo m(2) by (simp; argo)
      have "1 / 2 \<le> lc" using lc_lo m(2) by (simp; argo)
      then have "1 / lc \<le> 1 / (1 / 2)" using lpos by (intro divide_left_mono) simp_all
      then have Z2: "Z \<le> 2" by (simp add: Z_def)
      have ee_lo: "D * (1 - 42 / 2 ^ 24) \<le> ee" using lc_lo d(2,3) unfolding ee_def D_def by (simp; argo)
      have eff_lo: "D * (1 - 44 / 2 ^ 24) \<le> eff"
        using rnd_r_ge [OF ee0] ee_lo D(1) unfolding eff_def by (simp; argo)
      have me_up: "me \<le> D * (1 + 2 / 2 ^ 24)" using rnd_r_le [OF D0] D(1) unfolding me_def by (simp; argo)
      have "(D * (1 - 44 / 2 ^ 24)) / (D * (1 + 2 / 2 ^ 24)) \<le> eff / me"
        using eff_lo me_up me_pos eff0 by (intro frac_le) simp_all
      moreover have "(D * (1 - 44 / 2 ^ 24)) / (D * (1 + 2 / 2 ^ 24)) = (1 - 44 / 2 ^ 24) / (1 + 2 / 2 ^ 24)"
        using D(1) by simp
      moreover have "(1::real) - 47 / 2 ^ 24 \<le> (1 - 44 / 2 ^ 24) / (1 + 2 / 2 ^ 24)" by simp
      ultimately have E_lo: "1 - 47 / 2 ^ 24 \<le> E" by (simp add: E_def)
      have q_lo: "1 - 49 / 2 ^ 24 \<le> q" using rnd_r_ge [OF E0] E_lo unfolding q_def by (simp; argo)
      have "lc * Z \<le> (C * (1 + 4 / 2 ^ 24) + 1 / 2 ^ 73) * Z"
        using l_up Z(1) by (intro mult_right_mono) simp_all
      then have "1 \<le> N * (1 + 4 / 2 ^ 24) + Z / 2 ^ 73" unfolding Z(2) by (simp add: N_def algebra_simps)
      then have N_lo: "1 - 5 / 2 ^ 24 \<le> N" using Z2 by (simp; argo)
      have Nn_lo: "N * (1 - 2 / 2 ^ 24) - 2 / 2 ^ 150 \<le> Nn"
        using nrm_perturb(2) [OF enx eny] nZ
        unfolding Nn_def [symmetric] by (simp; argo)
      have "(1 - 49 / 2 ^ 24) * (1 - 5 / 2 ^ 24) \<le> q * N" using q_lo N_lo by (intro mult_mono) simp_all
      then have W_lo: "1 - 54 / 2 ^ 24 \<le> W" by (simp add: W_def; argo)
      have "q * (N * (1 - 2 / 2 ^ 24) - 2 / 2 ^ 150) \<le> q * Nn" using Nn_lo q0 by (rule mult_left_mono)
      then have "W * (1 - 2 / 2 ^ 24) - q * (2 / 2 ^ 150) \<le> G" by (simp add: G_def W_def algebra_simps)
      then have G_lo: "1 - 57 / 2 ^ 24 \<le> G" using W_lo q_up by (simp; argo)
      show ?thesis
        using nrm_perturb(2) [OF eox eoy] nG G_lo G_up
        by (simp; argo)
    qed
    with out res show ?thesis unfolding C_def by blast
  qed
qed

text \<open>
  The update routine, for a touch position and a base centre on a screen of at most
  8192 pixels and a clamp zone of at most 1024: the tip is within \<open>clampzone_size\<close> of
  the base centre up to \<open>2\<^sup>-\<^sup>7\<close>, and when the dead zone is at most half the clamp zone
  and the clamp zone at least 1, the magnitude of the output is at most 1 up to
  \<open>2\<^sup>-\<^sup>1\<^sup>8\<close>. When the update routine moves the base, the distance is
  \<open>clampzone_size\<close> and the magnitude 1 within the same margins.
\<close>

lemma update_joystick_logic_error:
  assumes p: "bounded_point 8192 p" and b: "bounded_point 8192 (base_center j)"
    and m: "clampzone_size j = Fin m" "0 \<le> m" "m \<le> 1024"
  shows "bounded_point 16384 (base_center (update_joystick_logic j p))"
    "finite_point (tip_center (update_joystick_logic j p))"
    "tip_distance (update_joystick_logic j p) \<le> m + 1 / 2 ^ 7"
    "follows j p \<Longrightarrow> m - 1 / 2 ^ 7 \<le> tip_distance (update_joystick_logic j p)"
    "follows j p \<Longrightarrow> distance (tip_center (update_joystick_logic j p)) p \<le> 1 / 2 ^ 7"
    "deadzone_size j = Fin d \<Longrightarrow> 0 \<le> d \<Longrightarrow> 2 * d \<le> m \<Longrightarrow> 1 \<le> m \<Longrightarrow>
       finite_vec (output (update_joystick_logic j p)) \<and>
       magnitude (output (update_joystick_logic j p)) \<le> 1 + 1 / 2 ^ 18 \<and>
       (follows j p \<longrightarrow> is_pressed (update_joystick_logic j p) \<and>
          1 - 1 / 2 ^ 18 \<le> magnitude (output (update_joystick_logic j p)))"
proof -
  note t = update_tip_distance [OF p b m]
  show "bounded_point 16384 (base_center (update_joystick_logic j p))"
    "finite_point (tip_center (update_joystick_logic j p))"
    "tip_distance (update_joystick_logic j p) \<le> m + 1 / 2 ^ 7"
    using t by blast+
  show "follows j p \<Longrightarrow> m - 1 / 2 ^ 7 \<le> tip_distance (update_joystick_logic j p)"
    "follows j p \<Longrightarrow> distance (tip_center (update_joystick_logic j p)) p \<le> 1 / 2 ^ 7"
    using t by blast+
  show "finite_vec (output (update_joystick_logic j p)) \<and>
       magnitude (output (update_joystick_logic j p)) \<le> 1 + 1 / 2 ^ 18 \<and>
       (follows j p \<longrightarrow> is_pressed (update_joystick_logic j p) \<and>
          1 - 1 / 2 ^ 18 \<le> magnitude (output (update_joystick_logic j p)))"
    if d: "deadzone_size j = Fin d" "0 \<le> d" "2 * d \<le> m" "1 \<le> m"
  proof -
    obtain cx cy where cl: "clamped j p = Vector2 (Fin cx) (Fin cy)"
      and cn: "sqrt (cx\<^sup>2 + cy\<^sup>2) \<le> m * (1 + 16 / 2 ^ 24) + 1 / 2 ^ 70"
      and cn_lo: "follows j p \<longrightarrow> m * (1 - 16 / 2 ^ 24) - 1 / 2 ^ 70 \<le> sqrt (cx\<^sup>2 + cy\<^sup>2)"
      using t by blast
    obtain ox oy where o: "output (update_output j (Vector2 (Fin cx) (Fin cy))) = Vector2 (Fin ox) (Fin oy)"
      and on: "sqrt (ox\<^sup>2 + oy\<^sup>2) \<le> 1 + 1 / 2 ^ 18"
      and on_lo: "m * (1 - 16 / 2 ^ 24) - 1 / 2 ^ 70 \<le> sqrt (cx\<^sup>2 + cy\<^sup>2) \<longrightarrow>
              is_pressed (update_output j (Vector2 (Fin cx) (Fin cy))) \<and>
              1 - 1 / 2 ^ 18 \<le> sqrt (ox\<^sup>2 + oy\<^sup>2)"
      using update_output_magnitude [OF cn m(1) d(4) m(3) d(1,2,3)] by blast
    show ?thesis
      using on on_lo cn_lo
      by (simp add: update_output_of_update cl o magnitude_def finite_vec_def is_finite_def float_val_def)
  qed
qed

text \<open>One event, under the same bounds on the touch position and the base centre.\<close>

lemma activated_fields [simp]:
  "clampzone_size (activated j e) = clampzone_size j"
  "deadzone_size (activated j e) = deadzone_size j"
  "base_center (activated j e) =
     (if joystick_mode j = JOYSTICK_MODE_FIXED then base_center j else touch_pos_of j e)"
  by (simp_all add: activated_def)

lemma magnitude_zero [simp]: "magnitude (Vector2 (Fin 0) (Fin 0)) = 0"
  by (simp add: magnitude_def float_val_def)

lemma finite_vec_zero [simp]: "finite_vec (Vector2 (Fin 0) (Fin 0))"
  by (simp add: finite_vec_def is_finite_def)

lemma HandleEvent_error:
  assumes tp: "bounded_point 8192 (touch_pos_of j e)" and b: "bounded_point 8192 (base_center j)"
    and m: "clampzone_size j = Fin m" "0 \<le> m" "m \<le> 1024"
  shows "tip_distance j \<le> m + 1 / 2 ^ 7 \<Longrightarrow>
           tip_distance (VirtualJoystick_HandleEvent j e) \<le> m + 1 / 2 ^ 7"
    "deadzone_size j = Fin d \<Longrightarrow> 0 \<le> d \<Longrightarrow> 2 * d \<le> m \<Longrightarrow> 1 \<le> m \<Longrightarrow>
       finite_vec (output j) \<and> magnitude (output j) \<le> 1 + 1 / 2 ^ 18 \<Longrightarrow>
       finite_vec (output (VirtualJoystick_HandleEvent j e)) \<and>
       magnitude (output (VirtualJoystick_HandleEvent j e)) \<le> 1 + 1 / 2 ^ 18"
proof -
  have ba: "bounded_point 8192 (base_center (activated j e))" using tp b by simp
  have ma: "clampzone_size (activated j e) = Fin m" using m(1) by simp
  note u1 = update_joystick_logic_error [OF tp b m]
  note u2 = update_joystick_logic_error [OF tp ba ma m(2,3)]
  consider (same) "VirtualJoystick_HandleEvent j e = j"
    | (reset) "VirtualJoystick_HandleEvent j e = reset_joystick j"
    | (motion) "VirtualJoystick_HandleEvent j e = update_joystick_logic j (touch_pos_of j e)"
    | (down) "VirtualJoystick_HandleEvent j e = update_joystick_logic (activated j e) (touch_pos_of j e)"
    using HandleEvent_results [of j e] by auto
  note cases = this
  show "tip_distance (VirtualJoystick_HandleEvent j e) \<le> m + 1 / 2 ^ 7"
    if "tip_distance j \<le> m + 1 / 2 ^ 7"
  proof (cases rule: cases)
    case same
    with that show ?thesis by simp
  next
    case reset
    have "tip_distance (reset_joystick j) = 0" by (simp add: tip_distance_same reset_joystick_eq)
    with reset m(2) show ?thesis by simp
  next
    case motion
    with u1(3) show ?thesis by simp
  next
    case down
    with u2(3) show ?thesis by simp
  qed
  show "finite_vec (output (VirtualJoystick_HandleEvent j e)) \<and>
       magnitude (output (VirtualJoystick_HandleEvent j e)) \<le> 1 + 1 / 2 ^ 18"
    if d: "deadzone_size j = Fin d" "0 \<le> d" "2 * d \<le> m" "1 \<le> m"
      and o: "finite_vec (output j) \<and> magnitude (output j) \<le> 1 + 1 / 2 ^ 18"
  proof (cases rule: cases)
    case same
    with o show ?thesis by simp
  next
    case reset
    then show ?thesis by (simp add: reset_joystick_eq)
  next
    case motion
    with u1(6) [OF d] show ?thesis by simp
  next
    case down
    have "deadzone_size (activated j e) = Fin d" using d(1) by simp
    from u2(6) [OF this d(2,3,4)] down show ?thesis by simp
  qed
qed

section \<open>The claims\<close>

subsection \<open>C1: the output invariant\<close>

text \<open>
  Claim C1. Whenever the pressed flag is false the output is exactly \<open>(0, 0)\<close>: this
  holds of the state that creation returns, after a reset and after the update routine,
  and the event handler keeps it, whatever the configuration. The magnitude of the
  output is 0 after creation and after a reset. After the update routine, and after an
  event when it held before, the magnitude is at most \<open>1 + 2\<^sup>-\<^sup>1\<^sup>8\<close>, for a touch position
  and a base centre with coordinates of at most 8192 pixels, a clamp zone between 1 and
  1024 and a dead zone between 0 and half the clamp zone. The magnitude is not always
  at most 1: the code rounds, and with the default configuration the magnitude after a
  motion can be above 1; with a dead zone just below the clamp zone it can be close to 2
  (\<open>output_magnitude_counterexample\<close>).
\<close>

theorem output_invariant:
  "(VirtualJoystick_Create mo ok rh ax ay width height ww wh = Some j0 \<longrightarrow>
      \<not> is_pressed j0 \<and> output j0 = Vector2 (Fin 0) (Fin 0) \<and> magnitude (output j0) = 0) \<and>
   \<not> is_pressed (reset_joystick j) \<and> output (reset_joystick j) = Vector2 (Fin 0) (Fin 0) \<and>
   magnitude (output (reset_joystick j)) = 0 \<and>
   released_zero (update_joystick_logic j p) \<and>
   (released_zero j \<longrightarrow> released_zero (VirtualJoystick_HandleEvent j e)) \<and>
   (bounded_point 8192 p \<and> bounded_point 8192 (base_center j) \<and>
    clampzone_size j = Fin m \<and> 1 \<le> m \<and> m \<le> 1024 \<and>
    deadzone_size j = Fin d \<and> 0 \<le> d \<and> 2 * d \<le> m \<longrightarrow>
      finite_vec (output (update_joystick_logic j p)) \<and>
      0 \<le> magnitude (output (update_joystick_logic j p)) \<and>
      magnitude (output (update_joystick_logic j p)) \<le> 1 + 1 / 2 ^ 18) \<and>
   (bounded_point 8192 (touch_pos_of j e) \<and> bounded_point 8192 (base_center j) \<and>
    clampzone_size j = Fin m \<and> 1 \<le> m \<and> m \<le> 1024 \<and>
    deadzone_size j = Fin d \<and> 0 \<le> d \<and> 2 * d \<le> m \<and>
    finite_vec (output j) \<and> magnitude (output j) \<le> 1 + 1 / 2 ^ 18 \<longrightarrow>
      finite_vec (output (VirtualJoystick_HandleEvent j e)) \<and>
      magnitude (output (VirtualJoystick_HandleEvent j e)) \<le> 1 + 1 / 2 ^ 18)"
proof (intro conjI impI)
  assume "VirtualJoystick_Create mo ok rh ax ay width height ww wh = Some j0"
  then show "\<not> is_pressed j0" "output j0 = Vector2 (Fin 0) (Fin 0)" "magnitude (output j0) = 0"
    by (simp_all add: Create_fields)
next
  show "\<not> is_pressed (reset_joystick j)" "output (reset_joystick j) = Vector2 (Fin 0) (Fin 0)"
    "magnitude (output (reset_joystick j)) = 0"
    by (simp_all add: reset_joystick_eq)
next
  show "released_zero (update_joystick_logic j p)" by (rule update_released_zero)
next
  assume "released_zero j"
  then show "released_zero (VirtualJoystick_HandleEvent j e)" by (rule released_zero_HandleEvent)
next
  assume a: "bounded_point 8192 p \<and> bounded_point 8192 (base_center j) \<and>
    clampzone_size j = Fin m \<and> 1 \<le> m \<and> m \<le> 1024 \<and>
    deadzone_size j = Fin d \<and> 0 \<le> d \<and> 2 * d \<le> m"
  then have m0: "0 \<le> m" by simp
  from a update_joystick_logic_error(6) [of p j m d] m0
  show "finite_vec (output (update_joystick_logic j p))"
    "magnitude (output (update_joystick_logic j p)) \<le> 1 + 1 / 2 ^ 18"
    by simp_all
  show "0 \<le> magnitude (output (update_joystick_logic j p))" by (simp add: magnitude_def)
next
  assume a: "bounded_point 8192 (touch_pos_of j e) \<and> bounded_point 8192 (base_center j) \<and>
    clampzone_size j = Fin m \<and> 1 \<le> m \<and> m \<le> 1024 \<and>
    deadzone_size j = Fin d \<and> 0 \<le> d \<and> 2 * d \<le> m \<and>
    finite_vec (output j) \<and> magnitude (output j) \<le> 1 + 1 / 2 ^ 18"
  then have m0: "0 \<le> m" by simp
  from a HandleEvent_error(2) [of j e m d] m0
  show "finite_vec (output (VirtualJoystick_HandleEvent j e))"
    "magnitude (output (VirtualJoystick_HandleEvent j e)) \<le> 1 + 1 / 2 ^ 18"
    by simp_all
qed

theorem output_invariant_witness:
  "VirtualJoystick_Create True (\<lambda>_. True) 0 0 0 200 600 1024 1024 = Some example_joystick \<and>
   \<not> is_pressed example_joystick \<and> output example_joystick = Vector2 (Fin 0) (Fin 0) \<and>
   \<not> is_pressed (reset_joystick active_joystick) \<and>
   output (reset_joystick active_joystick) = Vector2 (Fin 0) (Fin 0) \<and>
   released_zero active_joystick \<and>
   released_zero (VirtualJoystick_HandleEvent active_joystick
     (finger_event SDL_FINGERMOTION 7 (51 / 1024) (1 / 8))) \<and>
   bounded_point 8192 (SDL_FPoint (Fin 51) (Fin 128)) \<and>
   bounded_point 8192 (base_center active_joystick) \<and>
   clampzone_size active_joystick = Fin 75 \<and> deadzone_size active_joystick = Fin 10 \<and>
   finite_vec (output active_joystick) \<and> magnitude (output active_joystick) \<le> 1 + 1 / 2 ^ 18 \<and>
   touch_pos_of active_joystick (finger_event SDL_FINGERMOTION 7 (51 / 1024) (1 / 8))
     = SDL_FPoint (Fin 51) (Fin 128) \<and>
   VirtualJoystick_HandleEvent active_joystick (finger_event SDL_FINGERMOTION 7 (51 / 1024) (1 / 8))
     = update_joystick_logic active_joystick (SDL_FPoint (Fin 51) (Fin 128)) \<and>
   is_pressed (update_joystick_logic active_joystick (SDL_FPoint (Fin 51) (Fin 128))) \<and>
   magnitude (output (update_joystick_logic active_joystick (SDL_FPoint (Fin 51) (Fin 128))))
     \<le> 1 + 1 / 2 ^ 18 \<and>
   magnitude (output (VirtualJoystick_HandleEvent active_joystick
     (finger_event SDL_FINGERMOTION 7 (51 / 1024) (1 / 8)))) \<le> 1 + 1 / 2 ^ 18"
proof -
  have r: "released_zero active_joystick" "finite_vec (output active_joystick)"
      "magnitude (output active_joystick) \<le> 1 + 1 / 2 ^ 18"
      "\<not> is_pressed example_joystick" "output example_joystick = Vector2 (Fin 0) (Fin 0)"
    by (simp_all add: released_zero_def active_joystick_def example_joystick_def)
  have bp: "bounded_point 8192 (SDL_FPoint (Fin 51) (Fin 128))"
      "bounded_point 8192 (base_center active_joystick)"
    by (simp_all add: bounded_point_def finite_point_def is_finite_def float_val_def active_facts)
  have he: "VirtualJoystick_HandleEvent active_joystick (finger_event SDL_FINGERMOTION 7 (51 / 1024) (1 / 8))
     = update_joystick_logic active_joystick (SDL_FPoint (Fin 51) (Fin 128))"
    by (simp add: HandleEvent_motion active_facts active_touch_pos)
  have pr: "is_pressed (update_joystick_logic active_joystick (SDL_FPoint (Fin 51) (Fin 128)))"
    by (simp add: active_far_motion)
  from output_invariant [of True "\<lambda>_. True" 0 0 0 200 600 1024 1024 example_joystick
      active_joystick "SDL_FPoint (Fin 51) (Fin 128)"
      "finger_event SDL_FINGERMOTION 7 (51 / 1024) (1 / 8)" 75 10] r bp he pr
  show ?thesis by (simp add: Create_example active_facts active_touch_pos)
qed

theorem output_magnitude_counterexample:
  "VirtualJoystick_Create True (\<lambda>_. True) 0 0 0 200 600 1024 1024 = Some example_joystick \<and>
   VirtualJoystick_HandleEvent example_joystick (finger_event SDL_FINGERDOWN 7 (25 / 512) (25 / 512))
     = active_joystick \<and>
   touch_pos_of active_joystick (finger_event SDL_FINGERMOTION 7 (51 / 1024) (1 / 8))
     = SDL_FPoint (Fin 51) (Fin 128) \<and>
   output (VirtualJoystick_HandleEvent active_joystick (finger_event SDL_FINGERMOTION 7 (51 / 1024) (1 / 8)))
     = Vector2 (Fin (6882395 / 536870912)) (Fin (16775839 / 16777216)) \<and>
   1 < magnitude (Vector2 (Fin (6882395 / 536870912)) (Fin (16775839 / 16777216))) \<and>
   Vector2_Length (Vector2 (Fin (6882395 / 536870912)) (Fin (16775839 / 16777216)))
     = Fin (8388609 / 8388608) \<and>
   output (update_joystick_logic (active_joystick\<lparr>deadzone_size := Fin (9830399 / 131072)\<rparr>)
       (SDL_FPoint (Fin 51) (Fin 128)))
     = Vector2 (Fin (3441197 / 134217728)) (Fin (16775837 / 8388608)) \<and>
   19 / 10 < magnitude (Vector2 (Fin (3441197 / 134217728)) (Fin (16775837 / 8388608)))"
proof -
  have "VirtualJoystick_HandleEvent active_joystick (finger_event SDL_FINGERMOTION 7 (51 / 1024) (1 / 8))
      = update_joystick_logic active_joystick (SDL_FPoint (Fin 51) (Fin 128))"
    by (simp add: HandleEvent_motion active_facts active_touch_pos)
  then have "output (VirtualJoystick_HandleEvent active_joystick (finger_event SDL_FINGERMOTION 7 (51 / 1024) (1 / 8)))
     = Vector2 (Fin (6882395 / 536870912)) (Fin (16775839 / 16777216))"
    by (simp add: active_far_motion)
  moreover have "1 < magnitude (Vector2 (Fin (6882395 / 536870912)) (Fin (16775839 / 16777216)))"
    by (simp add: magnitude_def float_val_def power2_eq_square)
  moreover have "19 / 10 < magnitude (Vector2 (Fin (3441197 / 134217728)) (Fin (16775837 / 8388608)))"
  proof -
    have "(19 / 10 :: real) < sqrt ((3441197 / 134217728)\<^sup>2 + (16775837 / 8388608)\<^sup>2)"
      by (rule real_less_rsqrt) (simp add: power2_eq_square)
    then show ?thesis by (simp add: magnitude_def float_val_def)
  qed
  moreover have "output (update_joystick_logic (active_joystick\<lparr>deadzone_size := Fin (9830399 / 131072)\<rparr>)
       (SDL_FPoint (Fin 51) (Fin 128)))
     = Vector2 (Fin (3441197 / 134217728)) (Fin (16775837 / 8388608))"
    unfolding near_zones_motion by simp
  ultimately show ?thesis
    by (simp add: Create_example example_down active_facts active_touch_pos far_motion_output_length)
qed

subsection \<open>C2: dead zone not below the clamp zone\<close>




subsection \<open>C3: Following mode\<close>

text \<open>
  Claim C3. When the update routine finds the raw vector longer than \<open>clampzone_size\<close>
  in Following mode (\<open>follows\<close>), it moves the base to the touch position minus the
  clamped vector, each difference rounded, and puts the tip at the new base plus the
  clamped vector. When the raw vector is not longer, in particular when its length
  equals \<open>clampzone_size\<close>, and in the other modes, the base stays. When the base
  moves, for a touch position and a base centre with coordinates of at most 8192
  pixels and a clamp zone between 0 and 1024, the tip is within \<open>2\<^sup>-\<^sup>7\<close> of the touch
  position and its distance from the new base is \<open>clampzone_size\<close> up to \<open>2\<^sup>-\<^sup>7\<close>; when
  also the clamp zone is at least 1 and the dead zone between 0 and half the clamp
  zone, the joystick is pressed and the magnitude of the output is 1 up to \<open>2\<^sup>-\<^sup>1\<^sup>8\<close>.
  The distance is not always \<open>clampzone_size\<close> nor the magnitude 1: the code rounds,
  and a dead zone that is not below the clamp zone gives the output \<open>(0, 0)\<close>
  (\<open>following_output_counterexample\<close>).
\<close>

theorem following_relocates_base:
  "(follows j p \<longrightarrow>
      base_center (update_joystick_logic j p) =
        SDL_FPoint (fsub (fpoint_x p) (vec_x (clamped j p))) (fsub (fpoint_y p) (vec_y (clamped j p))) \<and>
      tip_center (update_joystick_logic j p) =
        SDL_FPoint (fadd (fsub (fpoint_x p) (vec_x (clamped j p))) (vec_x (clamped j p)))
                   (fadd (fsub (fpoint_y p) (vec_y (clamped j p))) (vec_y (clamped j p)))) \<and>
   (\<not> follows j p \<longrightarrow> base_center (update_joystick_logic j p) = base_center j) \<and>
   (feq (Vector2_Length (raw_vector j p)) (clampzone_size j) \<longrightarrow>
      base_center (update_joystick_logic j p) = base_center j) \<and>
   (joystick_mode j \<noteq> JOYSTICK_MODE_FOLLOWING \<longrightarrow>
      base_center (update_joystick_logic j p) = base_center j) \<and>
   (follows j p \<and> bounded_point 8192 p \<and> bounded_point 8192 (base_center j) \<and>
    clampzone_size j = Fin m \<and> 0 \<le> m \<and> m \<le> 1024 \<longrightarrow>
      finite_point (tip_center (update_joystick_logic j p)) \<and>
      finite_point (base_center (update_joystick_logic j p)) \<and>
      distance (tip_center (update_joystick_logic j p)) p \<le> 1 / 2 ^ 7 \<and>
      \<bar>tip_distance (update_joystick_logic j p) - m\<bar> \<le> 1 / 2 ^ 7) \<and>
   (follows j p \<and> bounded_point 8192 p \<and> bounded_point 8192 (base_center j) \<and>
    clampzone_size j = Fin m \<and> 1 \<le> m \<and> m \<le> 1024 \<and>
    deadzone_size j = Fin d \<and> 0 \<le> d \<and> 2 * d \<le> m \<longrightarrow>
      is_pressed (update_joystick_logic j p) \<and>
      finite_vec (output (update_joystick_logic j p)) \<and>
      \<bar>magnitude (output (update_joystick_logic j p)) - 1\<bar> \<le> 1 / 2 ^ 18)"
proof -
  have 1: "feq a b \<Longrightarrow> \<not> fgt a b" for a b
    by (cases a; cases b) (simp_all add: fgt_def)
  have 2: "finite_point (tip_center (update_joystick_logic j p)) \<and>
      finite_point (base_center (update_joystick_logic j p)) \<and>
      distance (tip_center (update_joystick_logic j p)) p \<le> 1 / 2 ^ 7 \<and>
      \<bar>tip_distance (update_joystick_logic j p) - m\<bar> \<le> 1 / 2 ^ 7"
    if a: "follows j p \<and> bounded_point 8192 p \<and> bounded_point 8192 (base_center j) \<and>
      clampzone_size j = Fin m \<and> 0 \<le> m \<and> m \<le> 1024"
  proof -
    from a have f: "follows j p" and bp: "bounded_point 8192 p" "bounded_point 8192 (base_center j)"
      and m: "clampzone_size j = Fin m" "0 \<le> m" "m \<le> 1024" by simp_all
    note u = update_joystick_logic_error [OF bp m]
    have "\<bar>tip_distance (update_joystick_logic j p) - m\<bar> \<le> 1 / 2 ^ 7"
      using u(3) u(4) [OF f] by (simp; argo)
    moreover have "finite_point (base_center (update_joystick_logic j p))"
      using u(1) by (simp add: bounded_point_def)
    ultimately show ?thesis using u(2) u(5) [OF f] by blast
  qed
  have 3: "is_pressed (update_joystick_logic j p) \<and>
      finite_vec (output (update_joystick_logic j p)) \<and>
      \<bar>magnitude (output (update_joystick_logic j p)) - 1\<bar> \<le> 1 / 2 ^ 18"
    if a: "follows j p \<and> bounded_point 8192 p \<and> bounded_point 8192 (base_center j) \<and>
      clampzone_size j = Fin m \<and> 1 \<le> m \<and> m \<le> 1024 \<and>
      deadzone_size j = Fin d \<and> 0 \<le> d \<and> 2 * d \<le> m"
  proof -
    from a have f: "follows j p" and bp: "bounded_point 8192 p" "bounded_point 8192 (base_center j)"
      and m: "clampzone_size j = Fin m" "0 \<le> m" "m \<le> 1024"
      and d: "deadzone_size j = Fin d" "0 \<le> d" "2 * d \<le> m" "1 \<le> m" by simp_all
    note u = update_joystick_logic_error(6) [OF bp m d]
    have "\<bar>magnitude (output (update_joystick_logic j p)) - 1\<bar> \<le> 1 / 2 ^ 18"
      using u f by (simp; argo)
    then show ?thesis using u f by blast
  qed
  show ?thesis
    using update_tip_base [of j p] 1 [of "Vector2_Length (raw_vector j p)" "clampzone_size j"] 2 3
    by (auto simp add: follows_def)
qed

theorem following_relocates_base_witness:
  "follows following_joystick (SDL_FPoint (Fin 250) (Fin 300)) \<and>
   clamped following_joystick (SDL_FPoint (Fin 250) (Fin 300)) = Vector2 (Fin 75) (Fin 0) \<and>
   base_center (update_joystick_logic following_joystick (SDL_FPoint (Fin 250) (Fin 300)))
     = SDL_FPoint (Fin 175) (Fin 300) \<and>
   tip_center (update_joystick_logic following_joystick (SDL_FPoint (Fin 250) (Fin 300)))
     = SDL_FPoint (Fin 250) (Fin 300) \<and>
   output (update_joystick_logic following_joystick (SDL_FPoint (Fin 250) (Fin 300)))
     = Vector2 (Fin 1) (Fin 0) \<and>
   \<not> follows following_joystick (SDL_FPoint (Fin 175) (Fin 300)) \<and>
   feq (Vector2_Length (raw_vector following_joystick (SDL_FPoint (Fin 175) (Fin 300))))
     (clampzone_size following_joystick) \<and>
   base_center (update_joystick_logic following_joystick (SDL_FPoint (Fin 175) (Fin 300)))
     = SDL_FPoint (Fin 100) (Fin 300) \<and>
   joystick_mode active_joystick \<noteq> JOYSTICK_MODE_FOLLOWING \<and>
   base_center (update_joystick_logic active_joystick (SDL_FPoint (Fin 51) (Fin 128)))
     = SDL_FPoint (Fin 50) (Fin 50) \<and>
   follows following_joystick (SDL_FPoint (Fin 869) (Fin 121)) \<and>
   bounded_point 8192 (SDL_FPoint (Fin 869) (Fin 121)) \<and>
   bounded_point 8192 (base_center following_joystick) \<and>
   clampzone_size following_joystick = Fin 75 \<and> deadzone_size following_joystick = Fin 10 \<and>
   distance (tip_center (update_joystick_logic following_joystick (SDL_FPoint (Fin 869) (Fin 121))))
     (SDL_FPoint (Fin 869) (Fin 121)) \<le> 1 / 2 ^ 7 \<and>
   \<bar>tip_distance (update_joystick_logic following_joystick (SDL_FPoint (Fin 869) (Fin 121))) - 75\<bar>
     \<le> 1 / 2 ^ 7 \<and>
   is_pressed (update_joystick_logic following_joystick (SDL_FPoint (Fin 869) (Fin 121))) \<and>
   \<bar>magnitude (output (update_joystick_logic following_joystick (SDL_FPoint (Fin 869) (Fin 121)))) - 1\<bar>
     \<le> 1 / 2 ^ 18"
proof -
  have f: "follows following_joystick (SDL_FPoint (Fin 250) (Fin 300))"
      "clamped following_joystick (SDL_FPoint (Fin 250) (Fin 300)) = Vector2 (Fin 75) (Fin 0)"
      "\<not> follows following_joystick (SDL_FPoint (Fin 175) (Fin 300))"
      "feq (Vector2_Length (raw_vector following_joystick (SDL_FPoint (Fin 175) (Fin 300))))
         (clampzone_size following_joystick)"
      "follows following_joystick (SDL_FPoint (Fin 869) (Fin 121))"
      "clampzone_size following_joystick = Fin 75" "deadzone_size following_joystick = Fin 10"
    using following_raw_facts by simp_all
  have bp: "bounded_point 8192 (SDL_FPoint (Fin 869) (Fin 121))"
      "bounded_point 8192 (base_center following_joystick)"
    by (simp_all add: bounded_point_def finite_point_def is_finite_def float_val_def
        following_joystick_def example_joystick_def)
  have o: "output (update_joystick_logic following_joystick (SDL_FPoint (Fin 250) (Fin 300)))
     = Vector2 (Fin 1) (Fin 0)"
    unfolding following_axis_motion by simp
  let ?far = "SDL_FPoint (Fin 869) (Fin 121)"
  have num: "(0::real) \<le> 75" "(1::real) \<le> 75" "(75::real) \<le> 1024" "(0::real) \<le> 10"
      "(2::real) * 10 \<le> 75"
    by simp_all
  have far: "distance (tip_center (update_joystick_logic following_joystick ?far)) ?far \<le> 1 / 2 ^ 7"
      "\<bar>tip_distance (update_joystick_logic following_joystick ?far) - 75\<bar> \<le> 1 / 2 ^ 7"
      "is_pressed (update_joystick_logic following_joystick ?far)"
      "\<bar>magnitude (output (update_joystick_logic following_joystick ?far)) - 1\<bar> \<le> 1 / 2 ^ 18"
    using following_relocates_base [of following_joystick ?far 75 10] f(5,6,7) bp num by blast+
  have ax: "base_center (update_joystick_logic following_joystick (SDL_FPoint (Fin 250) (Fin 300)))
     = SDL_FPoint (Fin 175) (Fin 300)"
    "tip_center (update_joystick_logic following_joystick (SDL_FPoint (Fin 250) (Fin 300)))
     = SDL_FPoint (Fin 250) (Fin 300)"
    unfolding following_axis_motion by simp_all
  have "base_center (update_joystick_logic following_joystick (SDL_FPoint (Fin 175) (Fin 300)))
     = base_center following_joystick"
    using following_relocates_base [of following_joystick "SDL_FPoint (Fin 175) (Fin 300)" 75 10] f(3)
    by blast
  then have bd: "base_center (update_joystick_logic following_joystick (SDL_FPoint (Fin 175) (Fin 300)))
     = SDL_FPoint (Fin 100) (Fin 300)"
    by (simp add: following_joystick_def example_joystick_def)
  have ac: "joystick_mode active_joystick \<noteq> JOYSTICK_MODE_FOLLOWING"
    by (simp add: active_facts)
  then have "base_center (update_joystick_logic active_joystick (SDL_FPoint (Fin 51) (Fin 128)))
     = base_center active_joystick"
    using following_relocates_base [of active_joystick "SDL_FPoint (Fin 51) (Fin 128)" 75 10] by blast
  then have ac2: "base_center (update_joystick_logic active_joystick (SDL_FPoint (Fin 51) (Fin 128)))
     = SDL_FPoint (Fin 50) (Fin 50)"
    by (simp add: active_facts)
  show ?thesis using f bp o far ax bd ac ac2 by blast
qed

theorem following_output_counterexample:
  "follows following_joystick (SDL_FPoint (Fin 869) (Fin 121)) \<and>
   clampzone_size following_joystick = Fin 75 \<and> deadzone_size following_joystick = Fin 10 \<and>
   base_center (update_joystick_logic following_joystick (SDL_FPoint (Fin 869) (Fin 121)))
     = SDL_FPoint (Fin (13040891 / 16384)) (Fin (565261 / 4096)) \<and>
   tip_center (update_joystick_logic following_joystick (SDL_FPoint (Fin 869) (Fin 121)))
     = SDL_FPoint (Fin 869) (Fin (15859711 / 131072)) \<and>
   tip_distance (update_joystick_logic following_joystick (SDL_FPoint (Fin 869) (Fin 121))) < 75 \<and>
   output (update_joystick_logic following_joystick (SDL_FPoint (Fin 869) (Fin 121)))
     = Vector2 (Fin (16340379 / 16777216)) (Fin (- (15214189 / 67108864))) \<and>
   magnitude (Vector2 (Fin (16340379 / 16777216)) (Fin (- (15214189 / 67108864)))) < 1 \<and>
   Vector2_Length (Vector2 (Fin (16340379 / 16777216)) (Fin (- (15214189 / 67108864))))
     = Fin (16777215 / 16777216) \<and>
   follows (misconfigured_joystick\<lparr>joystick_mode := JOYSTICK_MODE_FOLLOWING\<rparr>)
     (SDL_FPoint (Fin 250) (Fin 300)) \<and>
   output (update_joystick_logic (misconfigured_joystick\<lparr>joystick_mode := JOYSTICK_MODE_FOLLOWING\<rparr>)
     (SDL_FPoint (Fin 250) (Fin 300))) = Vector2 (Fin 0) (Fin 0)"
proof -
  have d: "tip_distance (update_joystick_logic following_joystick (SDL_FPoint (Fin 869) (Fin 121))) < 75"
    unfolding following_motion
    by (simp add: tip_distance_def distance_def float_val_def)
       (rule real_less_lsqrt, simp_all add: power2_eq_square)
  have m: "magnitude (Vector2 (Fin (16340379 / 16777216)) (Fin (- (15214189 / 67108864)))) < 1"
    by (simp add: magnitude_def float_val_def power2_eq_square)
  have o: "output (update_joystick_logic (misconfigured_joystick\<lparr>joystick_mode := JOYSTICK_MODE_FOLLOWING\<rparr>)
     (SDL_FPoint (Fin 250) (Fin 300))) = Vector2 (Fin 0) (Fin 0)"
    unfolding misconfigured_following_motion by simp
  have b: "base_center (update_joystick_logic following_joystick (SDL_FPoint (Fin 869) (Fin 121)))
     = SDL_FPoint (Fin (13040891 / 16384)) (Fin (565261 / 4096))"
    "tip_center (update_joystick_logic following_joystick (SDL_FPoint (Fin 869) (Fin 121)))
     = SDL_FPoint (Fin 869) (Fin (15859711 / 131072))"
    "output (update_joystick_logic following_joystick (SDL_FPoint (Fin 869) (Fin 121)))
     = Vector2 (Fin (16340379 / 16777216)) (Fin (- (15214189 / 67108864)))"
    unfolding following_motion by simp_all
  show ?thesis
    using d m o b following_raw_facts following_motion_output_length by simp
qed

subsection \<open>C4: the Dynamic-mode scenario\<close>

text \<open>
  Claim C4. In Dynamic mode with area \<open>(0, 0, 200, 600)\<close>, clamp zone 75 and dead zone
  10, a touch-down at pixel \<open>(50, 50)\<close> moves the base to \<open>(50, 50)\<close>, clears \<open>hidden\<close>
  and runs the update routine at once (the tip is at \<open>(50, 50)\<close>, the output \<open>(0, 0)\<close>).
  The handler stores the low 32 bits of the finger's identifier and compares later
  events with the identifier itself: for the finger 4294967303 it stores 7, and then
  the motion of that finger to \<open>(50, 100)\<close> and its touch-up change nothing. The
  joystick stays visible with the output \<open>(0, 0)\<close>, and a touch-down of another finger
  is ignored, since a touch is tracked. For an identifier that fits an \<open>int\<close> the
  scenario goes as lemma \<open>dynamic_scenario_int_id\<close> says.
\<close>

theorem dynamic_scenario_wide_finger_id:
  "VirtualJoystick_HandleEvent example_joystick
     (finger_event SDL_FINGERDOWN 4294967303 (25 / 512) (25 / 512)) = active_joystick \<and>
   base_center active_joystick = SDL_FPoint (Fin 50) (Fin 50) \<and>
   tip_center active_joystick = SDL_FPoint (Fin 50) (Fin 50) \<and>
   \<not> hidden active_joystick \<and> \<not> is_pressed active_joystick \<and>
   output active_joystick = Vector2 (Fin 0) (Fin 0) \<and>
   touch_index active_joystick = 7 \<and>
   touch_pos_of active_joystick (finger_event SDL_FINGERMOTION 4294967303 (25 / 512) (25 / 256))
     = SDL_FPoint (Fin 50) (Fin 100) \<and>
   VirtualJoystick_HandleEvent active_joystick
     (finger_event SDL_FINGERMOTION 4294967303 (25 / 512) (25 / 256)) = active_joystick \<and>
   VirtualJoystick_HandleEvent active_joystick
     (finger_event SDL_FINGERUP 4294967303 (25 / 512) (25 / 256)) = active_joystick \<and>
   VirtualJoystick_HandleEvent active_joystick
     (finger_event SDL_FINGERDOWN 8 (25 / 512) (25 / 256)) = active_joystick"
proof -
  have "VirtualJoystick_HandleEvent example_joystick
     (finger_event SDL_FINGERDOWN 4294967303 (25 / 512) (25 / 512)) = active_joystick"
    by (simp add: example_down active_facts)
  moreover have "VirtualJoystick_HandleEvent active_joystick
     (finger_event SDL_FINGERMOTION 4294967303 (25 / 512) (25 / 256)) = active_joystick"
    by (simp add: HandleEvent_motion active_facts)
  moreover have "VirtualJoystick_HandleEvent active_joystick
     (finger_event SDL_FINGERUP 4294967303 (25 / 512) (25 / 256)) = active_joystick"
    by (simp add: HandleEvent_up active_facts)
  moreover have "VirtualJoystick_HandleEvent active_joystick
     (finger_event SDL_FINGERDOWN 8 (25 / 512) (25 / 256)) = active_joystick"
    by (intro HandleEvent_down_rejected) (simp_all add: activation_gate_def active_facts)
  moreover have "touch_pos_of active_joystick (finger_event SDL_FINGERMOTION 4294967303 (25 / 512) (25 / 256))
     = SDL_FPoint (Fin 50) (Fin 100)"
    using active_touch_pos(1) [of 7] by (simp add: active_facts)
  ultimately show ?thesis
    by (simp add: active_facts) (simp add: active_joystick_def example_joystick_def)
qed

subsection \<open>C5: the tip and the clamp zone\<close>

text \<open>
  Claim C5. Creation and the reset routine put the tip on the base centre. The update
  routine puts the tip at the base centre plus the clamped vector, the sum being
  rounded. After the update routine, and after an event when it held before, the
  distance from the tip to the base centre is at most \<open>clampzone_size + 2\<^sup>-\<^sup>7\<close>, for a
  touch position and a base centre with coordinates of at most 8192 pixels and a clamp
  zone between 0 and 1024. The distance is not always at most \<open>clampzone_size\<close>: the
  clamp helper and the sum round, and with the default configuration the tip can be
  farther than 75 from the base centre (\<open>tip_distance_counterexample\<close>).
\<close>

theorem tip_invariant:
  "(VirtualJoystick_Create mo ok rh ax ay width height ww wh = Some j0 \<longrightarrow>
      tip_center j0 = base_center j0 \<and> tip_distance j0 = 0) \<and>
   tip_center (reset_joystick j) = base_center (reset_joystick j) \<and>
   tip_distance (reset_joystick j) = 0 \<and>
   tip_center (update_joystick_logic j p) =
     SDL_FPoint (fadd (fpoint_x (base_center (update_joystick_logic j p))) (vec_x (clamped j p)))
                (fadd (fpoint_y (base_center (update_joystick_logic j p))) (vec_y (clamped j p))) \<and>
   (bounded_point 8192 p \<and> bounded_point 8192 (base_center j) \<and>
    clampzone_size j = Fin m \<and> 0 \<le> m \<and> m \<le> 1024 \<longrightarrow>
      finite_point (tip_center (update_joystick_logic j p)) \<and>
      finite_point (base_center (update_joystick_logic j p)) \<and>
      tip_distance (update_joystick_logic j p) \<le> m + 1 / 2 ^ 7) \<and>
   (bounded_point 8192 (touch_pos_of j e) \<and> bounded_point 8192 (base_center j) \<and>
    clampzone_size j = Fin m \<and> 0 \<le> m \<and> m \<le> 1024 \<and> tip_distance j \<le> m + 1 / 2 ^ 7 \<longrightarrow>
      tip_distance (VirtualJoystick_HandleEvent j e) \<le> m + 1 / 2 ^ 7)"
proof (intro conjI impI)
  assume "VirtualJoystick_Create mo ok rh ax ay width height ww wh = Some j0"
  then show "tip_center j0 = base_center j0" "tip_distance j0 = 0"
    by (simp_all add: Create_fields tip_distance_same)
next
  show "tip_center (reset_joystick j) = base_center (reset_joystick j)"
    "tip_distance (reset_joystick j) = 0"
    by (simp_all add: reset_joystick_eq tip_distance_same)
next
  show "tip_center (update_joystick_logic j p) =
     SDL_FPoint (fadd (fpoint_x (base_center (update_joystick_logic j p))) (vec_x (clamped j p)))
                (fadd (fpoint_y (base_center (update_joystick_logic j p))) (vec_y (clamped j p)))"
    by (rule update_tip_base(2))
next
  assume a: "bounded_point 8192 p \<and> bounded_point 8192 (base_center j) \<and>
    clampzone_size j = Fin m \<and> 0 \<le> m \<and> m \<le> 1024"
  from a update_joystick_logic_error(1,2,3) [of p j m]
  show "finite_point (tip_center (update_joystick_logic j p))"
    "finite_point (base_center (update_joystick_logic j p))"
    "tip_distance (update_joystick_logic j p) \<le> m + 1 / 2 ^ 7"
    by (simp_all add: bounded_point_def)
next
  assume a: "bounded_point 8192 (touch_pos_of j e) \<and> bounded_point 8192 (base_center j) \<and>
    clampzone_size j = Fin m \<and> 0 \<le> m \<and> m \<le> 1024 \<and> tip_distance j \<le> m + 1 / 2 ^ 7"
  from a HandleEvent_error(1) [of j e m]
  show "tip_distance (VirtualJoystick_HandleEvent j e) \<le> m + 1 / 2 ^ 7" by simp
qed

theorem tip_invariant_witness:
  "VirtualJoystick_Create True (\<lambda>_. True) 0 0 0 200 600 1024 1024 = Some example_joystick \<and>
   tip_center example_joystick = base_center example_joystick \<and> tip_distance example_joystick = 0 \<and>
   tip_distance (reset_joystick active_joystick) = 0 \<and>
   bounded_point 8192 (SDL_FPoint (Fin 51) (Fin 128)) \<and>
   bounded_point 8192 (base_center active_joystick) \<and>
   clampzone_size active_joystick = Fin 75 \<and> tip_distance active_joystick \<le> 75 + 1 / 2 ^ 7 \<and>
   touch_pos_of active_joystick (finger_event SDL_FINGERMOTION 7 (51 / 1024) (1 / 8))
     = SDL_FPoint (Fin 51) (Fin 128) \<and>
   tip_center (update_joystick_logic active_joystick (SDL_FPoint (Fin 51) (Fin 128)))
     = SDL_FPoint (Fin (13359241 / 262144)) (Fin (16383193 / 131072)) \<and>
   tip_distance (update_joystick_logic active_joystick (SDL_FPoint (Fin 51) (Fin 128)))
     \<le> 75 + 1 / 2 ^ 7 \<and>
   tip_distance (VirtualJoystick_HandleEvent active_joystick
     (finger_event SDL_FINGERMOTION 7 (51 / 1024) (1 / 8))) \<le> 75 + 1 / 2 ^ 7"
proof -
  have bp: "bounded_point 8192 (SDL_FPoint (Fin 51) (Fin 128))"
      "bounded_point 8192 (base_center active_joystick)"
    by (simp_all add: bounded_point_def finite_point_def is_finite_def float_val_def active_facts)
  have td: "tip_distance active_joystick \<le> 75 + 1 / 2 ^ 7"
    by (simp add: tip_distance_def distance_def active_joystick_def example_joystick_def)
  have tc: "tip_center (update_joystick_logic active_joystick (SDL_FPoint (Fin 51) (Fin 128)))
     = SDL_FPoint (Fin (13359241 / 262144)) (Fin (16383193 / 131072))"
    unfolding active_far_motion by simp
  from tip_invariant [of True "\<lambda>_. True" 0 0 0 200 600 1024 1024 example_joystick
      active_joystick "SDL_FPoint (Fin 51) (Fin 128)" 75
      "finger_event SDL_FINGERMOTION 7 (51 / 1024) (1 / 8)"] bp td tc
  show ?thesis by (simp add: Create_example active_facts active_touch_pos)
qed

theorem tip_distance_counterexample:
  "VirtualJoystick_HandleEvent active_joystick (finger_event SDL_FINGERMOTION 7 (51 / 1024) (1 / 8))
     = update_joystick_logic active_joystick (SDL_FPoint (Fin 51) (Fin 128)) \<and>
   clampzone_size (update_joystick_logic active_joystick (SDL_FPoint (Fin 51) (Fin 128))) = Fin 75 \<and>
   base_center (update_joystick_logic active_joystick (SDL_FPoint (Fin 51) (Fin 128)))
     = SDL_FPoint (Fin 50) (Fin 50) \<and>
   tip_center (update_joystick_logic active_joystick (SDL_FPoint (Fin 51) (Fin 128)))
     = SDL_FPoint (Fin (13359241 / 262144)) (Fin (16383193 / 131072)) \<and>
   75 < tip_distance (update_joystick_logic active_joystick (SDL_FPoint (Fin 51) (Fin 128)))"
proof -
  have "75 < tip_distance (update_joystick_logic active_joystick (SDL_FPoint (Fin 51) (Fin 128)))"
    unfolding active_far_motion
    by (simp add: tip_distance_def distance_def float_val_def active_facts)
       (rule real_less_rsqrt, simp add: power2_eq_square)
  then show ?thesis
    by (simp add: HandleEvent_motion active_facts active_touch_pos)
       (simp add: active_far_motion active_facts)
qed

subsection \<open>C6: a hidden joystick is idle\<close>

text \<open>
  Claim C6. If \<open>hidden\<close> is true then the pressed flag is false, no touch is tracked
  (\<open>touch_index = -1\<close>) and base and tip are at the default centre: this holds of the
  state that creation returns and of the state after a reset, and the event handler and
  the window-size setter keep it. The update routine, which the handler calls on a
  state that is not hidden, leaves \<open>hidden\<close> false. The handler and the update routine
  are total functions: they return a state for every input.
\<close>

theorem hidden_invariant:
  "(VirtualJoystick_Create m ok rh ax ay width height ww wh = Some j0 \<longrightarrow> hidden_idle j0) \<and>
   hidden_idle (reset_joystick j) \<and>
   (hidden_idle j \<longrightarrow> hidden_idle (VirtualJoystick_HandleEvent j e)) \<and>
   (hidden_idle j \<and> VirtualJoystick_SetWindowSize (Some j) w' h' = Some j'' \<longrightarrow> hidden_idle j'') \<and>
   (\<not> hidden j \<longrightarrow> \<not> hidden (update_joystick_logic j p) \<and> hidden_idle (update_joystick_logic j p))"
proof (intro conjI impI)
  assume "VirtualJoystick_Create m ok rh ax ay width height ww wh = Some j0"
  then show "hidden_idle j0" by (simp add: hidden_idle_def Create_fields)
next
  show "hidden_idle (reset_joystick j)" by (rule hidden_idle_reset)
next
  assume a: "hidden_idle j"
  from HandleEvent_results [of j e]
  consider (same) "VirtualJoystick_HandleEvent j e = j"
    | (reset) "VirtualJoystick_HandleEvent j e = reset_joystick j"
    | (motion) "\<not> hidden j" "VirtualJoystick_HandleEvent j e = update_joystick_logic j (touch_pos_of j e)"
    | (down) "VirtualJoystick_HandleEvent j e = update_joystick_logic (activated j e) (touch_pos_of j e)"
    by auto
  then show "hidden_idle (VirtualJoystick_HandleEvent j e)"
  proof cases
    case same
    with a show ?thesis by simp
  next
    case reset
    then show ?thesis by (simp add: hidden_idle_reset)
  next
    case motion
    then show ?thesis by (simp add: hidden_idle_def update_keeps)
  next
    case down
    then show ?thesis by (simp add: hidden_idle_def update_keeps)
  qed
next
  assume "hidden_idle j \<and> VirtualJoystick_SetWindowSize (Some j) w' h' = Some j''"
  then show "hidden_idle j''"
    by (auto simp add: VirtualJoystick_SetWindowSize_def hidden_idle_def)
next
  assume "\<not> hidden j"
  then show "\<not> hidden (update_joystick_logic j p)" by (simp add: update_keeps)
next
  assume "\<not> hidden j"
  then show "hidden_idle (update_joystick_logic j p)" by (simp add: hidden_idle_def update_keeps)
qed

theorem hidden_invariant_witness:
  "VirtualJoystick_Create True (\<lambda>_. True) 0 0 0 200 600 1024 1024 = Some example_joystick \<and>
   hidden_idle example_joystick \<and> hidden example_joystick \<and>
   hidden_idle active_joystick \<and> \<not> hidden active_joystick \<and>
   VirtualJoystick_HandleEvent active_joystick (finger_event SDL_FINGERUP 7 0 0)
     = reset_joystick active_joystick \<and>
   hidden (reset_joystick active_joystick) \<and> hidden_idle (reset_joystick active_joystick) \<and>
   VirtualJoystick_SetWindowSize (Some active_joystick) 800 600
     = Some (active_joystick\<lparr>window_width := 800, window_height := 600\<rparr>) \<and>
   hidden_idle (active_joystick\<lparr>window_width := 800, window_height := 600\<rparr>) \<and>
   \<not> hidden (update_joystick_logic active_joystick (SDL_FPoint (Fin 51) (Fin 128))) \<and>
   hidden_idle (update_joystick_logic active_joystick (SDL_FPoint (Fin 51) (Fin 128)))"
proof -
  have up: "VirtualJoystick_HandleEvent active_joystick (finger_event SDL_FINGERUP 7 0 0)
     = reset_joystick active_joystick"
    by (simp add: HandleEvent_up active_facts)
  have h: "hidden (reset_joystick active_joystick)" "hidden example_joystick"
    by (simp_all add: reset_joystick_eq example_joystick_def)
  have sw: "VirtualJoystick_SetWindowSize (Some active_joystick) 800 600
     = Some (active_joystick\<lparr>window_width := 800, window_height := 600\<rparr>)"
    by (simp add: VirtualJoystick_SetWindowSize_def)
  from hidden_invariant [of True "\<lambda>_. True" 0 0 0 200 600 1024 1024 example_joystick
      active_joystick "finger_event SDL_FINGERUP 7 0 0" 800 600
      "active_joystick\<lparr>window_width := 800, window_height := 600\<rparr>" "SDL_FPoint (Fin 51) (Fin 128)"]
  show ?thesis using up h sw by (simp add: active_facts Create_example)
qed

subsection \<open>C7: a rejected touch-down changes nothing\<close>



subsection \<open>C8: the vector helpers\<close>

text \<open>
  Claim C8. A vector whose computed length is 0, and so a vector whose exact length is
  0, is normalised to \<open>(0, 0)\<close>, and the clamp helper returns its argument unchanged when the computed length of that is at
  most \<open>max_len\<close>. For components and \<open>max_len\<close> of magnitude at most \<open>2\<^sup>6\<^sup>0\<close> and
  \<open>max_len \<ge> 0\<close>, the vector that the clamp helper returns has exact length at most
  \<open>max_len + \<epsilon>\<close>, with \<open>\<epsilon> = max_len / 2\<^sup>2\<^sup>0 + 2\<^sup>-\<^sup>7\<^sup>0\<close>. It is not always of length at most
  \<open>max_len\<close>: the helper rounds, and it clamps \<open>(1, 78)\<close> to a vector whose length, the
  exact one and the one that \<open>Vector2_Length\<close> computes, is above 75
  (\<open>clamp_length_counterexample\<close>).
\<close>

theorem vector_helpers:
  "(feq (Vector2_Length v) (Fin 0) \<longrightarrow> Vector2_Normalize v = Vector2 (Fin 0) (Fin 0)) \<and>
   (finite_vec v \<and> magnitude v = 0 \<longrightarrow> Vector2_Normalize v = Vector2 (Fin 0) (Fin 0)) \<and>
   (fle (Vector2_Length v) max_len \<longrightarrow> Vector2_LimitLength v max_len = v) \<and>
   (\<bar>x\<bar> \<le> 2 ^ 60 \<and> \<bar>y\<bar> \<le> 2 ^ 60 \<and> 0 \<le> m \<and> m \<le> 2 ^ 60 \<longrightarrow>
      finite_vec (Vector2_LimitLength (Vector2 (Fin x) (Fin y)) (Fin m)) \<and>
      magnitude (Vector2_LimitLength (Vector2 (Fin x) (Fin y)) (Fin m)) \<le> m + (m / 2 ^ 20 + 1 / 2 ^ 70))"
proof -
  have "finite_vec (Vector2_LimitLength (Vector2 (Fin x) (Fin y)) (Fin m)) \<and>
      magnitude (Vector2_LimitLength (Vector2 (Fin x) (Fin y)) (Fin m)) \<le> m + (m / 2 ^ 20 + 1 / 2 ^ 70)"
    if a: "\<bar>x\<bar> \<le> 2 ^ 60 \<and> \<bar>y\<bar> \<le> 2 ^ 60 \<and> 0 \<le> m \<and> m \<le> 2 ^ 60"
  proof -
    obtain cx cy where c: "Vector2_LimitLength (Vector2 (Fin x) (Fin y)) (Fin m) = Vector2 (Fin cx) (Fin cy)"
      and cn: "sqrt (cx\<^sup>2 + cy\<^sup>2) \<le> m * (1 + 16 / 2 ^ 24) + 1 / 2 ^ 70"
      using Vector2_LimitLength_error [of x y m] a by blast
    have "sqrt (cx\<^sup>2 + cy\<^sup>2) \<le> m + (m / 2 ^ 20 + 1 / 2 ^ 70)" using cn by (simp; argo)
    then show ?thesis by (simp add: c finite_vec_def is_finite_def magnitude_def float_val_def)
  qed
  moreover have "Vector2_Normalize v = Vector2 (Fin 0) (Fin 0)" if a: "finite_vec v \<and> magnitude v = 0"
  proof -
    obtain a b where v: "v = Vector2 a b" by (cases v)
    with a obtain x y where xy: "a = Fin x" "b = Fin y"
      by (cases a; cases b) (simp_all add: finite_vec_def is_finite_def)
    with a v have "x\<^sup>2 + y\<^sup>2 = 0" by (simp add: magnitude_def float_val_def)
    then have "x = 0" "y = 0" by (simp_all add: sum_power2_eq_zero_iff)
    then show ?thesis by (simp add: v xy Vector2_Normalize_def Vector2_Length_def Let_def)
  qed
  ultimately show ?thesis by (simp add: Vector2_Normalize_zero Vector2_LimitLength_within)
qed

theorem vector_helpers_witness:
  "feq (Vector2_Length (Vector2 (Fin 0) (Fin 0))) (Fin 0) \<and>
   finite_vec (Vector2 (Fin 0) (Fin 0)) \<and> magnitude (Vector2 (Fin 0) (Fin 0)) = 0 \<and>
   Vector2_Normalize (Vector2 (Fin 0) (Fin 0)) = Vector2 (Fin 0) (Fin 0) \<and>
   fle (Vector2_Length (Vector2 (Fin 3) (Fin 4))) (Fin 5) \<and>
   Vector2_LimitLength (Vector2 (Fin 3) (Fin 4)) (Fin 5) = Vector2 (Fin 3) (Fin 4) \<and>
   \<bar>1::real\<bar> \<le> 2 ^ 60 \<and> \<bar>78::real\<bar> \<le> 2 ^ 60 \<and> (0::real) \<le> 75 \<and> (75::real) \<le> 2 ^ 60 \<and>
   magnitude (Vector2_LimitLength (Vector2 (Fin 1) (Fin 78)) (Fin 75)) \<le> 75 + (75 / 2 ^ 20 + 1 / 2 ^ 70)"
proof -
  have l0: "Vector2_Length (Vector2 (Fin 0) (Fin 0)) = Fin 0"
    by (simp add: Vector2_Length_def)
  have l5: "Vector2_Length (Vector2 (Fin 3) (Fin 4)) = Fin 5"
    by (simp add: Vector2_Length_def rnd_numeral)
  from vector_helpers [of "Vector2 (Fin 0) (Fin 0)" "Fin 5" 1 78 75]
    vector_helpers [of "Vector2 (Fin 3) (Fin 4)" "Fin 5" 1 78 75]
  show ?thesis by (simp add: l0 l5)
qed

theorem clamp_length_counterexample:
  "Vector2_LimitLength (Vector2 (Fin 1) (Fin 78)) (Fin 75)
     = Vector2 (Fin (16130613 / 16777216)) (Fin (9829593 / 131072)) \<and>
   75 < magnitude (Vector2 (Fin (16130613 / 16777216)) (Fin (9829593 / 131072))) \<and>
   Vector2_Length (Vector2 (Fin (16130613 / 16777216)) (Fin (9829593 / 131072)))
     = Fin (9830401 / 131072) \<and>
   fgt (Fin (9830401 / 131072)) (Fin 75)"
proof -
  have "75 < magnitude (Vector2 (Fin (16130613 / 16777216)) (Fin (9829593 / 131072)))"
    by (simp add: magnitude_def float_val_def) (rule real_less_rsqrt, simp add: power2_eq_square)
  then show ?thesis by (simp add: clamp_example)
qed

subsection \<open>C9 and C10: reset and the window-size setter\<close>

text \<open>
  Claim C9. Resetting twice gives the state that resetting once gives: not pressed,
  output \<open>(0, 0)\<close>, no tracked touch, base and tip at the default centre, hidden.
\<close>

theorem reset_idempotent:
  "reset_joystick (reset_joystick j) = reset_joystick j \<and>
   \<not> is_pressed (reset_joystick j) \<and>
   output (reset_joystick j) = Vector2 (Fin 0) (Fin 0) \<and>
   touch_index (reset_joystick j) = - 1 \<and>
   base_center (reset_joystick j) = base_default_center j \<and>
   tip_center (reset_joystick j) = base_default_center j \<and>
   base_default_center (reset_joystick j) = base_default_center j \<and>
   hidden (reset_joystick j)"
  by (cases "tip_texture j") (simp_all add: reset_joystick_eq SDL_SetTextureColorMod_def)

text \<open>
  Claim C10. The window-size setter stores the two integers and changes no other
  field; in particular it does not reset the joystick. On a null pointer it does
  nothing.
\<close>

theorem set_window_size_frame:
  "VirtualJoystick_SetWindowSize None width height = None \<and>
   (\<exists>j'. VirtualJoystick_SetWindowSize (Some j) width height = Some j' \<and>
     window_width j' = width \<and> window_height j' = height \<and>
     is_pressed j' = is_pressed j \<and> output j' = output j \<and>
     base_center j' = base_center j \<and> tip_center j' = tip_center j \<and>
     touch_index j' = touch_index j \<and> hidden j' = hidden j \<and>
     renderer j' = renderer j \<and> joystick_area j' = joystick_area j \<and>
     pressed_color j' = pressed_color j \<and> deadzone_size j' = deadzone_size j \<and>
     clampzone_size j' = clampzone_size j \<and> joystick_mode j' = joystick_mode j \<and>
     base_texture j' = base_texture j \<and> tip_texture j' = tip_texture j \<and>
     base_default_center j' = base_default_center j \<and>
     default_tip_color j' = default_tip_color j \<and>
     base_radius j' = base_radius j \<and> tip_radius j' = tip_radius j \<and>
     j'\<lparr>window_width := window_width j, window_height := window_height j\<rparr> = j)"
  by (simp add: VirtualJoystick_SetWindowSize_def)

end
